theory Spec2Isabelle
  imports Main "HOL-Library.AList"
begin

section \<open>JavaScript values, objects and the store\<close>

text \<open>
  The endpoint modules are JavaScript classes whose methods receive dynamically typed
  arguments, mutate the caller's \<open>options\<close> object through \<open>Object.assign\<close>
  and hand a request over to the dispatcher of the base class.  Values are therefore modelled
  with an explicit store: a primitive is a value, an object or array is a reference into the
  store, so that the caller and the operation see the same object.

  Numbers are integers (timestamps, quantities in the examples); floating point is not
  modelled.  Strings are lists of 8-bit characters; the symbols the exchange knows are ASCII.
  An object is represented by its enumerable own properties, in insertion order; accessors,
  prototypes other than the built-in ones and frozen objects are outside the model, and the
  special place JavaScript gives integer-like keys in the listing order is not tracked.
  Property values are data, never functions, and a boxed primitive is represented by its
  enumerable properties alone, so that no object of the store has methods of its own.
\<close>

datatype jsval = Undefined | Null | Bool bool | Num int | Str string | Ref nat

type_synonym props = "(string \<times> jsval) list"

datatype jsobj = Object props | Array "jsval list" props

datatype dispatch = Signed | Public

record request =
  via :: dispatch
  verb :: string
  path :: string
  params :: jsval

record state =
  heap :: "jsobj list"
  sent :: "request list"

datatype error = MissingParameterError "string list" | ReferenceError string | TypeError

type_synonym 'a exec = "state \<Rightarrow> (error + 'a) \<times> state"

type_synonym globals = "string \<Rightarrow> jsval option"

type_synonym operation = "globals \<Rightarrow> jsval list \<Rightarrow> request exec"

subsection \<open>Sequencing and exceptions\<close>

definition ret :: "'a \<Rightarrow> 'a exec" where
  "ret x = (\<lambda>s. (Inr x, s))"

definition throw :: "error \<Rightarrow> 'a exec" where
  "throw e = (\<lambda>s. (Inl e, s))"

definition bind :: "'a exec \<Rightarrow> ('a \<Rightarrow> 'b exec) \<Rightarrow> 'b exec" where
  "bind m f = (\<lambda>s. case m s of (Inl e, s') \<Rightarrow> (Inl e, s') | (Inr x, s') \<Rightarrow> f x s')"

definition seq :: "unit exec \<Rightarrow> 'a exec \<Rightarrow> 'a exec" where
  "seq m n = bind m (\<lambda>_. n)"

definition if_then :: "bool exec \<Rightarrow> unit exec \<Rightarrow> unit exec" where
  "if_then c m = bind c (\<lambda>b. if b then m else ret ())"

primrec for_each :: "'a list \<Rightarrow> ('a \<Rightarrow> unit exec) \<Rightarrow> unit exec" where
  "for_each [] body = ret ()"
| "for_each (x # xs) body = seq (body x) (for_each xs body)"

primrec map_exec :: "('a \<Rightarrow> 'b exec) \<Rightarrow> 'a list \<Rightarrow> 'b list exec" where
  "map_exec f [] = ret []"
| "map_exec f (x # xs) = bind (f x) (\<lambda>y. bind (map_exec f xs) (\<lambda>ys. ret (y # ys)))"

subsection \<open>Properties of objects\<close>

definition own_props :: "jsobj \<Rightarrow> props" where
  "own_props obj = (case obj of Object ps \<Rightarrow> ps | Array es ps \<Rightarrow> ps)"

definition with_props :: "jsobj \<Rightarrow> props \<Rightarrow> jsobj" where
  "with_props obj ps = (case obj of Object _ \<Rightarrow> Object ps | Array es _ \<Rightarrow> Array es ps)"

definition lookup :: "props \<Rightarrow> string \<Rightarrow> jsval" where
  "lookup ps k = (case map_of ps k of None \<Rightarrow> Undefined | Some v \<Rightarrow> v)"

definition get :: "jsobj \<Rightarrow> string \<Rightarrow> jsval" where
  "get obj k = lookup (own_props obj) k"

text \<open>
  Writing a property keeps the place of a key that is already there and appends a new key,
  as JavaScript's ordinary objects do for string keys.
\<close>

definition assign_props :: "props \<Rightarrow> props \<Rightarrow> props" where
  "assign_props ps fs = fold (\<lambda>(k, v). AList.update k v) fs ps"

text \<open>
  The store is a list of objects and a reference is an index into it.  Every reference a
  JavaScript program can hold points to an object; for totality a reference beyond the end
  of the store reads as an empty object, and a write through it is lost.
\<close>

definition obj_at :: "jsobj list \<Rightarrow> nat \<Rightarrow> jsobj" where
  "obj_at h a = (if a < length h then h ! a else Object [])"

definition property :: "jsobj list \<Rightarrow> jsval \<Rightarrow> string \<Rightarrow> jsval" where
  "property h v k = (case v of Ref a \<Rightarrow> get (obj_at h a) k | _ \<Rightarrow> Undefined)"

definition alloc :: "jsobj \<Rightarrow> jsval exec" where
  "alloc obj = (\<lambda>s. (Inr (Ref (length (heap s))), s\<lparr>heap := heap s @ [obj]\<rparr>))"

subsection \<open>Strings\<close>

text \<open>
  \<open>String.prototype.toUpperCase\<close> on ASCII text: the letters a to z are mapped to A to Z,
  every other character is kept.
\<close>

definition toUpperCase_char :: "char \<Rightarrow> char" where
  "toUpperCase_char c =
     (case map_of (zip ''abcdefghijklmnopqrstuvwxyz'' ''ABCDEFGHIJKLMNOPQRSTUVWXYZ'') c of
        None \<Rightarrow> c | Some u \<Rightarrow> u)"

definition toUpperCase_string :: "string \<Rightarrow> string" where
  "toUpperCase_string s = map toUpperCase_char s"

text \<open>The decimal key of an array index, as in \<open>a[10]\<close> being the property \<open>"10"\<close>.\<close>

fun index_key :: "nat \<Rightarrow> string" where
  "index_key n =
     (if n < 10 then [''0123456789'' ! n]
      else index_key (n div 10) @ [''0123456789'' ! (n mod 10)])"

definition index_props :: "jsval list \<Rightarrow> props" where
  "index_props es = map (\<lambda>i. (index_key i, es ! i)) [0..<length es]"

text \<open>
  The enumerable own properties of a value, as the spread syntax and the boxing of a
  primitive see them: a string has one property per character, numbers and booleans none.
\<close>

definition enumerable_props :: "jsobj list \<Rightarrow> jsval \<Rightarrow> props" where
  "enumerable_props h v =
     (case v of
        Str s \<Rightarrow> index_props (map (\<lambda>c. Str [c]) s)
      | Ref a \<Rightarrow> (case obj_at h a of Object ps \<Rightarrow> ps | Array es ps \<Rightarrow> index_props es @ ps)
      | _ \<Rightarrow> [])"

section \<open>The JavaScript the operations are written in\<close>

text \<open>
  Each construct the method bodies use is one combinator.  An expression is a computation
  that yields a value or throws; a combinator evaluates its operands from left to right, as
  a JavaScript call evaluates its arguments.
\<close>

subsection \<open>Parameters and identifiers\<close>

text \<open>
  A call binds the formal parameters to the arguments by position; a parameter with no
  argument is \<open>undefined\<close>, and a default initialiser is used exactly when the argument is
  \<open>undefined\<close>.
\<close>

definition param :: "jsval list \<Rightarrow> nat \<Rightarrow> jsval" where
  "param args i = (if i < length args then args ! i else Undefined)"

definition default_param :: "jsval \<Rightarrow> jsval exec \<Rightarrow> jsval exec" where
  "default_param v d = (if v = Undefined then d else ret v)"

text \<open>
  An identifier that is neither a parameter nor a local of the method is resolved in the
  global scope; when nothing is bound there, reading it throws a \<open>ReferenceError\<close>.
\<close>

definition free_identifier :: "globals \<Rightarrow> string \<Rightarrow> jsval exec" where
  "free_identifier G x = (case G x of None \<Rightarrow> throw (ReferenceError x) | Some v \<Rightarrow> ret v)"

definition no_globals :: globals where
  "no_globals = (\<lambda>x. None)"

subsection \<open>Expressions\<close>

text \<open>
  \<open>e.toUpperCase()\<close>: only a string has the method; on \<open>undefined\<close> and \<open>null\<close> the
  property access throws, on any other value the call of a non-function does.
\<close>

definition toUpperCase :: "jsval exec \<Rightarrow> jsval exec" where
  "toUpperCase e =
     bind e (\<lambda>v. case v of Str s \<Rightarrow> ret (Str (toUpperCase_string s)) | _ \<Rightarrow> throw TypeError)"

text \<open>
  An object literal evaluates its property values in order.  \<open>object_literal\<close> yields the
  properties; \<open>new_object\<close> puts them into the store, for the literals whose object outlives
  the expression.
\<close>

primrec object_literal :: "(string \<times> jsval exec) list \<Rightarrow> props exec" where
  "object_literal [] = ret []"
| "object_literal (f # fs) =
     bind (snd f) (\<lambda>v. bind (object_literal fs) (\<lambda>ps. ret ((fst f, v) # ps)))"

definition new_object :: "props exec \<Rightarrow> jsval exec" where
  "new_object e = bind e (\<lambda>ps. alloc (Object ps))"

definition truthy :: "jsval \<Rightarrow> bool" where
  "truthy v = (case v of Undefined \<Rightarrow> False | Null \<Rightarrow> False | Bool b \<Rightarrow> b | Num n \<Rightarrow> n \<noteq> 0
                | Str s \<Rightarrow> s \<noteq> [] | Ref a \<Rightarrow> True)"

definition or_else :: "jsval exec \<Rightarrow> jsval exec \<Rightarrow> jsval exec" where
  "or_else e d = bind e (\<lambda>v. if truthy v then ret v else d)"

text \<open>
  \<open>o.k\<close> throws on \<open>undefined\<close> and \<open>null\<close>; on a primitive it finds none of the names the
  sources read (\<open>symbol\<close>, \<open>baseURL\<close>, ...).  \<open>o.k = e\<close> evaluates \<open>e\<close> and writes; the
  sources are strict-mode code, where writing a property of a primitive throws.
\<close>

definition get_property :: "jsval \<Rightarrow> string \<Rightarrow> jsval exec" where
  "get_property v k =
     (\<lambda>s. case v of Undefined \<Rightarrow> (Inl TypeError, s) | Null \<Rightarrow> (Inl TypeError, s)
          | Ref a \<Rightarrow> (Inr (get (obj_at (heap s) a) k), s)
          | _ \<Rightarrow> (Inr Undefined, s))"

definition write_props :: "nat \<Rightarrow> props \<Rightarrow> state \<Rightarrow> state" where
  "write_props a fs s =
     s\<lparr>heap := (heap s)[a := with_props (obj_at (heap s) a)
                              (assign_props (own_props (obj_at (heap s) a)) fs)]\<rparr>"

definition set_property :: "jsval \<Rightarrow> string \<Rightarrow> jsval exec \<Rightarrow> unit exec" where
  "set_property v k e =
     bind e (\<lambda>x s. case v of Ref a \<Rightarrow> (Inr (), write_props a [(k, x)] s)
                     | _ \<Rightarrow> (Inl TypeError, s))"

definition hasOwnProperty :: "jsval \<Rightarrow> string \<Rightarrow> bool exec" where
  "hasOwnProperty v k =
     (\<lambda>s. case v of Undefined \<Rightarrow> (Inl TypeError, s) | Null \<Rightarrow> (Inl TypeError, s)
          | Ref a \<Rightarrow> (Inr (k \<in> set (map fst (own_props (obj_at (heap s) a)))), s)
          | _ \<Rightarrow> (Inr False, s))"

text \<open>
  \<open>Object.assign(target, source)\<close> copies the properties of the source into the target and
  returns the target: the object the caller passed is the one that is changed.  A primitive
  target is boxed, that is a new object with the primitive's enumerable properties receives
  the copies; \<open>undefined\<close> and \<open>null\<close> cannot be boxed.
\<close>

definition Object_assign :: "jsval exec \<Rightarrow> props exec \<Rightarrow> jsval exec" where
  "Object_assign target source =
     bind target (\<lambda>t. bind source (\<lambda>fs s.
       case t of
         Undefined \<Rightarrow> (Inl TypeError, s)
       | Null \<Rightarrow> (Inl TypeError, s)
       | Ref a \<Rightarrow> (Inr (Ref a), write_props a fs s)
       | _ \<Rightarrow> alloc (Object (assign_props (enumerable_props (heap s) t) fs)) s))"

text \<open>
  \<open>{a, b, ...o}\<close>: the named properties first, then the enumerable own properties of \<open>o\<close>
  written over them (\<open>undefined\<close> and \<open>null\<close> spread to nothing).
\<close>

definition spread_literal :: "(string \<times> jsval exec) list \<Rightarrow> jsval \<Rightarrow> props exec" where
  "spread_literal fs v =
     bind (object_literal fs) (\<lambda>ps s. (Inr (assign_props ps (enumerable_props (heap s) v)), s))"

subsection \<open>Arrays\<close>

text \<open>
  The values \<open>v[0]\<close>, ..., \<open>v[v.length - 1]\<close> that a counting loop over \<open>v\<close> visits.  Reading
  \<open>length\<close> throws on \<open>undefined\<close> and \<open>null\<close>; numbers and booleans have no length, so the
  loop body never runs; a string is visited character by character.  An object that is not an
  array is visited through its own \<open>length\<close> property when that is a number; the coercion of
  any other \<open>length\<close> value to a number is outside the model and such an object counts as empty.
\<close>

definition elements :: "jsval \<Rightarrow> jsval list exec" where
  "elements v =
     (\<lambda>s. case v of
         Undefined \<Rightarrow> (Inl TypeError, s)
       | Null \<Rightarrow> (Inl TypeError, s)
       | Str str \<Rightarrow> (Inr (map (\<lambda>c. Str [c]) str), s)
       | Ref a \<Rightarrow>
           (case obj_at (heap s) a of
              Array es ps \<Rightarrow> (Inr es, s)
            | Object ps \<Rightarrow>
                (case lookup ps ''length'' of
                   Num n \<Rightarrow> (Inr (map (\<lambda>i. lookup ps (index_key i)) [0..<nat n]), s)
                 | _ \<Rightarrow> (Inr [], s)))
       | _ \<Rightarrow> (Inr [], s))"

text \<open>
  \<open>const { k1, ..., kn } = v\<close> throws on \<open>undefined\<close> and \<open>null\<close> and reads the named
  properties otherwise.
\<close>

definition destructure :: "jsval \<Rightarrow> string list \<Rightarrow> props exec" where
  "destructure v ks = map_exec (\<lambda>k. bind (get_property v k) (\<lambda>x. ret (k, x))) ks"

text \<open>\<open>e.map(f)\<close>: only an array has the method; the result is a new array.\<close>

definition array_map :: "jsval exec \<Rightarrow> (jsval \<Rightarrow> jsval exec) \<Rightarrow> jsval exec" where
  "array_map e f =
     bind e (\<lambda>v s. case v of
         Ref a \<Rightarrow>
           (case obj_at (heap s) a of
              Array es ps \<Rightarrow> bind (map_exec f es) (\<lambda>ys. alloc (Array ys [])) s
            | Object ps \<Rightarrow> (Inl TypeError, s))
       | _ \<Rightarrow> (Inl TypeError, s))"

section \<open>The helpers the operations call\<close>

text \<open>
  Modelled from the spec: \<open>validateRequiredParameters\<close> lives in \<open>helpers/validation\<close>,
  which is not among the sources.  The specification (section 4.1) gives its contract:
  given a mapping of parameter name to value, it fails with a \<open>MissingParameterError\<close>
  naming every parameter whose value is undefined, null, or empty-string; it has no side
  effect.
\<close>

definition isEmptyValue :: "jsval \<Rightarrow> bool" where
  "isEmptyValue v = (v = Undefined \<or> v = Null \<or> v = Str [])"

definition validateRequiredParameters :: "props exec \<Rightarrow> unit exec" where
  "validateRequiredParameters e =
     bind e (\<lambda>ps. case filter (\<lambda>p. isEmptyValue (snd p)) ps of
                     [] \<Rightarrow> ret ()
                   | missing \<Rightarrow> throw (MissingParameterError (map fst missing)))"

text \<open>
  Modelled from the spec: \<open>signRequest\<close> and \<open>publicRequest\<close> are methods of \<open>APIBase\<close>,
  which is not among the sources.  By the specification (sections 4.2 to 4.4) an operation
  delegates to the Dispatcher via the signed path or via the unsigned path, and only the
  Dispatcher issues network calls.  The model stops at this hand-over: the request descriptor
  (path taken, HTTP verb, URL path, parameter object) is appended to the log \<open>sent\<close>, which
  is the count of network calls that were attempted, and the descriptor is the result.
\<close>

definition dispatcher :: "dispatch \<Rightarrow> string \<Rightarrow> string \<Rightarrow> jsval exec \<Rightarrow> request exec" where
  "dispatcher d m p e =
     bind e (\<lambda>ps s. (Inr \<lparr>via = d, verb = m, path = p, params = ps\<rparr>,
                     s\<lparr>sent := sent s @ [\<lparr>via = d, verb = m, path = p, params = ps\<rparr>]\<rparr>))"

definition signRequest :: "string \<Rightarrow> string \<Rightarrow> jsval exec \<Rightarrow> request exec" where
  "signRequest = dispatcher Signed"

definition publicRequest :: "string \<Rightarrow> string \<Rightarrow> jsval exec \<Rightarrow> request exec" where
  "publicRequest = dispatcher Public"

section \<open>The endpoint modules\<close>

text \<open>
  Every method body is transcribed statement by statement.  A declared parameter is a bound
  variable, bound to the argument at its position; any other identifier is a free identifier.
  The temporary object literals passed to \<open>validateRequiredParameters\<close> and
  \<open>Object.assign\<close> are not put into the store, nothing can reach them afterwards.
\<close>

subsection \<open>Account\<close>

text \<open>
    The module \<open>Account\<close> (part_000, lines 68 to 405).  None of its methods declares
  a parameter: \<open>timestamp\<close>, \<open>options\<close>, \<open>symbol\<close>,
  \<open>startTime\<close> and \<open>endTime\<close> are free identifiers of the bodies.
\<close>

text \<open>\<open>futuresAccountBalanceV3\<close>, part_000 lines 90 to 99.\<close>

definition futuresAccountBalanceV3 :: operation where
  "futuresAccountBalanceV3 G args =
     seq (validateRequiredParameters (object_literal
            [(''timestamp'', free_identifier G ''timestamp'')]))
         (publicRequest ''GET'' ''/fapi/v3/balance''
            (Object_assign (free_identifier G ''options'')
               (object_literal
                  [(''timestamp'', free_identifier G ''timestamp'')])))"

text \<open>\<open>futuresAccountBalanceV2\<close>, part_000 lines 112 to 121.\<close>

definition futuresAccountBalanceV2 :: operation where
  "futuresAccountBalanceV2 G args =
     seq (validateRequiredParameters (object_literal
            [(''timestamp'', free_identifier G ''timestamp'')]))
         (publicRequest ''GET'' ''/fapi/v2/balance''
            (Object_assign (free_identifier G ''options'')
               (object_literal
                  [(''timestamp'', free_identifier G ''timestamp'')])))"

text \<open>\<open>accountInformationV3\<close>, part_000 lines 134 to 143.\<close>

definition accountInformationV3 :: operation where
  "accountInformationV3 G args =
     seq (validateRequiredParameters (object_literal
            [(''timestamp'', free_identifier G ''timestamp'')]))
         (publicRequest ''GET'' ''/fapi/v3/account''
            (Object_assign (free_identifier G ''options'')
               (object_literal
                  [(''timestamp'', free_identifier G ''timestamp'')])))"

text \<open>\<open>accountInformationV2\<close>, part_000 lines 156 to 165.\<close>

definition accountInformationV2 :: operation where
  "accountInformationV2 G args =
     seq (validateRequiredParameters (object_literal
            [(''timestamp'', free_identifier G ''timestamp'')]))
         (publicRequest ''GET'' ''/fapi/v2/account''
            (Object_assign (free_identifier G ''options'')
               (object_literal
                  [(''timestamp'', free_identifier G ''timestamp'')])))"

text \<open>\<open>userComissionRate\<close>, part_000 lines 179 to 189.\<close>

definition userComissionRate :: operation where
  "userComissionRate G args =
     seq (validateRequiredParameters (object_literal
            [(''symbol'', free_identifier G ''symbol''),
             (''timestamp'', free_identifier G ''timestamp'')]))
         (publicRequest ''GET'' ''/fapi/v1/commissionRate''
            (Object_assign (free_identifier G ''options'')
               (object_literal
                  [(''symbol'', toUpperCase (free_identifier G ''symbol'')),
                   (''timestamp'', free_identifier G ''timestamp'')])))"

text \<open>\<open>futuresAccountConfiguration\<close>, part_000 lines 202 to 211.\<close>

definition futuresAccountConfiguration :: operation where
  "futuresAccountConfiguration G args =
     seq (validateRequiredParameters (object_literal
            [(''timestamp'', free_identifier G ''timestamp'')]))
         (publicRequest ''GET'' ''/fapi/v1/accountConfig''
            (Object_assign (free_identifier G ''options'')
               (object_literal
                  [(''timestamp'', free_identifier G ''timestamp'')])))"

text \<open>\<open>futuresSymbolConfiguration\<close>, part_000 lines 225 to 235.\<close>

definition futuresSymbolConfiguration :: operation where
  "futuresSymbolConfiguration G args =
     seq (validateRequiredParameters (object_literal
            [(''timestamp'', free_identifier G ''timestamp'')]))
         (publicRequest ''GET'' ''/fapi/v1/symbolConfig''
            (Object_assign (free_identifier G ''options'')
               (object_literal
                  [(''symbol'', toUpperCase (free_identifier G ''symbol'')),
                   (''timestamp'', free_identifier G ''timestamp'')])))"

text \<open>\<open>queryOrderRateLimit\<close>, part_000 lines 248 to 258.\<close>

definition queryOrderRateLimit :: operation where
  "queryOrderRateLimit G args =
     seq (validateRequiredParameters (object_literal
            [(''timestamp'', free_identifier G ''timestamp'')]))
         (publicRequest ''GET'' ''/fapi/v1/rateLimit/order''
            (Object_assign (free_identifier G ''options'')
               (object_literal
                  [(''symbol'', toUpperCase (free_identifier G ''symbol'')),
                   (''timestamp'', free_identifier G ''timestamp'')])))"

text \<open>\<open>leverageBracket\<close>, part_000 lines 272 to 281.\<close>

definition leverageBracket :: operation where
  "leverageBracket G args =
     seq (validateRequiredParameters (object_literal
            [(''timestamp'', free_identifier G ''timestamp'')]))
         (publicRequest ''GET'' ''/fapi/v1/leverageBracket''
            (Object_assign (free_identifier G ''options'')
               (object_literal
                  [(''timestamp'', free_identifier G ''timestamp'')])))"

text \<open>\<open>multiAssetMargin\<close>, part_000 lines 294 to 303.\<close>

definition multiAssetMargin :: operation where
  "multiAssetMargin G args =
     seq (validateRequiredParameters (object_literal
            [(''timestamp'', free_identifier G ''timestamp'')]))
         (publicRequest ''GET'' ''/fapi/v1/multiAssetsMargin''
            (Object_assign (free_identifier G ''options'')
               (object_literal
                  [(''timestamp'', free_identifier G ''timestamp'')])))"

text \<open>\<open>currentPositionMode\<close>, part_000 lines 316 to 325.\<close>

definition currentPositionMode :: operation where
  "currentPositionMode G args =
     seq (validateRequiredParameters (object_literal
            [(''timestamp'', free_identifier G ''timestamp'')]))
         (publicRequest ''GET'' ''/fapi/v1/positionSide/dual''
            (Object_assign (free_identifier G ''options'')
               (object_literal
                  [(''timestamp'', free_identifier G ''timestamp'')])))"

text \<open>\<open>getIncomeHistory\<close>, part_000 lines 344 to 353.\<close>

definition getIncomeHistory :: operation where
  "getIncomeHistory G args =
     seq (validateRequiredParameters (object_literal
            [(''timestamp'', free_identifier G ''timestamp'')]))
         (publicRequest ''GET'' ''/fapi/v1/income''
            (Object_assign (free_identifier G ''options'')
               (object_literal
                  [(''timestamp'', free_identifier G ''timestamp'')])))"

text \<open>\<open>apiTradingStatus\<close>, part_000 lines 367 to 376.\<close>

definition apiTradingStatus :: operation where
  "apiTradingStatus G args =
     seq (validateRequiredParameters (object_literal
            [(''timestamp'', free_identifier G ''timestamp'')]))
         (publicRequest ''GET'' ''/fapi/v1/apiTradingStatus''
            (Object_assign (free_identifier G ''options'')
               (object_literal
                  [(''timestamp'', free_identifier G ''timestamp'')])))"

text \<open>\<open>getDownloadIdTransactionHistory\<close>, part_000 lines 391 to 402.\<close>

definition getDownloadIdTransactionHistory :: operation where
  "getDownloadIdTransactionHistory G args =
     seq (validateRequiredParameters (object_literal
            [(''startTime'', free_identifier G ''startTime''),
             (''endTime'', free_identifier G ''endTime''),
             (''timestamp'', free_identifier G ''timestamp'')]))
         (publicRequest ''GET'' ''/fapi/v1/income/asyn''
            (Object_assign (free_identifier G ''options'')
               (object_literal
                  [(''startTime'', free_identifier G ''startTime''),
                   (''endTime'', free_identifier G ''endTime''),
                   (''timestamp'', free_identifier G ''timestamp'')])))"

text \<open>The class body, in the order of the source.\<close>

definition Account :: "(string \<times> operation) list" where
  "Account =
     [(''futuresAccountBalanceV3'', futuresAccountBalanceV3),
      (''futuresAccountBalanceV2'', futuresAccountBalanceV2),
      (''accountInformationV3'', accountInformationV3),
      (''accountInformationV2'', accountInformationV2),
      (''userComissionRate'', userComissionRate),
      (''futuresAccountConfiguration'', futuresAccountConfiguration),
      (''futuresSymbolConfiguration'', futuresSymbolConfiguration),
      (''queryOrderRateLimit'', queryOrderRateLimit),
      (''leverageBracket'', leverageBracket), (''multiAssetMargin'', multiAssetMargin),
      (''currentPositionMode'', currentPositionMode),
      (''getIncomeHistory'', getIncomeHistory), (''apiTradingStatus'', apiTradingStatus),
      (''getDownloadIdTransactionHistory'', getDownloadIdTransactionHistory)]"

subsection \<open>Trade\<close>

text \<open>
  The module \<open>Trade\<close> (part_000, lines 406 to 1163).  Its class body defines \<open>newOrder\<close> twice; the second definition is \<open>newOrder_dup\<close> here.
\<close>

text \<open>\<open>newOrder\<close>, part_000 lines 457 to 470.\<close>

definition newOrder :: operation where
  "newOrder G args =
     (let symbol = param args 0;
          side = param args 1;
          type = param args 2;
          timestamp = param args 3 in
      bind (default_param (param args 4) (new_object (object_literal []))) (\<lambda>options.
      seq (validateRequiredParameters (object_literal
            [(''symbol'', ret symbol), (''side'', ret side), (''type'', ret type),
             (''timestamp'', ret timestamp)]))
          (signRequest ''POST'' ''/fapi/v1/order''
            (Object_assign (ret options)
               (object_literal
                  [(''symbol'', toUpperCase (ret symbol)),
                   (''side'', toUpperCase (ret side)), (''type'', toUpperCase (ret type)),
                   (''timestamp'', ret timestamp)])))))"

text \<open>\<open>placeMultipleOrder\<close>, part_000 lines 485 to 499.\<close>

definition placeMultipleOrder :: operation where
  "placeMultipleOrder G args =
     (let batchOrders = param args 0;
          timestamp = param args 1 in
      bind (default_param (param args 2) (new_object (object_literal []))) (\<lambda>options.
      seq (bind (elements batchOrders) (\<lambda>visited. for_each visited (\<lambda>element.
             bind (destructure element [''symbol'', ''side'', ''type'', ''quantity''])
               (\<lambda>locals. validateRequiredParameters (ret locals)))))
     (seq (validateRequiredParameters (object_literal [(''timestamp'', ret timestamp)]))
          (signRequest ''POST'' ''/fapi/v1/batchOrders''
            (Object_assign (ret options)
               (object_literal
                  [(''batchOrders'', ret batchOrders), (''timestamp'', ret timestamp)]))))))"

text \<open>\<open>modifyOrder\<close>, part_000 lines 521 to 534.\<close>

definition modifyOrder :: operation where
  "modifyOrder G args =
     (let symbol = param args 0;
          side = param args 1;
          number = param args 2;
          price = param args 3;
          timestamp = param args 4 in
      bind (default_param (param args 5) (new_object (object_literal []))) (\<lambda>options.
      seq (validateRequiredParameters (object_literal
            [(''symbol'', ret symbol), (''side'', ret side), (''number'', ret number),
             (''price'', ret price), (''timestamp'', ret timestamp)]))
          (signRequest ''PUT'' ''/fapi/v1/order''
            (Object_assign (ret options)
               (object_literal
                  [(''symbol'', toUpperCase (ret symbol)),
                   (''side'', toUpperCase (ret side)), (''number'', ret number),
                   (''price'', ret price), (''timestamp'', ret timestamp)])))))"

text \<open>\<open>modifyMultipleOrder\<close>, part_000 lines 549 to 569.\<close>

definition modifyMultipleOrder :: operation where
  "modifyMultipleOrder G args =
     (let batchOrders = param args 0;
          timestamp = param args 1 in
      bind (default_param (param args 2) (new_object (object_literal []))) (\<lambda>options.
      seq (bind (elements batchOrders) (\<lambda>visited. for_each visited (\<lambda>element.
             bind (destructure element
                     [''symbol'', ''side'', ''quantity'', ''price'', ''timestamp''])
               (\<lambda>locals. validateRequiredParameters (ret locals)))))
     (seq (validateRequiredParameters (object_literal [(''timestamp'', ret timestamp)]))
          (signRequest ''PUT'' ''/fapi/v1/batchOrders''
            (Object_assign (ret options)
               (object_literal
                  [(''batchOrders'', ret batchOrders), (''timestamp'', ret timestamp)]))))))"

text \<open>\<open>orderModifyHistory\<close>, part_000 lines 589 to 599.\<close>

definition orderModifyHistory :: operation where
  "orderModifyHistory G args =
     (let symbol = param args 0;
          timestamp = param args 1 in
      bind (default_param (param args 2) (new_object (object_literal []))) (\<lambda>options.
      seq (validateRequiredParameters (object_literal
            [(''symbol'', ret symbol), (''timestamp'', ret timestamp)]))
          (publicRequest ''GET'' ''/fapi/v1/orderAmendment''
            (Object_assign (ret options)
               (object_literal
                  [(''symbol'', toUpperCase (ret symbol)), (''timestamp'', ret timestamp)])))))"

text \<open>\<open>cancelOrder\<close>, part_000 lines 615 to 626.\<close>

definition cancelOrder :: operation where
  "cancelOrder G args =
     (let symbol = param args 0;
          timestamp = param args 1 in
      bind (default_param (param args 2) (new_object (object_literal []))) (\<lambda>options.
      seq (validateRequiredParameters (object_literal
            [(''symbol'', ret symbol), (''timestamp'', ret timestamp)]))
          (signRequest ''DELETE'' ''/fapi/v1/order''
            (Object_assign (ret options)
               (object_literal
                  [(''symbol'', toUpperCase (ret symbol)), (''timestamp'', ret timestamp)])))))"

text \<open>\<open>cancelMultipleOrders\<close>, part_000 lines 643 to 653.\<close>

definition cancelMultipleOrders :: operation where
  "cancelMultipleOrders G args =
     (let symbol = param args 0;
          timestamp = param args 1 in
      bind (default_param (param args 2) (new_object (object_literal []))) (\<lambda>options.
      seq (validateRequiredParameters (object_literal
            [(''symbol'', ret symbol), (''timestamp'', ret timestamp)]))
          (signRequest ''DELETE'' ''/fapi/v1/batchOrders''
            (Object_assign (ret options)
               (object_literal
                  [(''symbol'', toUpperCase (ret symbol)), (''timestamp'', ret timestamp)])))))"

text \<open>\<open>cancelAllOpenOrders\<close>, part_000 lines 668 to 678.\<close>

definition cancelAllOpenOrders :: operation where
  "cancelAllOpenOrders G args =
     (let symbol = param args 0;
          timestamp = param args 1 in
      bind (default_param (param args 2) (new_object (object_literal []))) (\<lambda>options.
      seq (validateRequiredParameters (object_literal
            [(''symbol'', ret symbol), (''timestamp'', ret timestamp)]))
          (signRequest ''DELETE'' ''/fapi/v1/allOpenOrders''
            (Object_assign (ret options)
               (object_literal
                  [(''symbol'', toUpperCase (ret symbol)), (''timestamp'', ret timestamp)])))))"

text \<open>\<open>countDownCancelAll\<close>, part_000 lines 694 to 705.\<close>

definition countDownCancelAll :: operation where
  "countDownCancelAll G args =
     (let symbol = param args 0;
          timestamp = param args 1;
          countdownTime = param args 2 in
      bind (default_param (param args 3) (new_object (object_literal []))) (\<lambda>options.
      seq (validateRequiredParameters (object_literal
            [(''symbol'', ret symbol), (''timestamp'', ret timestamp),
             (''countdownTime'', ret countdownTime)]))
          (signRequest ''POST'' ''/fapi/v1/countdownCancelAll''
            (Object_assign (ret options)
               (object_literal
                  [(''symbol'', toUpperCase (ret symbol)),
                   (''countdownTime'', ret countdownTime), (''timestamp'', ret timestamp)])))))"

text \<open>\<open>queryOrder\<close>, part_000 lines 722 to 732.\<close>

definition queryOrder :: operation where
  "queryOrder G args =
     (let symbol = param args 0;
          timestamp = param args 1 in
      bind (default_param (param args 2) (new_object (object_literal []))) (\<lambda>options.
      seq (validateRequiredParameters (object_literal
            [(''symbol'', ret symbol), (''timestamp'', ret timestamp)]))
          (publicRequest ''GET'' ''/fapi/v1/order''
            (Object_assign (ret options)
               (object_literal
                  [(''symbol'', toUpperCase (ret symbol)), (''timestamp'', ret timestamp)])))))"

text \<open>\<open>queryAllOrders\<close>, part_000 lines 751 to 761.\<close>

definition queryAllOrders :: operation where
  "queryAllOrders G args =
     (let symbol = param args 0;
          timestamp = param args 1 in
      bind (default_param (param args 2) (new_object (object_literal []))) (\<lambda>options.
      seq (validateRequiredParameters (object_literal
            [(''symbol'', ret symbol), (''timestamp'', ret timestamp)]))
          (publicRequest ''GET'' ''/fapi/v1/allOrders''
            (Object_assign (ret options)
               (object_literal
                  [(''symbol'', toUpperCase (ret symbol)), (''timestamp'', ret timestamp)])))))"

text \<open>\<open>queryCurrentAllOpenOrders\<close>, part_000 lines 776 to 785.\<close>

definition queryCurrentAllOpenOrders :: operation where
  "queryCurrentAllOpenOrders G args =
     (let timestamp = param args 0 in
      bind (default_param (param args 1) (new_object (object_literal []))) (\<lambda>options.
      seq (validateRequiredParameters (object_literal
            [(''timestamp'', ret timestamp)]))
          (publicRequest ''GET'' ''/fapi/v1/openOrders''
            (Object_assign (ret options)
               (object_literal
                  [(''timestamp'', ret timestamp)])))))"

text \<open>\<open>queryCurrentOpenOrder\<close>, part_000 lines 802 to 812.\<close>

definition queryCurrentOpenOrder :: operation where
  "queryCurrentOpenOrder G args =
     (let symbol = param args 0;
          timestamp = param args 1 in
      bind (default_param (param args 2) (new_object (object_literal []))) (\<lambda>options.
      seq (validateRequiredParameters (object_literal
            [(''symbol'', ret symbol), (''timestamp'', ret timestamp)]))
          (publicRequest ''GET'' ''/fapi/v1/openOrder''
            (Object_assign (ret options)
               (object_literal
                  [(''symbol'', toUpperCase (ret symbol)), (''timestamp'', ret timestamp)])))))"

text \<open>\<open>forceOrders\<close>, part_000 lines 831 to 840.\<close>

definition forceOrders :: operation where
  "forceOrders G args =
     (let timestamp = param args 0 in
      bind (default_param (param args 1) (new_object (object_literal []))) (\<lambda>options.
      seq (validateRequiredParameters (object_literal
            [(''symbol'', free_identifier G ''symbol''), (''timestamp'', ret timestamp)]))
          (publicRequest ''GET'' ''/fapi/v1/forceOrders''
            (Object_assign (ret options)
               (object_literal
                  [(''timestamp'', ret timestamp)])))))"

text \<open>\<open>queryUserTrades\<close>, part_000 lines 860 to 870.\<close>

definition queryUserTrades :: operation where
  "queryUserTrades G args =
     (let symbol = param args 0;
          timestamp = param args 1 in
      bind (default_param (param args 2) (new_object (object_literal []))) (\<lambda>options.
      seq (validateRequiredParameters (object_literal
            [(''symbol'', ret symbol), (''timestamp'', ret timestamp)]))
          (publicRequest ''GET'' ''/fapi/v1/userTrades''
            (Object_assign (ret options)
               (object_literal
                  [(''symbol'', toUpperCase (ret symbol)), (''timestamp'', ret timestamp)])))))"

text \<open>\<open>changeMarginType\<close>, part_000 lines 886 to 897.\<close>

definition changeMarginType :: operation where
  "changeMarginType G args =
     (let symbol = param args 0;
          marginType = param args 1;
          timestamp = param args 2 in
      bind (default_param (param args 3) (new_object (object_literal []))) (\<lambda>options.
      seq (validateRequiredParameters (object_literal
            [(''symbol'', ret symbol), (''marginType'', ret marginType),
             (''timestamp'', ret timestamp)]))
          (signRequest ''POST'' ''/fapi/v1/marginType''
            (Object_assign (ret options)
               (object_literal
                  [(''symbol'', toUpperCase (ret symbol)),
                   (''marginType'', toUpperCase (ret marginType)),
                   (''timestamp'', ret timestamp)])))))"

text \<open>\<open>changePositionMode\<close>, part_000 lines 912 to 922.\<close>

definition changePositionMode :: operation where
  "changePositionMode G args =
     (let dualSidePosition = param args 0;
          timestamp = param args 1 in
      bind (default_param (param args 2) (new_object (object_literal []))) (\<lambda>options.
      seq (validateRequiredParameters (object_literal
            [(''dualSidePosition'', ret dualSidePosition), (''timestamp'', ret timestamp)]))
          (signRequest ''POST'' ''/fapi/v1/positionSide/dual''
            (Object_assign (ret options)
               (object_literal
                  [(''dualSidePosition'', ret dualSidePosition),
                   (''timestamp'', ret timestamp)])))))"

text \<open>\<open>changeLeverage\<close>, part_000 lines 938 to 949.\<close>

definition changeLeverage :: operation where
  "changeLeverage G args =
     (let symbol = param args 0;
          leverage = param args 1;
          timestamp = param args 2 in
      bind (default_param (param args 3) (new_object (object_literal []))) (\<lambda>options.
      seq (validateRequiredParameters (object_literal
            [(''symbol'', ret symbol), (''leverage'', ret leverage),
             (''timestamp'', ret timestamp)]))
          (signRequest ''POST'' ''/fapi/v1/leverage''
            (Object_assign (ret options)
               (object_literal
                  [(''symbol'', toUpperCase (ret symbol)), (''leverage'', ret leverage),
                   (''timestamp'', ret timestamp)])))))"

text \<open>\<open>changeMultiAssetType\<close>, part_000 lines 964 to 974.\<close>

definition changeMultiAssetType :: operation where
  "changeMultiAssetType G args =
     (let multiAssetsMargin = param args 0;
          timestamp = param args 1 in
      bind (default_param (param args 2) (new_object (object_literal []))) (\<lambda>options.
      seq (validateRequiredParameters (object_literal
            [(''multiAssetsMargin'', ret multiAssetsMargin),
             (''timestamp'', ret timestamp)]))
          (signRequest ''POST'' ''/fapi/v1/multiAssetsMargin''
            (Object_assign (ret options)
               (object_literal
                  [(''multiAssetsMargin'', ret multiAssetsMargin),
                   (''timestamp'', ret timestamp)])))))"

text \<open>\<open>modifyIsolatedMargin\<close>, part_000 lines 992 to 1004.\<close>

definition modifyIsolatedMargin :: operation where
  "modifyIsolatedMargin G args =
     (let symbol = param args 0;
          amount = param args 1;
          type = param args 2;
          timestamp = param args 3 in
      bind (default_param (param args 4) (new_object (object_literal []))) (\<lambda>options.
      seq (validateRequiredParameters (object_literal
            [(''symbol'', ret symbol), (''amount'', ret amount), (''type'', ret type),
             (''timestamp'', ret timestamp)]))
          (signRequest ''POST'' ''/fapi/v1/positionMargin''
            (Object_assign (ret options)
               (object_literal
                  [(''symbol'', toUpperCase (ret symbol)), (''amount'', ret amount),
                   (''type'', ret type), (''timestamp'', ret timestamp)])))))"

text \<open>\<open>positionInformationV2\<close>, part_000 lines 1019 to 1028.\<close>

definition positionInformationV2 :: operation where
  "positionInformationV2 G args =
     (let timestamp = param args 0 in
      bind (default_param (param args 1) (new_object (object_literal []))) (\<lambda>options.
      seq (validateRequiredParameters (object_literal
            [(''timestamp'', ret timestamp)]))
          (publicRequest ''GET'' ''/fapi/v2/positionRisk''
            (Object_assign (ret options)
               (object_literal
                  [(''timestamp'', ret timestamp)])))))"

text \<open>\<open>positionInformationV3\<close>, part_000 lines 1043 to 1052.\<close>

definition positionInformationV3 :: operation where
  "positionInformationV3 G args =
     (let timestamp = param args 0 in
      bind (default_param (param args 1) (new_object (object_literal []))) (\<lambda>options.
      seq (validateRequiredParameters (object_literal
            [(''timestamp'', ret timestamp)]))
          (publicRequest ''GET'' ''/fapi/v3/positionRisk''
            (Object_assign (ret options)
               (object_literal
                  [(''timestamp'', ret timestamp)])))))"

text \<open>\<open>adlQuantile\<close>, part_000 lines 1067 to 1076.\<close>

definition adlQuantile :: operation where
  "adlQuantile G args =
     (let timestamp = param args 0 in
      bind (default_param (param args 1) (new_object (object_literal []))) (\<lambda>options.
      seq (validateRequiredParameters (object_literal
            [(''timestamp'', ret timestamp)]))
          (publicRequest ''GET'' ''/fapi/v3/positionRisk''
            (Object_assign (ret options)
               (object_literal
                  [(''timestamp'', ret timestamp)])))))"

text \<open>\<open>positionMarginHistory\<close>, part_000 lines 1095 to 1105.\<close>

definition positionMarginHistory :: operation where
  "positionMarginHistory G args =
     (let symbol = param args 0;
          timestamp = param args 1 in
      bind (default_param (param args 2) (new_object (object_literal []))) (\<lambda>options.
      seq (validateRequiredParameters (object_literal
            [(''symbol'', ret symbol), (''timestamp'', ret timestamp)]))
          (publicRequest ''GET'' ''/fapi/v1/positionMargin/history''
            (Object_assign (ret options)
               (object_literal
                  [(''symbol'', toUpperCase (ret symbol)), (''timestamp'', ret timestamp)])))))"

text \<open>\<open>newOrder\<close>, part_000 lines 1147 to 1160.\<close>

definition newOrder_dup :: operation where
  "newOrder_dup G args =
     (let symbol = param args 0;
          side = param args 1;
          type = param args 2;
          timestamp = param args 3 in
      bind (default_param (param args 4) (new_object (object_literal []))) (\<lambda>options.
      seq (validateRequiredParameters (object_literal
            [(''symbol'', ret symbol), (''side'', ret side), (''type'', ret type),
             (''timestamp'', ret timestamp)]))
          (signRequest ''POST'' ''/fapi/v1/order/test''
            (Object_assign (ret options)
               (object_literal
                  [(''symbol'', toUpperCase (ret symbol)),
                   (''side'', toUpperCase (ret side)), (''type'', toUpperCase (ret type)),
                   (''timestamp'', ret timestamp)])))))"

text \<open>The class body, in the order of the source.\<close>

definition Trade :: "(string \<times> operation) list" where
  "Trade =
     [(''newOrder'', newOrder), (''placeMultipleOrder'', placeMultipleOrder),
      (''modifyOrder'', modifyOrder), (''modifyMultipleOrder'', modifyMultipleOrder),
      (''orderModifyHistory'', orderModifyHistory), (''cancelOrder'', cancelOrder),
      (''cancelMultipleOrders'', cancelMultipleOrders),
      (''cancelAllOpenOrders'', cancelAllOpenOrders),
      (''countDownCancelAll'', countDownCancelAll), (''queryOrder'', queryOrder),
      (''queryAllOrders'', queryAllOrders),
      (''queryCurrentAllOpenOrders'', queryCurrentAllOpenOrders),
      (''queryCurrentOpenOrder'', queryCurrentOpenOrder), (''forceOrders'', forceOrders),
      (''queryUserTrades'', queryUserTrades), (''changeMarginType'', changeMarginType),
      (''changePositionMode'', changePositionMode), (''changeLeverage'', changeLeverage),
      (''changeMultiAssetType'', changeMultiAssetType),
      (''modifyIsolatedMargin'', modifyIsolatedMargin),
      (''positionInformationV2'', positionInformationV2),
      (''positionInformationV3'', positionInformationV3), (''adlQuantile'', adlQuantile),
      (''positionMarginHistory'', positionMarginHistory), (''newOrder'', newOrder_dup)]"

subsection \<open>The second Trade file\<close>

text \<open>
  A second file that also exports a module \<open>Trade\<close> (part_000, lines 1164 to 1685); its definitions carry the suffix \<open>_2\<close>.
\<close>

text \<open>\<open>newOrder\<close>, part_000 lines 1215 to 1228.\<close>

definition newOrder_2 :: operation where
  "newOrder_2 G args =
     (let symbol = param args 0;
          side = param args 1;
          type = param args 2;
          timestamp = param args 3 in
      bind (default_param (param args 4) (new_object (object_literal []))) (\<lambda>options.
      seq (validateRequiredParameters (object_literal
            [(''symbol'', ret symbol), (''side'', ret side), (''type'', ret type),
             (''timestamp'', ret timestamp)]))
          (signRequest ''POST'' ''/fapi/v1/order''
            (Object_assign (ret options)
               (object_literal
                  [(''symbol'', toUpperCase (ret symbol)),
                   (''side'', toUpperCase (ret side)), (''type'', toUpperCase (ret type)),
                   (''timestamp'', ret timestamp)])))))"

text \<open>\<open>placeMultipleOrder\<close>, part_000 lines 1243 to 1257.\<close>

definition placeMultipleOrder_2 :: operation where
  "placeMultipleOrder_2 G args =
     (let batchOrders = param args 0;
          timestamp = param args 1 in
      bind (default_param (param args 2) (new_object (object_literal []))) (\<lambda>options.
      seq (bind (elements batchOrders) (\<lambda>visited. for_each visited (\<lambda>element.
             bind (destructure element [''symbol'', ''side'', ''type'', ''quantity''])
               (\<lambda>locals. validateRequiredParameters (ret locals)))))
     (seq (validateRequiredParameters (object_literal [(''timestamp'', ret timestamp)]))
          (signRequest ''POST'' ''/fapi/v1/batchOrders''
            (Object_assign (ret options)
               (object_literal
                  [(''batchOrders'', ret batchOrders), (''timestamp'', ret timestamp)]))))))"

text \<open>\<open>modifyOrder\<close>, part_000 lines 1279 to 1292.\<close>

definition modifyOrder_2 :: operation where
  "modifyOrder_2 G args =
     (let symbol = param args 0;
          side = param args 1;
          number = param args 2;
          price = param args 3;
          timestamp = param args 4 in
      bind (default_param (param args 5) (new_object (object_literal []))) (\<lambda>options.
      seq (validateRequiredParameters (object_literal
            [(''symbol'', ret symbol), (''side'', ret side), (''number'', ret number),
             (''price'', ret price), (''timestamp'', ret timestamp)]))
          (signRequest ''PUT'' ''/fapi/v1/order''
            (Object_assign (ret options)
               (object_literal
                  [(''symbol'', toUpperCase (ret symbol)),
                   (''side'', toUpperCase (ret side)), (''number'', ret number),
                   (''price'', ret price), (''timestamp'', ret timestamp)])))))"

text \<open>\<open>modifyMultipleOrder\<close>, part_000 lines 1307 to 1327.\<close>

definition modifyMultipleOrder_2 :: operation where
  "modifyMultipleOrder_2 G args =
     (let batchOrders = param args 0;
          timestamp = param args 1 in
      bind (default_param (param args 2) (new_object (object_literal []))) (\<lambda>options.
      seq (bind (elements batchOrders) (\<lambda>visited. for_each visited (\<lambda>element.
             bind (destructure element
                     [''symbol'', ''side'', ''quantity'', ''price'', ''timestamp''])
               (\<lambda>locals. validateRequiredParameters (ret locals)))))
     (seq (validateRequiredParameters (object_literal [(''timestamp'', ret timestamp)]))
          (signRequest ''PUT'' ''/fapi/v1/batchOrders''
            (Object_assign (ret options)
               (object_literal
                  [(''batchOrders'', ret batchOrders), (''timestamp'', ret timestamp)]))))))"

text \<open>\<open>orderModifyHistory\<close>, part_000 lines 1347 to 1357.\<close>

definition orderModifyHistory_2 :: operation where
  "orderModifyHistory_2 G args =
     (let symbol = param args 0;
          timestamp = param args 1 in
      bind (default_param (param args 2) (new_object (object_literal []))) (\<lambda>options.
      seq (validateRequiredParameters (object_literal
            [(''symbol'', ret symbol), (''timestamp'', ret timestamp)]))
          (signRequest ''GET'' ''/fapi/v1/orderAmendment''
            (Object_assign (ret options)
               (object_literal
                  [(''symbol'', toUpperCase (ret symbol)), (''timestamp'', ret timestamp)])))))"

text \<open>\<open>cancelOrder\<close>, part_000 lines 1373 to 1384.\<close>

definition cancelOrder_2 :: operation where
  "cancelOrder_2 G args =
     (let symbol = param args 0;
          timestamp = param args 1 in
      bind (default_param (param args 2) (new_object (object_literal []))) (\<lambda>options.
      seq (validateRequiredParameters (object_literal
            [(''symbol'', ret symbol), (''timestamp'', ret timestamp)]))
          (signRequest ''DELETE'' ''/fapi/v1/order''
            (Object_assign (ret options)
               (object_literal
                  [(''symbol'', toUpperCase (ret symbol)), (''timestamp'', ret timestamp)])))))"

text \<open>\<open>cancelMultipleOrders\<close>, part_000 lines 1401 to 1411.\<close>

definition cancelMultipleOrders_2 :: operation where
  "cancelMultipleOrders_2 G args =
     (let symbol = param args 0;
          timestamp = param args 1 in
      bind (default_param (param args 2) (new_object (object_literal []))) (\<lambda>options.
      seq (validateRequiredParameters (object_literal
            [(''symbol'', ret symbol), (''timestamp'', ret timestamp)]))
          (signRequest ''DELETE'' ''/fapi/v1/batchOrders''
            (Object_assign (ret options)
               (object_literal
                  [(''symbol'', toUpperCase (ret symbol)), (''timestamp'', ret timestamp)])))))"

text \<open>\<open>cancelAllOpenOrders\<close>, part_000 lines 1426 to 1436.\<close>

definition cancelAllOpenOrders_2 :: operation where
  "cancelAllOpenOrders_2 G args =
     (let symbol = param args 0;
          timestamp = param args 1 in
      bind (default_param (param args 2) (new_object (object_literal []))) (\<lambda>options.
      seq (validateRequiredParameters (object_literal
            [(''symbol'', ret symbol), (''timestamp'', ret timestamp)]))
          (signRequest ''DELETE'' ''/fapi/v1/allOpenOrders''
            (Object_assign (ret options)
               (object_literal
                  [(''symbol'', toUpperCase (ret symbol)), (''timestamp'', ret timestamp)])))))"

text \<open>\<open>countDownCancelAll\<close>, part_000 lines 1452 to 1463.\<close>

definition countDownCancelAll_2 :: operation where
  "countDownCancelAll_2 G args =
     (let symbol = param args 0;
          timestamp = param args 1;
          countdownTime = param args 2 in
      bind (default_param (param args 3) (new_object (object_literal []))) (\<lambda>options.
      seq (validateRequiredParameters (object_literal
            [(''symbol'', ret symbol), (''timestamp'', ret timestamp),
             (''countdownTime'', ret countdownTime)]))
          (signRequest ''POST'' ''/fapi/v1/countdownCancelAll''
            (Object_assign (ret options)
               (object_literal
                  [(''symbol'', toUpperCase (ret symbol)),
                   (''countdownTime'', ret countdownTime), (''timestamp'', ret timestamp)])))))"

text \<open>\<open>queryOrder\<close>, part_000 lines 1480 to 1490.\<close>

definition queryOrder_2 :: operation where
  "queryOrder_2 G args =
     (let symbol = param args 0;
          timestamp = param args 1 in
      bind (default_param (param args 2) (new_object (object_literal []))) (\<lambda>options.
      seq (validateRequiredParameters (object_literal
            [(''symbol'', ret symbol), (''timestamp'', ret timestamp)]))
          (signRequest ''GET'' ''/fapi/v1/order''
            (Object_assign (ret options)
               (object_literal
                  [(''symbol'', toUpperCase (ret symbol)), (''timestamp'', ret timestamp)])))))"

text \<open>\<open>queryAllOrders\<close>, part_000 lines 1509 to 1519.\<close>

definition queryAllOrders_2 :: operation where
  "queryAllOrders_2 G args =
     (let symbol = param args 0;
          timestamp = param args 1 in
      bind (default_param (param args 2) (new_object (object_literal []))) (\<lambda>options.
      seq (validateRequiredParameters (object_literal
            [(''symbol'', ret symbol), (''timestamp'', ret timestamp)]))
          (signRequest ''GET'' ''/fapi/v1/allOrders''
            (Object_assign (ret options)
               (object_literal
                  [(''symbol'', toUpperCase (ret symbol)), (''timestamp'', ret timestamp)])))))"

text \<open>\<open>queryCurrentAllOpenOrders\<close>, part_000 lines 1534 to 1543.\<close>

definition queryCurrentAllOpenOrders_2 :: operation where
  "queryCurrentAllOpenOrders_2 G args =
     (let timestamp = param args 0 in
      bind (default_param (param args 1) (new_object (object_literal []))) (\<lambda>options.
      seq (validateRequiredParameters (object_literal
            [(''timestamp'', ret timestamp)]))
          (signRequest ''GET'' ''/fapi/v1/openOrders''
            (Object_assign (ret options)
               (object_literal
                  [(''timestamp'', ret timestamp)])))))"

text \<open>\<open>queryCurrentOpenOrder\<close>, part_000 lines 1560 to 1570.\<close>

definition queryCurrentOpenOrder_2 :: operation where
  "queryCurrentOpenOrder_2 G args =
     (let symbol = param args 0;
          timestamp = param args 1 in
      bind (default_param (param args 2) (new_object (object_literal []))) (\<lambda>options.
      seq (validateRequiredParameters (object_literal
            [(''symbol'', ret symbol), (''timestamp'', ret timestamp)]))
          (signRequest ''GET'' ''/fapi/v1/openOrder''
            (Object_assign (ret options)
               (object_literal
                  [(''symbol'', toUpperCase (ret symbol)), (''timestamp'', ret timestamp)])))))"

text \<open>\<open>forceOrders\<close>, part_000 lines 1589 to 1598.\<close>

definition forceOrders_2 :: operation where
  "forceOrders_2 G args =
     (let timestamp = param args 0 in
      bind (default_param (param args 1) (new_object (object_literal []))) (\<lambda>options.
      seq (validateRequiredParameters (object_literal
            [(''symbol'', free_identifier G ''symbol''), (''timestamp'', ret timestamp)]))
          (signRequest ''GET'' ''/fapi/v1/forceOrders''
            (Object_assign (ret options)
               (object_literal
                  [(''timestamp'', ret timestamp)])))))"

text \<open>\<open>queryUserTrades\<close>, part_000 lines 1618 to 1628.\<close>

definition queryUserTrades_2 :: operation where
  "queryUserTrades_2 G args =
     (let symbol = param args 0;
          timestamp = param args 1 in
      bind (default_param (param args 2) (new_object (object_literal []))) (\<lambda>options.
      seq (validateRequiredParameters (object_literal
            [(''symbol'', ret symbol), (''timestamp'', ret timestamp)]))
          (signRequest ''GET'' ''/fapi/v1/userTrades''
            (Object_assign (ret options)
               (object_literal
                  [(''symbol'', toUpperCase (ret symbol)), (''timestamp'', ret timestamp)])))))"

text \<open>\<open>changeMarginType\<close>, part_000 lines 1644 to 1655.\<close>

definition changeMarginType_2 :: operation where
  "changeMarginType_2 G args =
     (let symbol = param args 0;
          marginType = param args 1;
          timestamp = param args 2 in
      bind (default_param (param args 3) (new_object (object_literal []))) (\<lambda>options.
      seq (validateRequiredParameters (object_literal
            [(''symbol'', ret symbol), (''marginType'', ret marginType),
             (''timestamp'', ret timestamp)]))
          (signRequest ''POST'' ''/fapi/v1/marginType''
            (Object_assign (ret options)
               (object_literal
                  [(''symbol'', toUpperCase (ret symbol)),
                   (''marginType'', toUpperCase (ret marginType)),
                   (''timestamp'', ret timestamp)])))))"

text \<open>\<open>changePositionMode\<close>, part_000 lines 1670 to 1680.\<close>

definition changePositionMode_2 :: operation where
  "changePositionMode_2 G args =
     (let dualSidePosition = param args 0;
          timestamp = param args 1 in
      bind (default_param (param args 2) (new_object (object_literal []))) (\<lambda>options.
      seq (validateRequiredParameters (object_literal
            [(''dualSidePosition'', ret dualSidePosition), (''timestamp'', ret timestamp)]))
          (signRequest ''POST'' ''/fapi/v1/positionSide/dual''
            (Object_assign (ret options)
               (object_literal
                  [(''dualSidePosition'', ret dualSidePosition),
                   (''timestamp'', ret timestamp)])))))"

text \<open>The class body, in the order of the source.\<close>

definition Trade_2 :: "(string \<times> operation) list" where
  "Trade_2 =
     [(''newOrder'', newOrder_2), (''placeMultipleOrder'', placeMultipleOrder_2),
      (''modifyOrder'', modifyOrder_2), (''modifyMultipleOrder'', modifyMultipleOrder_2),
      (''orderModifyHistory'', orderModifyHistory_2), (''cancelOrder'', cancelOrder_2),
      (''cancelMultipleOrders'', cancelMultipleOrders_2),
      (''cancelAllOpenOrders'', cancelAllOpenOrders_2),
      (''countDownCancelAll'', countDownCancelAll_2), (''queryOrder'', queryOrder_2),
      (''queryAllOrders'', queryAllOrders_2),
      (''queryCurrentAllOpenOrders'', queryCurrentAllOpenOrders_2),
      (''queryCurrentOpenOrder'', queryCurrentOpenOrder_2),
      (''forceOrders'', forceOrders_2), (''queryUserTrades'', queryUserTrades_2),
      (''changeMarginType'', changeMarginType_2),
      (''changePositionMode'', changePositionMode_2)]"

subsection \<open>Market\<close>

text \<open>
  The module \<open>Market\<close> (part_001).  Its class body defines \<open>markklines\<close> twice; the second definition is \<open>markklines_dup\<close> here.
\<close>

text \<open>\<open>ping\<close>, part_001 lines 20 to 22.\<close>

definition ping :: operation where
  "ping G args =
     publicRequest ''GET'' ''/fapi/v1/ping'' (ret Undefined)"

text \<open>\<open>time\<close>, part_001 lines 33 to 35.\<close>

definition time :: operation where
  "time G args =
     publicRequest ''GET'' ''/fapi/v1/time'' (ret Undefined)"

text \<open>\<open>exchangeInfo\<close>, part_001 lines 50 to 58.\<close>

definition exchangeInfo :: operation where
  "exchangeInfo G args =
     bind (default_param (param args 0) (new_object (object_literal []))) (\<lambda>options.
     seq (if_then (hasOwnProperty options ''symbol'')
            (set_property options ''symbol'' (toUpperCase (get_property options ''symbol''))))
    (seq (if_then (hasOwnProperty options ''symbols'')
            (set_property options ''symbols''
               (array_map (get_property options ''symbols'') (\<lambda>symbol. toUpperCase (ret symbol)))))
         (publicRequest ''GET'' ''/fapi/v1/exchangeInfo'' (ret options))))"

text \<open>\<open>depth\<close>, part_001 lines 72 to 82.\<close>

definition depth :: operation where
  "depth G args =
     (let symbol = param args 0 in
      bind (default_param (param args 1) (new_object (object_literal []))) (\<lambda>options.
      seq (validateRequiredParameters (object_literal
            [(''symbol'', ret symbol)]))
          (publicRequest ''GET'' ''/fapi/v1/depth''
            (Object_assign (ret options)
               (object_literal
                  [(''symbol'', toUpperCase (ret symbol))])))))"

text \<open>\<open>trades\<close>, part_001 lines 96 to 106.\<close>

definition trades :: operation where
  "trades G args =
     (let symbol = param args 0 in
      bind (default_param (param args 1) (new_object (object_literal []))) (\<lambda>options.
      seq (validateRequiredParameters (object_literal
            [(''symbol'', ret symbol)]))
          (publicRequest ''GET'' ''/fapi/v1/trades''
            (Object_assign (ret options)
               (object_literal
                  [(''symbol'', toUpperCase (ret symbol))])))))"

text \<open>\<open>historicalTrades\<close>, part_001 lines 121 to 131.\<close>

definition historicalTrades :: operation where
  "historicalTrades G args =
     (let symbol = param args 0 in
      bind (default_param (param args 1) (new_object (object_literal []))) (\<lambda>options.
      seq (validateRequiredParameters (object_literal
            [(''symbol'', ret symbol)]))
          (publicRequest ''GET'' ''/fapi/v1/historicalTrades''
            (Object_assign (ret options)
               (object_literal
                  [(''symbol'', toUpperCase (ret symbol))])))))"

text \<open>\<open>aggTrades\<close>, part_001 lines 147 to 157.\<close>

definition aggTrades :: operation where
  "aggTrades G args =
     (let symbol = param args 0 in
      bind (default_param (param args 1) (new_object (object_literal []))) (\<lambda>options.
      seq (validateRequiredParameters (object_literal
            [(''symbol'', ret symbol)]))
          (publicRequest ''GET'' ''/fapi/v1/aggTrades''
            (Object_assign (ret options)
               (object_literal
                  [(''symbol'', toUpperCase (ret symbol))])))))"

text \<open>\<open>klines\<close>, part_001 lines 173 to 183.\<close>

definition klines :: operation where
  "klines G args =
     (let symbol = param args 0;
          interval = param args 1 in
      bind (default_param (param args 2) (new_object (object_literal []))) (\<lambda>options.
      seq (validateRequiredParameters (object_literal
            [(''symbol'', ret symbol), (''interval'', ret interval)]))
          (publicRequest ''GET'' ''/fapi/v1/klines''
            (Object_assign (ret options)
               (object_literal
                  [(''symbol'', toUpperCase (ret symbol)), (''interval'', ret interval)])))))"

text \<open>\<open>continousklines\<close>, part_001 lines 200 to 211.\<close>

definition continousklines :: operation where
  "continousklines G args =
     (let pair = param args 0;
          contractType = param args 1;
          interval = param args 2 in
      bind (default_param (param args 3) (new_object (object_literal []))) (\<lambda>options.
      seq (validateRequiredParameters (object_literal
            [(''pair'', ret pair), (''contractType'', ret contractType),
             (''interval'', ret interval)]))
          (publicRequest ''GET'' ''/fapi/v1/continuousKlines''
            (Object_assign (ret options)
               (object_literal
                  [(''pair'', toUpperCase (ret pair)),
                   (''contractType'', ret contractType), (''interval'', ret interval)])))))"

text \<open>\<open>indexklines\<close>, part_001 lines 227 to 237.\<close>

definition indexklines :: operation where
  "indexklines G args =
     (let pair = param args 0;
          interval = param args 1 in
      bind (default_param (param args 2) (new_object (object_literal []))) (\<lambda>options.
      seq (validateRequiredParameters (object_literal
            [(''pair'', ret pair), (''interval'', ret interval)]))
          (publicRequest ''GET'' ''/fapi/v1/indexPriceKlines''
            (Object_assign (ret options)
               (object_literal
                  [(''pair'', toUpperCase (ret pair)), (''interval'', ret interval)])))))"

text \<open>\<open>markklines\<close>, part_001 lines 253 to 263.\<close>

definition markklines :: operation where
  "markklines G args =
     (let symbol = param args 0;
          interval = param args 1 in
      bind (default_param (param args 2) (new_object (object_literal []))) (\<lambda>options.
      seq (validateRequiredParameters (object_literal
            [(''symbol'', ret symbol), (''interval'', ret interval)]))
          (publicRequest ''GET'' ''/fapi/v1/markPriceKlines''
            (Object_assign (ret options)
               (object_literal
                  [(''symbol'', toUpperCase (ret symbol)), (''interval'', ret interval)])))))"

text \<open>\<open>markklines\<close>, part_001 lines 279 to 289.\<close>

definition markklines_dup :: operation where
  "markklines_dup G args =
     (let symbol = param args 0;
          interval = param args 1 in
      bind (default_param (param args 2) (new_object (object_literal []))) (\<lambda>options.
      seq (validateRequiredParameters (object_literal
            [(''symbol'', ret symbol), (''interval'', ret interval)]))
          (publicRequest ''GET'' ''/fapi/v1/markPriceKlines''
            (Object_assign (ret options)
               (object_literal
                  [(''symbol'', toUpperCase (ret symbol)), (''interval'', ret interval)])))))"

text \<open>\<open>premiumindexklines\<close>, part_001 lines 305 to 315.\<close>

definition premiumindexklines :: operation where
  "premiumindexklines G args =
     (let symbol = param args 0;
          interval = param args 1 in
      bind (default_param (param args 2) (new_object (object_literal []))) (\<lambda>options.
      seq (validateRequiredParameters (object_literal
            [(''symbol'', ret symbol), (''interval'', ret interval)]))
          (publicRequest ''GET'' ''/fapi/v1/premiumIndexKlines''
            (Object_assign (ret options)
               (object_literal
                  [(''symbol'', toUpperCase (ret symbol)), (''interval'', ret interval)])))))"

text \<open>\<open>premiumindex\<close>, part_001 lines 326 to 330.\<close>

definition premiumindex :: operation where
  "premiumindex G args =
     (let symbol = param args 0 in
      publicRequest ''GET'' ''/fapi/v1/premiumIndex''
            (new_object (object_literal
                  [(''symbol'', toUpperCase (ret symbol))])))"

text \<open>\<open>fundingRateHistory\<close>, part_001 lines 345 to 353.\<close>

definition fundingRateHistory :: operation where
  "fundingRateHistory G args =
     (let symbol = param args 0 in
      bind (default_param (param args 1) (new_object (object_literal []))) (\<lambda>options.
      publicRequest ''GET'' ''/fapi/v1/fundingRate''
            (Object_assign (ret options)
               (object_literal
                  [(''symbol'', toUpperCase (ret symbol))]))))"

text \<open>\<open>fundingInfo\<close>, part_001 lines 363 to 365.\<close>

definition fundingInfo :: operation where
  "fundingInfo G args =
     publicRequest ''GET'' ''/fapi/v1/fundingInfo'' (new_object (object_literal []))"

text \<open>\<open>priceChange24H\<close>, part_001 lines 376 to 380.\<close>

definition priceChange24H :: operation where
  "priceChange24H G args =
     (let symbol = param args 0 in
      publicRequest ''GET'' ''/fapi/v1/ticker/24hr''
            (new_object (object_literal
                  [(''symbol'', toUpperCase (ret symbol))])))"

text \<open>\<open>symbolPriceTicker\<close>, part_001 lines 391 to 395.\<close>

definition symbolPriceTicker :: operation where
  "symbolPriceTicker G args =
     (let symbol = param args 0 in
      publicRequest ''GET'' ''/fapi/v1/ticker/price''
            (new_object (object_literal
                  [(''symbol'', toUpperCase (ret symbol))])))"

text \<open>\<open>symbolPriceTickerV2\<close>, part_001 lines 406 to 410.\<close>

definition symbolPriceTickerV2 :: operation where
  "symbolPriceTickerV2 G args =
     (let symbol = param args 0 in
      publicRequest ''GET'' ''/fapi/v2/ticker/price''
            (new_object (object_literal
                  [(''symbol'', toUpperCase (ret symbol))])))"

text \<open>\<open>bookTicker\<close>, part_001 lines 421 to 425.\<close>

definition bookTicker :: operation where
  "bookTicker G args =
     (let symbol = param args 0 in
      publicRequest ''GET'' ''/fapi/v1/ticker/bookTicker''
            (new_object (object_literal
                  [(''symbol'', toUpperCase (ret symbol))])))"

text \<open>\<open>openInterest\<close>, part_001 lines 436 to 441.\<close>

definition openInterest :: operation where
  "openInterest G args =
     (let symbol = param args 0 in
      seq (validateRequiredParameters (object_literal
            [(''symbol'', ret symbol)]))
          (publicRequest ''GET'' ''/fapi/v1/openInterest''
            (new_object (object_literal
                  [(''symbol'', toUpperCase (ret symbol))]))))"

text \<open>\<open>deliveryPrice\<close>, part_001 lines 452 to 457.\<close>

definition deliveryPrice :: operation where
  "deliveryPrice G args =
     (let pair = param args 0 in
      seq (validateRequiredParameters (object_literal
            [(''pair'', ret pair)]))
          (publicRequest ''GET'' ''/futures/data/delivery-price''
            (new_object (object_literal
                  [(''pair'', toUpperCase (ret pair))]))))"

text \<open>\<open>openInterestHist\<close>, part_001 lines 474 to 484.\<close>

definition openInterestHist :: operation where
  "openInterestHist G args =
     (let symbol = param args 0;
          period = param args 1 in
      bind (default_param (param args 2) (new_object (object_literal []))) (\<lambda>options.
      seq (validateRequiredParameters (object_literal
            [(''symbol'', ret symbol), (''period'', ret period)]))
          (publicRequest ''GET'' ''/futures/data/openInterestHist''
            (Object_assign (ret options)
               (object_literal
                  [(''symbol'', toUpperCase (ret symbol)), (''period'', ret period)])))))"

text \<open>\<open>topLongShortAccountRatio\<close>, part_001 lines 501 to 511.\<close>

definition topLongShortAccountRatio :: operation where
  "topLongShortAccountRatio G args =
     (let symbol = param args 0;
          period = param args 1 in
      bind (default_param (param args 2) (new_object (object_literal []))) (\<lambda>options.
      seq (validateRequiredParameters (object_literal
            [(''symbol'', ret symbol), (''period'', ret period)]))
          (publicRequest ''GET'' ''/futures/data/topLongShortAccountRatio''
            (Object_assign (ret options)
               (object_literal
                  [(''symbol'', toUpperCase (ret symbol)), (''period'', ret period)])))))"

text \<open>\<open>topLongShortPositionRatio\<close>, part_001 lines 528 to 538.\<close>

definition topLongShortPositionRatio :: operation where
  "topLongShortPositionRatio G args =
     (let symbol = param args 0;
          period = param args 1 in
      bind (default_param (param args 2) (new_object (object_literal []))) (\<lambda>options.
      seq (validateRequiredParameters (object_literal
            [(''symbol'', ret symbol), (''period'', ret period)]))
          (publicRequest ''GET'' ''/futures/data/topLongShortPositionRatio''
            (Object_assign (ret options)
               (object_literal
                  [(''symbol'', toUpperCase (ret symbol)), (''period'', ret period)])))))"

text \<open>\<open>globalLongShortAccountRatio\<close>, part_001 lines 555 to 565.\<close>

definition globalLongShortAccountRatio :: operation where
  "globalLongShortAccountRatio G args =
     (let symbol = param args 0;
          period = param args 1 in
      bind (default_param (param args 2) (new_object (object_literal []))) (\<lambda>options.
      seq (validateRequiredParameters (object_literal
            [(''symbol'', ret symbol), (''period'', ret period)]))
          (publicRequest ''GET'' ''/futures/data/globalLongShortAccountRatio''
            (Object_assign (ret options)
               (object_literal
                  [(''symbol'', toUpperCase (ret symbol)), (''period'', ret period)])))))"

text \<open>\<open>takerlongshortRatio\<close>, part_001 lines 582 to 592.\<close>

definition takerlongshortRatio :: operation where
  "takerlongshortRatio G args =
     (let symbol = param args 0;
          period = param args 1 in
      bind (default_param (param args 2) (new_object (object_literal []))) (\<lambda>options.
      seq (validateRequiredParameters (object_literal
            [(''symbol'', ret symbol), (''period'', ret period)]))
          (publicRequest ''GET'' ''/futures/data/takerlongshortRatio''
            (Object_assign (ret options)
               (object_literal
                  [(''symbol'', toUpperCase (ret symbol)), (''period'', ret period)])))))"

text \<open>\<open>basis\<close>, part_001 lines 610 to 622.\<close>

definition basis :: operation where
  "basis G args =
     (let pair = param args 0;
          contractType = param args 1;
          period = param args 2;
          limit = param args 3 in
      bind (default_param (param args 4) (new_object (object_literal []))) (\<lambda>options.
      seq (validateRequiredParameters (object_literal
            [(''pair'', ret pair), (''contractType'', ret contractType),
             (''period'', ret period), (''limit'', ret limit)]))
          (publicRequest ''GET'' ''/futures/data/basis''
            (Object_assign (ret options)
               (object_literal
                  [(''pair'', toUpperCase (ret pair)),
                   (''contractType'', ret contractType), (''period'', ret period),
                   (''limit'', ret limit)])))))"

text \<open>\<open>lvtKlines\<close>, part_001 lines 639 to 649.\<close>

definition lvtKlines :: operation where
  "lvtKlines G args =
     (let symbol = param args 0;
          interval = param args 1 in
      bind (default_param (param args 2) (new_object (object_literal []))) (\<lambda>options.
      seq (validateRequiredParameters (object_literal
            [(''symbol'', ret symbol), (''interval'', ret interval)]))
          (publicRequest ''GET'' ''/fapi/v1/lvtKlines''
            (Object_assign (ret options)
               (object_literal
                  [(''symbol'', toUpperCase (ret symbol)), (''interval'', ret interval)])))))"

text \<open>\<open>indexInfo\<close>, part_001 lines 661 to 665.\<close>

definition indexInfo :: operation where
  "indexInfo G args =
     (let symbol = param args 0 in
      publicRequest ''GET'' ''/fapi/v1/indexInfo''
            (new_object (object_literal
                  [(''symbol'', toUpperCase (ret symbol))])))"

text \<open>\<open>assetIndex\<close>, part_001 lines 677 to 681.\<close>

definition assetIndex :: operation where
  "assetIndex G args =
     (let symbol = param args 0 in
      publicRequest ''GET'' ''/fapi/v1/assetIndex''
            (new_object (object_literal
                  [(''symbol'', toUpperCase (ret symbol))])))"

text \<open>\<open>constituents\<close>, part_001 lines 693 to 698.\<close>

definition constituents :: operation where
  "constituents G args =
     (let symbol = param args 0 in
      seq (validateRequiredParameters (object_literal
            [(''symbol'', ret symbol)]))
          (publicRequest ''GET'' ''/fapi/v1/constituents''
            (new_object (object_literal
                  [(''symbol'', toUpperCase (ret symbol))]))))"

text \<open>The class body, in the order of the source.\<close>

definition Market :: "(string \<times> operation) list" where
  "Market =
     [(''ping'', ping), (''time'', time), (''exchangeInfo'', exchangeInfo),
      (''depth'', depth), (''trades'', trades), (''historicalTrades'', historicalTrades),
      (''aggTrades'', aggTrades), (''klines'', klines),
      (''continousklines'', continousklines), (''indexklines'', indexklines),
      (''markklines'', markklines), (''markklines'', markklines_dup),
      (''premiumindexklines'', premiumindexklines), (''premiumindex'', premiumindex),
      (''fundingRateHistory'', fundingRateHistory), (''fundingInfo'', fundingInfo),
      (''priceChange24H'', priceChange24H), (''symbolPriceTicker'', symbolPriceTicker),
      (''symbolPriceTickerV2'', symbolPriceTickerV2), (''bookTicker'', bookTicker),
      (''openInterest'', openInterest), (''deliveryPrice'', deliveryPrice),
      (''openInterestHist'', openInterestHist),
      (''topLongShortAccountRatio'', topLongShortAccountRatio),
      (''topLongShortPositionRatio'', topLongShortPositionRatio),
      (''globalLongShortAccountRatio'', globalLongShortAccountRatio),
      (''takerlongshortRatio'', takerlongshortRatio), (''basis'', basis),
      (''lvtKlines'', lvtKlines), (''indexInfo'', indexInfo), (''assetIndex'', assetIndex),
      (''constituents'', constituents)]"

section \<open>The client\<close>

subsection \<open>Construction\<close>

text \<open>
  Modelled from the spec: the constructor of \<open>APIBase\<close> is not among the sources.  By the
  specification (sections 3 and 4.5) the client is configured with the credentials and the
  base URL supplied at construction, so the model takes the configuration object handed to
  \<open>super\<close> for the client's configuration and makes it the result of the construction.
\<close>

definition APIBase :: "jsval exec \<Rightarrow> jsval exec" where
  "APIBase config = config"

text \<open>The constructor of \<open>Futures\<close>, src/futures.js lines 8 to 15.\<close>

definition Futures :: "jsval list \<Rightarrow> jsval exec" where
  "Futures args =
     bind (default_param (param args 0) (ret (Str ''''))) (\<lambda>apiKey.
     bind (default_param (param args 1) (ret (Str ''''))) (\<lambda>apiSecret.
     bind (default_param (param args 2) (new_object (object_literal []))) (\<lambda>options.
     seq (set_property options ''baseURL''
            (or_else (get_property options ''baseURL'') (ret (Str ''https://fapi.binance.com''))))
         (APIBase (new_object (spread_literal
            [(''apiKey'', ret apiKey), (''apiSecret'', ret apiSecret)] options))))))"

text \<open>The properties of the client that hold its base URL, credentials and timeout.\<close>

definition config_keys :: "string list" where
  "config_keys = [''baseURL'', ''apiKey'', ''apiSecret'', ''timeout'']"

subsection \<open>Composition of the modules\<close>

text \<open>
  A module is a function from a superclass to a class that extends it with the module's
  methods (src/futures.js line 7).  A class is modelled by its chain of class bodies, the
  most derived first.  Within one class body a later definition of a name replaces an earlier
  one; a method is looked up in the most derived class that has it.
\<close>

type_synonym 'm class_body = "(string \<times> 'm) list"

definition mixin :: "'m class_body \<Rightarrow> 'm class_body list \<Rightarrow> 'm class_body list" where
  "mixin body superclass = body # superclass"

definition own_method :: "'m class_body \<Rightarrow> string \<Rightarrow> 'm option" where
  "own_method body name = map_of (rev body) name"

primrec resolve :: "'m class_body list \<Rightarrow> string \<Rightarrow> 'm option" where
  "resolve [] name = None"
| "resolve (body # superclass) name =
     (case own_method body name of Some m \<Rightarrow> Some m | None \<Rightarrow> resolve superclass name)"

text \<open>
  Modelled from the spec: \<open>flowRight\<close> lives in \<open>helpers/utils\<close> and the list of modules
  in \<open>modules/restful\<close>; neither is among the sources.  The specification (sections 4.5
  and 9) describes a mixin-style class composition of all endpoint modules onto the base
  class; \<open>flowRight\<close> composes the mixins from right to left, and the list of modules is a
  parameter.
\<close>

definition flowRight :: "('a \<Rightarrow> 'a) list \<Rightarrow> 'a \<Rightarrow> 'a" where
  "flowRight fs x = foldr (\<lambda>f y. f y) fs x"

definition Futures_class :: "'m class_body list \<Rightarrow> 'm class_body list \<Rightarrow> 'm class_body list" where
  "Futures_class restfulModules base = flowRight (map mixin restfulModules) base"

definition names :: "'m class_body \<Rightarrow> string set" where
  "names body = set (map fst body)"

section \<open>Contracts of the operations\<close>

text \<open>
  The endpoint contract of every operation of \<open>Trade\<close> and \<open>Market\<close> that sends request
  parameters of its own: the operation, the position of its \<open>options\<close> parameter if it
  declares one, and for every property that the body puts into the request the position of the
  argument it comes from and whether it is upper-cased on the way.  The operations of
  \<open>Account\<close> take nothing from their arguments and have no entry.
\<close>

definition contracts ::
  "(operation \<times> nat option \<times> (string \<times> nat \<times> bool) list) list" where
  "contracts =
     [(newOrder, Some 4,
         [(''symbol'', 0, True), (''side'', 1, True), (''type'', 2, True),
          (''timestamp'', 3, False)]),
      (placeMultipleOrder, Some 2, [(''batchOrders'', 0, False), (''timestamp'', 1, False)]),
      (modifyOrder, Some 5,
         [(''symbol'', 0, True), (''side'', 1, True), (''number'', 2, False),
          (''price'', 3, False), (''timestamp'', 4, False)]),
      (modifyMultipleOrder, Some 2, [(''batchOrders'', 0, False), (''timestamp'', 1, False)]),
      (orderModifyHistory, Some 2, [(''symbol'', 0, True), (''timestamp'', 1, False)]),
      (cancelOrder, Some 2, [(''symbol'', 0, True), (''timestamp'', 1, False)]),
      (cancelMultipleOrders, Some 2, [(''symbol'', 0, True), (''timestamp'', 1, False)]),
      (cancelAllOpenOrders, Some 2, [(''symbol'', 0, True), (''timestamp'', 1, False)]),
      (countDownCancelAll, Some 3,
         [(''symbol'', 0, True), (''countdownTime'', 2, False),
          (''timestamp'', 1, False)]),
      (queryOrder, Some 2, [(''symbol'', 0, True), (''timestamp'', 1, False)]),
      (queryAllOrders, Some 2, [(''symbol'', 0, True), (''timestamp'', 1, False)]),
      (queryCurrentAllOpenOrders, Some 1, [(''timestamp'', 0, False)]),
      (queryCurrentOpenOrder, Some 2, [(''symbol'', 0, True), (''timestamp'', 1, False)]),
      (forceOrders, Some 1, [(''timestamp'', 0, False)]),
      (queryUserTrades, Some 2, [(''symbol'', 0, True), (''timestamp'', 1, False)]),
      (changeMarginType, Some 3,
         [(''symbol'', 0, True), (''marginType'', 1, True), (''timestamp'', 2, False)]),
      (changePositionMode, Some 2,
         [(''dualSidePosition'', 0, False), (''timestamp'', 1, False)]),
      (changeLeverage, Some 3,
         [(''symbol'', 0, True), (''leverage'', 1, False), (''timestamp'', 2, False)]),
      (changeMultiAssetType, Some 2,
         [(''multiAssetsMargin'', 0, False), (''timestamp'', 1, False)]),
      (modifyIsolatedMargin, Some 4,
         [(''symbol'', 0, True), (''amount'', 1, False), (''type'', 2, False),
          (''timestamp'', 3, False)]),
      (positionInformationV2, Some 1, [(''timestamp'', 0, False)]),
      (positionInformationV3, Some 1, [(''timestamp'', 0, False)]),
      (adlQuantile, Some 1, [(''timestamp'', 0, False)]),
      (positionMarginHistory, Some 2, [(''symbol'', 0, True), (''timestamp'', 1, False)]),
      (newOrder_dup, Some 4,
         [(''symbol'', 0, True), (''side'', 1, True), (''type'', 2, True),
          (''timestamp'', 3, False)]),
      (newOrder_2, Some 4,
         [(''symbol'', 0, True), (''side'', 1, True), (''type'', 2, True),
          (''timestamp'', 3, False)]),
      (placeMultipleOrder_2, Some 2, [(''batchOrders'', 0, False), (''timestamp'', 1, False)]),
      (modifyOrder_2, Some 5,
         [(''symbol'', 0, True), (''side'', 1, True), (''number'', 2, False),
          (''price'', 3, False), (''timestamp'', 4, False)]),
      (modifyMultipleOrder_2, Some 2,
         [(''batchOrders'', 0, False), (''timestamp'', 1, False)]),
      (orderModifyHistory_2, Some 2, [(''symbol'', 0, True), (''timestamp'', 1, False)]),
      (cancelOrder_2, Some 2, [(''symbol'', 0, True), (''timestamp'', 1, False)]),
      (cancelMultipleOrders_2, Some 2, [(''symbol'', 0, True), (''timestamp'', 1, False)]),
      (cancelAllOpenOrders_2, Some 2, [(''symbol'', 0, True), (''timestamp'', 1, False)]),
      (countDownCancelAll_2, Some 3,
         [(''symbol'', 0, True), (''countdownTime'', 2, False),
          (''timestamp'', 1, False)]),
      (queryOrder_2, Some 2, [(''symbol'', 0, True), (''timestamp'', 1, False)]),
      (queryAllOrders_2, Some 2, [(''symbol'', 0, True), (''timestamp'', 1, False)]),
      (queryCurrentAllOpenOrders_2, Some 1, [(''timestamp'', 0, False)]),
      (queryCurrentOpenOrder_2, Some 2, [(''symbol'', 0, True), (''timestamp'', 1, False)]),
      (forceOrders_2, Some 1, [(''timestamp'', 0, False)]),
      (queryUserTrades_2, Some 2, [(''symbol'', 0, True), (''timestamp'', 1, False)]),
      (changeMarginType_2, Some 3,
         [(''symbol'', 0, True), (''marginType'', 1, True), (''timestamp'', 2, False)]),
      (changePositionMode_2, Some 2,
         [(''dualSidePosition'', 0, False), (''timestamp'', 1, False)]),
      (exchangeInfo, Some 0, []),
      (depth, Some 1, [(''symbol'', 0, True)]),
      (trades, Some 1, [(''symbol'', 0, True)]),
      (historicalTrades, Some 1, [(''symbol'', 0, True)]),
      (aggTrades, Some 1, [(''symbol'', 0, True)]),
      (klines, Some 2, [(''symbol'', 0, True), (''interval'', 1, False)]),
      (continousklines, Some 3,
         [(''pair'', 0, True), (''contractType'', 1, False), (''interval'', 2, False)]),
      (indexklines, Some 2, [(''pair'', 0, True), (''interval'', 1, False)]),
      (markklines, Some 2, [(''symbol'', 0, True), (''interval'', 1, False)]),
      (markklines_dup, Some 2, [(''symbol'', 0, True), (''interval'', 1, False)]),
      (premiumindexklines, Some 2, [(''symbol'', 0, True), (''interval'', 1, False)]),
      (premiumindex, None, [(''symbol'', 0, True)]),
      (fundingRateHistory, Some 1, [(''symbol'', 0, True)]),
      (priceChange24H, None, [(''symbol'', 0, True)]),
      (symbolPriceTicker, None, [(''symbol'', 0, True)]),
      (symbolPriceTickerV2, None, [(''symbol'', 0, True)]),
      (bookTicker, None, [(''symbol'', 0, True)]),
      (openInterest, None, [(''symbol'', 0, True)]),
      (deliveryPrice, None, [(''pair'', 0, True)]),
      (openInterestHist, Some 2, [(''symbol'', 0, True), (''period'', 1, False)]),
      (topLongShortAccountRatio, Some 2, [(''symbol'', 0, True), (''period'', 1, False)]),
      (topLongShortPositionRatio, Some 2, [(''symbol'', 0, True), (''period'', 1, False)]),
      (globalLongShortAccountRatio, Some 2, [(''symbol'', 0, True), (''period'', 1, False)]),
      (takerlongshortRatio, Some 2, [(''symbol'', 0, True), (''period'', 1, False)]),
      (basis, Some 4,
         [(''pair'', 0, True), (''contractType'', 1, False), (''period'', 2, False),
          (''limit'', 3, False)]),
      (lvtKlines, Some 2, [(''symbol'', 0, True), (''interval'', 1, False)]),
      (indexInfo, None, [(''symbol'', 0, True)]),
      (assetIndex, None, [(''symbol'', 0, True)]),
      (constituents, None, [(''symbol'', 0, True)])]"

definition uppercased :: "jsval \<Rightarrow> jsval" where
  "uppercased v = (case v of Str s \<Rightarrow> Str (toUpperCase_string s) | _ \<Rightarrow> v)"

text \<open>The \<open>options\<close> argument, when it is a reference, points into the store.\<close>

definition options_in_store :: "nat option \<Rightarrow> jsval list \<Rightarrow> state \<Rightarrow> bool" where
  "options_in_store oi args s =
     (case oi of None \<Rightarrow> True
      | Some i \<Rightarrow> (case param args i of Ref a \<Rightarrow> a < length (heap s) | _ \<Rightarrow> True))"

section \<open>Reasoning about computations\<close>

text \<open>
  The weakest precondition of a computation for a postcondition on normal results and one on
  thrown errors.
\<close>

definition wp :: "'a exec \<Rightarrow> ('a \<Rightarrow> state \<Rightarrow> bool) \<Rightarrow> (error \<Rightarrow> state \<Rightarrow> bool) \<Rightarrow> state \<Rightarrow> bool" where
  "wp m Q E = (\<lambda>s. case m s of (Inr x, s') \<Rightarrow> Q x s' | (Inl e, s') \<Rightarrow> E e s')"

text \<open>A computation is pure when it leaves the state as it found it.\<close>

definition pure :: "'a exec \<Rightarrow> bool" where
  "pure m = (\<forall>s. snd (m s) = s)"

text \<open>
  The validation loop of the batch operations, under a name of its own so that the rules
  below can speak about it.
\<close>

definition batch_loop :: "jsval \<Rightarrow> string list \<Rightarrow> unit exec" where
  "batch_loop v ks =
     bind (elements v) (\<lambda>visited. for_each visited (\<lambda>element.
       bind (destructure element ks) (\<lambda>locals. validateRequiredParameters (ret locals))))"

text \<open>
  The frame of the operations: the store does not shrink, and no object that was in the store
  before has one of the configuration properties changed.
\<close>

definition frame :: "state \<Rightarrow> state \<Rightarrow> bool" where
  "frame s s' =
     (length (heap s) \<le> length (heap s') \<and>
      (\<forall>c k. c < length (heap s) \<and> k \<in> set config_keys \<longrightarrow>
         property (heap s') (Ref c) k = property (heap s) (Ref c) k))"

definition keeps :: "'a exec \<Rightarrow> bool" where
  "keeps m = (\<forall>s. frame s (snd (m s)))"

text \<open>
  An operation honours a contract when every call that reaches the dispatcher hands over
  parameters that hold the listed properties, and the parameter object is the caller's
  \<open>options\<close> object whenever the caller passed one.
\<close>

definition honours :: "operation \<Rightarrow> nat option \<Rightarrow> (string \<times> nat \<times> bool) list \<Rightarrow> bool" where
  "honours op oi req =
     (\<forall>G args s r s'. op G args s = (Inr r, s') \<and> options_in_store oi args s \<longrightarrow>
        (case oi of None \<Rightarrow> True
         | Some i \<Rightarrow> (case param args i of Ref a \<Rightarrow> params r = Ref a | _ \<Rightarrow> True)) \<and>
        list_all (\<lambda>(k, j, up).
           property (heap s') (params r) k =
             (if up then uppercased (param args j) else param args j)) req)"

text \<open>The names among \<open>ks\<close> whose property of the value \<open>v\<close> is missing.\<close>

definition lacking :: "jsobj list \<Rightarrow> string list \<Rightarrow> jsval \<Rightarrow> string list" where
  "lacking h ks v = filter (\<lambda>k. isEmptyValue (property h v k)) ks"

text \<open>A computation routes via \<open>d\<close> when every request it returns took the path \<open>d\<close>.\<close>

definition routes :: "dispatch \<Rightarrow> request exec \<Rightarrow> bool" where
  "routes d m = (\<forall>s r s'. m s = (Inr r, s') \<longrightarrow> via r = d)"

text \<open>
  What a computation writes: the store does not shrink, and no object that was in the store
  before has a property changed whose name is outside the set \<open>K\<close>.
\<close>

definition unchanged_outside :: "string set \<Rightarrow> state \<Rightarrow> state \<Rightarrow> bool" where
  "unchanged_outside K s s' =
     (length (heap s) \<le> length (heap s') \<and>
      (\<forall>c k. c < length (heap s) \<and> k \<notin> K \<longrightarrow>
         property (heap s') (Ref c) k = property (heap s) (Ref c) k))"

definition writes_only :: "string set \<Rightarrow> 'a exec \<Rightarrow> bool" where
  "writes_only K m = (\<forall>s. unchanged_outside K s (snd (m s)))"


section \<open>Rules of the weakest precondition\<close>

named_theorems wp_simps
named_theorems heap_simps

lemma wp_ret [wp_simps]: "wp (ret x) Q E = Q x"
  by (simp add: wp_def ret_def)

lemma wp_throw [wp_simps]: "wp (throw e) Q E = E e"
  by (simp add: wp_def throw_def)

lemma wp_bind [wp_simps]: "wp (bind m f) Q E = wp m (\<lambda>x. wp (f x) Q E) E"
  by (rule ext) (simp add: wp_def bind_def split: prod.splits sum.splits)

lemma wp_seq [wp_simps]: "wp (seq m n) Q E = wp m (\<lambda>_. wp n Q E) E"
  by (simp add: seq_def wp_bind)

lemma wp_if [wp_simps]: "wp (if b then m else n) Q E = (if b then wp m Q E else wp n Q E)"
  by simp

lemma wp_if_then [wp_simps]:
  "wp (if_then c m) Q E = wp c (\<lambda>b. if b then wp m Q E else Q ()) E"
  by (simp add: if_then_def wp_bind wp_ret wp_if cong: if_cong)

lemma wp_default_param [wp_simps]:
  "wp (default_param v d) Q E = (if v = Undefined then wp d Q E else Q v)"
  by (simp add: default_param_def wp_ret)

lemma wp_free_identifier [wp_simps]:
  "wp (free_identifier G x) Q E = (case G x of None \<Rightarrow> E (ReferenceError x) | Some v \<Rightarrow> Q v)"
  by (simp add: free_identifier_def wp_ret wp_throw split: option.splits)

lemma wp_case_jsval:
  "wp (case v of Undefined \<Rightarrow> m1 | Null \<Rightarrow> m2 | Bool b \<Rightarrow> m3 b | Num n \<Rightarrow> m4 n | Str x \<Rightarrow> m5 x
         | Ref a \<Rightarrow> m6 a) Q E =
   (case v of Undefined \<Rightarrow> wp m1 Q E | Null \<Rightarrow> wp m2 Q E | Bool b \<Rightarrow> wp (m3 b) Q E
      | Num n \<Rightarrow> wp (m4 n) Q E | Str x \<Rightarrow> wp (m5 x) Q E | Ref a \<Rightarrow> wp (m6 a) Q E)"
  by (simp split: jsval.splits)

lemma wp_toUpperCase [wp_simps]:
  "wp (toUpperCase e) Q E =
     wp e (\<lambda>v. case v of Str str \<Rightarrow> Q (Str (toUpperCase_string str)) | _ \<Rightarrow> E TypeError) E"
  by (simp add: toUpperCase_def wp_bind wp_case_jsval wp_ret wp_throw cong: jsval.case_cong)

lemma wp_object_literal_Nil [wp_simps]: "wp (object_literal []) Q E = Q []"
  by (simp add: wp_ret)

lemma wp_object_literal_Cons [wp_simps]:
  "wp (object_literal (f # fs)) Q E =
     wp (snd f) (\<lambda>v. wp (object_literal fs) (\<lambda>ps. Q ((fst f, v) # ps)) E) E"
  by (simp add: wp_bind wp_ret)

lemma wp_alloc [wp_simps]:
  "wp (alloc obj) Q E = (\<lambda>s. Q (Ref (length (heap s))) (s\<lparr>heap := heap s @ [obj]\<rparr>))"
  by (simp add: wp_def alloc_def)

lemma wp_new_object [wp_simps]:
  "wp (new_object e) Q E = wp e (\<lambda>ps. wp (alloc (Object ps)) Q E) E"
  by (simp add: new_object_def wp_bind)

lemma wp_validateRequiredParameters [wp_simps]:
  "wp (validateRequiredParameters e) Q E =
     wp e (\<lambda>ps. if filter (\<lambda>p. isEmptyValue (snd p)) ps = [] then Q ()
                 else E (MissingParameterError
                           (map fst (filter (\<lambda>p. isEmptyValue (snd p)) ps)))) E"
  unfolding validateRequiredParameters_def wp_bind
  by (rule arg_cong [where f = "\<lambda>Q. wp e Q E"])
     (auto simp: fun_eq_iff wp_ret wp_throw split: list.splits)

lemma wp_Object_assign [wp_simps]:
  "wp (Object_assign target source) Q E =
     wp target (\<lambda>t. wp source (\<lambda>fs s.
       case t of
         Undefined \<Rightarrow> E TypeError s
       | Null \<Rightarrow> E TypeError s
       | Ref a \<Rightarrow> Q (Ref a) (write_props a fs s)
       | _ \<Rightarrow> wp (alloc (Object (assign_props (enumerable_props (heap s) t) fs))) Q E s) E) E"
  unfolding Object_assign_def wp_bind
  apply (rule arg_cong [where f = "\<lambda>Q. wp target Q E"])
  apply (rule ext)
  apply (rule arg_cong [where f = "\<lambda>Q. wp source Q E"])
  apply (auto simp: fun_eq_iff wp_def split: jsval.splits)
  done

lemma wp_dispatcher [wp_simps]:
  "wp (dispatcher d m p e) Q E =
     wp e (\<lambda>ps s. Q \<lparr>via = d, verb = m, path = p, params = ps\<rparr>
                      (s\<lparr>sent := sent s @ [\<lparr>via = d, verb = m, path = p, params = ps\<rparr>]\<rparr>)) E"
  unfolding dispatcher_def wp_bind
  by (rule arg_cong [where f = "\<lambda>Q. wp e Q E"]) (auto simp: fun_eq_iff wp_def)

lemma wp_signRequest [wp_simps]: "wp (signRequest m p e) = wp (dispatcher Signed m p e)"
  by (simp add: signRequest_def)

lemma wp_publicRequest [wp_simps]: "wp (publicRequest m p e) = wp (dispatcher Public m p e)"
  by (simp add: publicRequest_def)

lemma wp_get_property [wp_simps]:
  "wp (get_property v k) Q E =
     (\<lambda>s. case v of Undefined \<Rightarrow> E TypeError s | Null \<Rightarrow> E TypeError s
          | Ref a \<Rightarrow> Q (property (heap s) (Ref a) k) s | _ \<Rightarrow> Q Undefined s)"
  by (rule ext) (simp add: wp_def get_property_def property_def split: jsval.splits)

lemma wp_set_property [wp_simps]:
  "wp (set_property v k e) Q E =
     wp e (\<lambda>x s. case v of Ref a \<Rightarrow> Q () (write_props a [(k, x)] s) | _ \<Rightarrow> E TypeError s) E"
  unfolding set_property_def wp_bind
  by (rule arg_cong [where f = "\<lambda>Q. wp e Q E"]) (auto simp: fun_eq_iff wp_def split: jsval.splits)

lemma wp_hasOwnProperty [wp_simps]:
  "wp (hasOwnProperty v k) Q E =
     (\<lambda>s. case v of Undefined \<Rightarrow> E TypeError s | Null \<Rightarrow> E TypeError s
          | Ref a \<Rightarrow> Q (k \<in> set (map fst (own_props (obj_at (heap s) a)))) s
          | _ \<Rightarrow> Q False s)"
  by (rule ext) (simp add: wp_def hasOwnProperty_def split: jsval.splits)

lemma wp_or_else [wp_simps]:
  "wp (or_else e d) Q E = wp e (\<lambda>v. if truthy v then Q v else wp d Q E) E"
  by (simp add: or_else_def wp_bind wp_ret wp_if cong: if_cong)

lemma wp_spread_literal [wp_simps]:
  "wp (spread_literal fs v) Q E =
     wp (object_literal fs) (\<lambda>ps s. Q (assign_props ps (enumerable_props (heap s) v)) s) E"
  unfolding spread_literal_def wp_bind
  by (rule arg_cong [where f = "\<lambda>Q. wp (object_literal fs) Q E"]) (auto simp: fun_eq_iff wp_def)

lemma wp_APIBase [wp_simps]: "wp (APIBase e) = wp e"
  by (simp add: APIBase_def)

lemma wp_success: "wp m Q (\<lambda>_ _. True) s \<Longrightarrow> m s = (Inr r, s') \<Longrightarrow> Q r s'"
  by (simp add: wp_def)

lemma wp_total: "wp m (\<lambda>_. P) (\<lambda>_. P) s \<Longrightarrow> P (snd (m s))"
  by (simp add: wp_def split: prod.splits sum.splits)

subsection \<open>Computations that leave the state alone\<close>

lemma wp_pure:
  "pure m \<Longrightarrow> wp m Q E = (\<lambda>s. case fst (m s) of Inr x \<Rightarrow> Q x s | Inl e \<Rightarrow> E e s)"
  by (rule ext) (auto simp: wp_def pure_def split: prod.splits sum.splits, (metis snd_conv)+)

lemma pure_ret: "pure (ret x)"
  by (simp add: pure_def ret_def)

lemma pure_throw: "pure (throw e)"
  by (simp add: pure_def throw_def)

lemma pure_bind: "pure m \<Longrightarrow> (\<And>x. pure (f x)) \<Longrightarrow> pure (bind m f)"
  by (auto simp: pure_def bind_def split: prod.splits sum.splits) (metis snd_conv)+

lemma pure_seq: "pure m \<Longrightarrow> pure n \<Longrightarrow> pure (seq m n)"
  by (simp add: seq_def pure_bind)

lemma pure_for_each: "(\<And>x. pure (body x)) \<Longrightarrow> pure (for_each xs body)"
  by (induction xs) (simp_all add: pure_ret pure_seq)

lemma pure_map_exec: "(\<And>x. pure (f x)) \<Longrightarrow> pure (map_exec f xs)"
  by (induction xs) (simp_all add: pure_ret pure_bind)

lemma pure_get_property: "pure (get_property v k)"
  by (simp add: pure_def get_property_def split: jsval.splits)

lemma pure_elements: "pure (elements v)"
  by (simp add: pure_def elements_def split: jsval.splits jsobj.splits)

lemma pure_toUpperCase: "pure e \<Longrightarrow> pure (toUpperCase e)"
  unfolding toUpperCase_def by (rule pure_bind) (auto simp: pure_ret pure_throw split: jsval.splits)

lemma pure_validateRequiredParameters: "pure e \<Longrightarrow> pure (validateRequiredParameters e)"
  unfolding validateRequiredParameters_def
  by (rule pure_bind) (auto simp: pure_ret pure_throw split: list.splits)

lemma pure_destructure: "pure (destructure v ks)"
  unfolding destructure_def
  by (intro pure_map_exec pure_bind pure_get_property pure_ret)

lemma pure_batch_loop: "pure (batch_loop v ks)"
  unfolding batch_loop_def
  by (intro pure_bind pure_elements pure_for_each pure_destructure
        pure_validateRequiredParameters pure_ret)

lemmas wp_batch_loop [wp_simps] = wp_pure [OF pure_batch_loop]

lemma batch_loop_fold:
  "bind (elements v) (\<lambda>visited. for_each visited (\<lambda>element.
     bind (destructure element ks) (\<lambda>locals. validateRequiredParameters (ret locals)))) =
   batch_loop v ks"
  by (simp add: batch_loop_def)

lemma pure_map_toUpperCase: "pure (map_exec (\<lambda>symbol. toUpperCase (ret symbol)) es)"
  by (intro pure_map_exec pure_toUpperCase pure_ret)

lemma wp_array_map_toUpperCase [wp_simps]:
  "wp (array_map e (\<lambda>symbol. toUpperCase (ret symbol))) Q E =
     wp e (\<lambda>v s. case v of
         Ref a \<Rightarrow>
           (case obj_at (heap s) a of
              Array es ps \<Rightarrow>
                (case fst (map_exec (\<lambda>symbol. toUpperCase (ret symbol)) es s) of
                   Inr ys \<Rightarrow> Q (Ref (length (heap s))) (s\<lparr>heap := heap s @ [Array ys []]\<rparr>)
                 | Inl err \<Rightarrow> E err s)
            | Object ps \<Rightarrow> E TypeError s)
       | _ \<Rightarrow> E TypeError s) E"
  unfolding array_map_def wp_bind
  apply (rule arg_cong [where f = "\<lambda>Q. wp e Q E"])
  apply (rule ext)+
  apply (simp add: wp_def split: jsval.splits jsobj.splits)
  apply (simp add: bind_def alloc_def split: sum.splits prod.splits)
  apply (metis pure_map_toUpperCase [unfolded pure_def, rule_format] snd_conv)
  done

subsection \<open>Reading the store after a write\<close>

lemma assign_props_Nil [heap_simps]: "assign_props ps [] = ps"
  by (simp add: assign_props_def)

lemma assign_props_Cons [heap_simps]:
  "assign_props ps (f # fs) = assign_props (AList.update (fst f) (snd f) ps) fs"
  by (simp add: assign_props_def split: prod.splits)

lemma lookup_update [heap_simps]:
  "lookup (AList.update k v ps) k' = (if k' = k then v else lookup ps k')"
  by (simp add: lookup_def update_conv')

lemma lookup_Nil [heap_simps]: "lookup [] k = Undefined"
  by (simp add: lookup_def)

lemma lookup_Cons [heap_simps]: "lookup (p # ps) k = (if k = fst p then snd p else lookup ps k)"
  by (cases p) (simp add: lookup_def)

lemma get_Object [heap_simps]: "get (Object ps) k = lookup ps k"
  by (simp add: get_def own_props_def)

lemma get_Array [heap_simps]: "get (Array es ps) k = lookup ps k"
  by (simp add: get_def own_props_def)

lemma get_with_props [heap_simps]: "get (with_props obj ps) k = lookup ps k"
  by (simp add: get_def own_props_def with_props_def split: jsobj.splits)

lemma heap_write_props:
  "heap (write_props a fs s) =
     (heap s)[a := with_props (obj_at (heap s) a)
                     (assign_props (own_props (obj_at (heap s) a)) fs)]"
  by (simp add: write_props_def)

lemma sent_write_props [heap_simps]: "sent (write_props a fs s) = sent s"
  by (simp add: write_props_def)

lemma length_heap_write_props [heap_simps]:
  "length (heap (write_props a fs s)) = length (heap s)"
  by (simp add: write_props_def)

lemma property_write_props [heap_simps]:
  "property (heap (write_props a fs s)) (Ref b) k =
     (if b = a \<and> a < length (heap s) then lookup (assign_props (own_props (heap s ! a)) fs) k
      else property (heap s) (Ref b) k)"
  by (simp add: heap_write_props property_def obj_at_def get_with_props)

lemma property_alloc [heap_simps]:
  "property (h @ [obj]) (Ref b) k = (if b = length h then get obj k else property h (Ref b) k)"
  by (auto simp: property_def obj_at_def nth_append get_def own_props_def lookup_def)

lemma lookup_own_props [heap_simps]:
  "a < length h \<Longrightarrow> lookup (own_props (h ! a)) k = property h (Ref a) k"
  by (simp add: property_def obj_at_def get_def)

lemma property_primitive [heap_simps]:
  "property h Undefined k = Undefined" "property h Null k = Undefined"
  "property h (Bool b) k = Undefined" "property h (Num n) k = Undefined"
  "property h (Str x) k = Undefined"
  by (simp_all add: property_def)


section \<open>Every operation honours its contract\<close>

lemma honoursI:
  assumes "\<And>G args s. options_in_store oi args s \<Longrightarrow>
     wp (op G args) (\<lambda>r s'.
        (case oi of None \<Rightarrow> True
         | Some i \<Rightarrow> (case param args i of Ref a \<Rightarrow> params r = Ref a | _ \<Rightarrow> True)) \<and>
        list_all (\<lambda>(k, j, up).
           property (heap s') (params r) k =
             (if up then uppercased (param args j) else param args j)) req) (\<lambda>_ _. True) s"
  shows "honours op oi req"
  unfolding honours_def
proof (intro allI impI, elim conjE)
  fix G args s r s'
  assume run: "op G args s = (Inr r, s')" and ok: "options_in_store oi args s"
  from wp_success [OF assms [OF ok] run] show
    "(case oi of None \<Rightarrow> True
      | Some i \<Rightarrow> (case param args i of Ref a \<Rightarrow> params r = Ref a | _ \<Rightarrow> True)) \<and>
     list_all (\<lambda>(k, j, up).
        property (heap s') (params r) k =
          (if up then uppercased (param args j) else param args j)) req" .
qed

lemma honours_newOrder:
  "honours newOrder (Some 4)
     [(''symbol'', 0, True), (''side'', 1, True), (''type'', 2, True), (''timestamp'', 3, False)]"
  by (rule honoursI)
     (simp add: newOrder_def Let_def batch_loop_fold wp_simps heap_simps options_in_store_def
        uppercased_def split: jsval.splits sum.splits option.splits)

lemma honours_placeMultipleOrder:
  "honours placeMultipleOrder (Some 2)
     [(''batchOrders'', 0, False), (''timestamp'', 1, False)]"
  by (rule honoursI)
     (simp add: placeMultipleOrder_def Let_def batch_loop_fold wp_simps heap_simps options_in_store_def
        uppercased_def split: jsval.splits sum.splits option.splits)

lemma honours_modifyOrder:
  "honours modifyOrder (Some 5)
     [(''symbol'', 0, True), (''side'', 1, True), (''number'', 2, False), (''price'', 3, False), (''timestamp'', 4, False)]"
  by (rule honoursI)
     (simp add: modifyOrder_def Let_def batch_loop_fold wp_simps heap_simps options_in_store_def
        uppercased_def split: jsval.splits sum.splits option.splits)

lemma honours_modifyMultipleOrder:
  "honours modifyMultipleOrder (Some 2)
     [(''batchOrders'', 0, False), (''timestamp'', 1, False)]"
  by (rule honoursI)
     (simp add: modifyMultipleOrder_def Let_def batch_loop_fold wp_simps heap_simps options_in_store_def
        uppercased_def split: jsval.splits sum.splits option.splits)

lemma honours_orderModifyHistory:
  "honours orderModifyHistory (Some 2)
     [(''symbol'', 0, True), (''timestamp'', 1, False)]"
  by (rule honoursI)
     (simp add: orderModifyHistory_def Let_def batch_loop_fold wp_simps heap_simps options_in_store_def
        uppercased_def split: jsval.splits sum.splits option.splits)

lemma honours_cancelOrder:
  "honours cancelOrder (Some 2)
     [(''symbol'', 0, True), (''timestamp'', 1, False)]"
  by (rule honoursI)
     (simp add: cancelOrder_def Let_def batch_loop_fold wp_simps heap_simps options_in_store_def
        uppercased_def split: jsval.splits sum.splits option.splits)

lemma honours_cancelMultipleOrders:
  "honours cancelMultipleOrders (Some 2)
     [(''symbol'', 0, True), (''timestamp'', 1, False)]"
  by (rule honoursI)
     (simp add: cancelMultipleOrders_def Let_def batch_loop_fold wp_simps heap_simps options_in_store_def
        uppercased_def split: jsval.splits sum.splits option.splits)

lemma honours_cancelAllOpenOrders:
  "honours cancelAllOpenOrders (Some 2)
     [(''symbol'', 0, True), (''timestamp'', 1, False)]"
  by (rule honoursI)
     (simp add: cancelAllOpenOrders_def Let_def batch_loop_fold wp_simps heap_simps options_in_store_def
        uppercased_def split: jsval.splits sum.splits option.splits)

lemma honours_countDownCancelAll:
  "honours countDownCancelAll (Some 3)
     [(''symbol'', 0, True), (''countdownTime'', 2, False), (''timestamp'', 1, False)]"
  by (rule honoursI)
     (simp add: countDownCancelAll_def Let_def batch_loop_fold wp_simps heap_simps options_in_store_def
        uppercased_def split: jsval.splits sum.splits option.splits)

lemma honours_queryOrder:
  "honours queryOrder (Some 2)
     [(''symbol'', 0, True), (''timestamp'', 1, False)]"
  by (rule honoursI)
     (simp add: queryOrder_def Let_def batch_loop_fold wp_simps heap_simps options_in_store_def
        uppercased_def split: jsval.splits sum.splits option.splits)

lemma honours_queryAllOrders:
  "honours queryAllOrders (Some 2)
     [(''symbol'', 0, True), (''timestamp'', 1, False)]"
  by (rule honoursI)
     (simp add: queryAllOrders_def Let_def batch_loop_fold wp_simps heap_simps options_in_store_def
        uppercased_def split: jsval.splits sum.splits option.splits)

lemma honours_queryCurrentAllOpenOrders:
  "honours queryCurrentAllOpenOrders (Some 1)
     [(''timestamp'', 0, False)]"
  by (rule honoursI)
     (simp add: queryCurrentAllOpenOrders_def Let_def batch_loop_fold wp_simps heap_simps options_in_store_def
        uppercased_def split: jsval.splits sum.splits option.splits)

lemma honours_queryCurrentOpenOrder:
  "honours queryCurrentOpenOrder (Some 2)
     [(''symbol'', 0, True), (''timestamp'', 1, False)]"
  by (rule honoursI)
     (simp add: queryCurrentOpenOrder_def Let_def batch_loop_fold wp_simps heap_simps options_in_store_def
        uppercased_def split: jsval.splits sum.splits option.splits)

lemma honours_forceOrders:
  "honours forceOrders (Some 1)
     [(''timestamp'', 0, False)]"
  by (rule honoursI)
     (simp add: forceOrders_def Let_def batch_loop_fold wp_simps heap_simps options_in_store_def
        uppercased_def split: jsval.splits sum.splits option.splits)

lemma honours_queryUserTrades:
  "honours queryUserTrades (Some 2)
     [(''symbol'', 0, True), (''timestamp'', 1, False)]"
  by (rule honoursI)
     (simp add: queryUserTrades_def Let_def batch_loop_fold wp_simps heap_simps options_in_store_def
        uppercased_def split: jsval.splits sum.splits option.splits)

lemma honours_changeMarginType:
  "honours changeMarginType (Some 3)
     [(''symbol'', 0, True), (''marginType'', 1, True), (''timestamp'', 2, False)]"
  by (rule honoursI)
     (simp add: changeMarginType_def Let_def batch_loop_fold wp_simps heap_simps options_in_store_def
        uppercased_def split: jsval.splits sum.splits option.splits)

lemma honours_changePositionMode:
  "honours changePositionMode (Some 2)
     [(''dualSidePosition'', 0, False), (''timestamp'', 1, False)]"
  by (rule honoursI)
     (simp add: changePositionMode_def Let_def batch_loop_fold wp_simps heap_simps options_in_store_def
        uppercased_def split: jsval.splits sum.splits option.splits)

lemma honours_changeLeverage:
  "honours changeLeverage (Some 3)
     [(''symbol'', 0, True), (''leverage'', 1, False), (''timestamp'', 2, False)]"
  by (rule honoursI)
     (simp add: changeLeverage_def Let_def batch_loop_fold wp_simps heap_simps options_in_store_def
        uppercased_def split: jsval.splits sum.splits option.splits)

lemma honours_changeMultiAssetType:
  "honours changeMultiAssetType (Some 2)
     [(''multiAssetsMargin'', 0, False), (''timestamp'', 1, False)]"
  by (rule honoursI)
     (simp add: changeMultiAssetType_def Let_def batch_loop_fold wp_simps heap_simps options_in_store_def
        uppercased_def split: jsval.splits sum.splits option.splits)

lemma honours_modifyIsolatedMargin:
  "honours modifyIsolatedMargin (Some 4)
     [(''symbol'', 0, True), (''amount'', 1, False), (''type'', 2, False), (''timestamp'', 3, False)]"
  by (rule honoursI)
     (simp add: modifyIsolatedMargin_def Let_def batch_loop_fold wp_simps heap_simps options_in_store_def
        uppercased_def split: jsval.splits sum.splits option.splits)

lemma honours_positionInformationV2:
  "honours positionInformationV2 (Some 1)
     [(''timestamp'', 0, False)]"
  by (rule honoursI)
     (simp add: positionInformationV2_def Let_def batch_loop_fold wp_simps heap_simps options_in_store_def
        uppercased_def split: jsval.splits sum.splits option.splits)

lemma honours_positionInformationV3:
  "honours positionInformationV3 (Some 1)
     [(''timestamp'', 0, False)]"
  by (rule honoursI)
     (simp add: positionInformationV3_def Let_def batch_loop_fold wp_simps heap_simps options_in_store_def
        uppercased_def split: jsval.splits sum.splits option.splits)

lemma honours_adlQuantile:
  "honours adlQuantile (Some 1)
     [(''timestamp'', 0, False)]"
  by (rule honoursI)
     (simp add: adlQuantile_def Let_def batch_loop_fold wp_simps heap_simps options_in_store_def
        uppercased_def split: jsval.splits sum.splits option.splits)

lemma honours_positionMarginHistory:
  "honours positionMarginHistory (Some 2)
     [(''symbol'', 0, True), (''timestamp'', 1, False)]"
  by (rule honoursI)
     (simp add: positionMarginHistory_def Let_def batch_loop_fold wp_simps heap_simps options_in_store_def
        uppercased_def split: jsval.splits sum.splits option.splits)

lemma honours_newOrder_dup:
  "honours newOrder_dup (Some 4)
     [(''symbol'', 0, True), (''side'', 1, True), (''type'', 2, True), (''timestamp'', 3, False)]"
  by (rule honoursI)
     (simp add: newOrder_dup_def Let_def batch_loop_fold wp_simps heap_simps options_in_store_def
        uppercased_def split: jsval.splits sum.splits option.splits)

lemma honours_newOrder_2:
  "honours newOrder_2 (Some 4)
     [(''symbol'', 0, True), (''side'', 1, True), (''type'', 2, True), (''timestamp'', 3, False)]"
  by (rule honoursI)
     (simp add: newOrder_2_def Let_def batch_loop_fold wp_simps heap_simps options_in_store_def
        uppercased_def split: jsval.splits sum.splits option.splits)

lemma honours_placeMultipleOrder_2:
  "honours placeMultipleOrder_2 (Some 2)
     [(''batchOrders'', 0, False), (''timestamp'', 1, False)]"
  by (rule honoursI)
     (simp add: placeMultipleOrder_2_def Let_def batch_loop_fold wp_simps heap_simps options_in_store_def
        uppercased_def split: jsval.splits sum.splits option.splits)

lemma honours_modifyOrder_2:
  "honours modifyOrder_2 (Some 5)
     [(''symbol'', 0, True), (''side'', 1, True), (''number'', 2, False), (''price'', 3, False), (''timestamp'', 4, False)]"
  by (rule honoursI)
     (simp add: modifyOrder_2_def Let_def batch_loop_fold wp_simps heap_simps options_in_store_def
        uppercased_def split: jsval.splits sum.splits option.splits)

lemma honours_modifyMultipleOrder_2:
  "honours modifyMultipleOrder_2 (Some 2)
     [(''batchOrders'', 0, False), (''timestamp'', 1, False)]"
  by (rule honoursI)
     (simp add: modifyMultipleOrder_2_def Let_def batch_loop_fold wp_simps heap_simps options_in_store_def
        uppercased_def split: jsval.splits sum.splits option.splits)

lemma honours_orderModifyHistory_2:
  "honours orderModifyHistory_2 (Some 2)
     [(''symbol'', 0, True), (''timestamp'', 1, False)]"
  by (rule honoursI)
     (simp add: orderModifyHistory_2_def Let_def batch_loop_fold wp_simps heap_simps options_in_store_def
        uppercased_def split: jsval.splits sum.splits option.splits)

lemma honours_cancelOrder_2:
  "honours cancelOrder_2 (Some 2)
     [(''symbol'', 0, True), (''timestamp'', 1, False)]"
  by (rule honoursI)
     (simp add: cancelOrder_2_def Let_def batch_loop_fold wp_simps heap_simps options_in_store_def
        uppercased_def split: jsval.splits sum.splits option.splits)

lemma honours_cancelMultipleOrders_2:
  "honours cancelMultipleOrders_2 (Some 2)
     [(''symbol'', 0, True), (''timestamp'', 1, False)]"
  by (rule honoursI)
     (simp add: cancelMultipleOrders_2_def Let_def batch_loop_fold wp_simps heap_simps options_in_store_def
        uppercased_def split: jsval.splits sum.splits option.splits)

lemma honours_cancelAllOpenOrders_2:
  "honours cancelAllOpenOrders_2 (Some 2)
     [(''symbol'', 0, True), (''timestamp'', 1, False)]"
  by (rule honoursI)
     (simp add: cancelAllOpenOrders_2_def Let_def batch_loop_fold wp_simps heap_simps options_in_store_def
        uppercased_def split: jsval.splits sum.splits option.splits)

lemma honours_countDownCancelAll_2:
  "honours countDownCancelAll_2 (Some 3)
     [(''symbol'', 0, True), (''countdownTime'', 2, False), (''timestamp'', 1, False)]"
  by (rule honoursI)
     (simp add: countDownCancelAll_2_def Let_def batch_loop_fold wp_simps heap_simps options_in_store_def
        uppercased_def split: jsval.splits sum.splits option.splits)

lemma honours_queryOrder_2:
  "honours queryOrder_2 (Some 2)
     [(''symbol'', 0, True), (''timestamp'', 1, False)]"
  by (rule honoursI)
     (simp add: queryOrder_2_def Let_def batch_loop_fold wp_simps heap_simps options_in_store_def
        uppercased_def split: jsval.splits sum.splits option.splits)

lemma honours_queryAllOrders_2:
  "honours queryAllOrders_2 (Some 2)
     [(''symbol'', 0, True), (''timestamp'', 1, False)]"
  by (rule honoursI)
     (simp add: queryAllOrders_2_def Let_def batch_loop_fold wp_simps heap_simps options_in_store_def
        uppercased_def split: jsval.splits sum.splits option.splits)

lemma honours_queryCurrentAllOpenOrders_2:
  "honours queryCurrentAllOpenOrders_2 (Some 1)
     [(''timestamp'', 0, False)]"
  by (rule honoursI)
     (simp add: queryCurrentAllOpenOrders_2_def Let_def batch_loop_fold wp_simps heap_simps options_in_store_def
        uppercased_def split: jsval.splits sum.splits option.splits)

lemma honours_queryCurrentOpenOrder_2:
  "honours queryCurrentOpenOrder_2 (Some 2)
     [(''symbol'', 0, True), (''timestamp'', 1, False)]"
  by (rule honoursI)
     (simp add: queryCurrentOpenOrder_2_def Let_def batch_loop_fold wp_simps heap_simps options_in_store_def
        uppercased_def split: jsval.splits sum.splits option.splits)

lemma honours_forceOrders_2:
  "honours forceOrders_2 (Some 1)
     [(''timestamp'', 0, False)]"
  by (rule honoursI)
     (simp add: forceOrders_2_def Let_def batch_loop_fold wp_simps heap_simps options_in_store_def
        uppercased_def split: jsval.splits sum.splits option.splits)

lemma honours_queryUserTrades_2:
  "honours queryUserTrades_2 (Some 2)
     [(''symbol'', 0, True), (''timestamp'', 1, False)]"
  by (rule honoursI)
     (simp add: queryUserTrades_2_def Let_def batch_loop_fold wp_simps heap_simps options_in_store_def
        uppercased_def split: jsval.splits sum.splits option.splits)

lemma honours_changeMarginType_2:
  "honours changeMarginType_2 (Some 3)
     [(''symbol'', 0, True), (''marginType'', 1, True), (''timestamp'', 2, False)]"
  by (rule honoursI)
     (simp add: changeMarginType_2_def Let_def batch_loop_fold wp_simps heap_simps options_in_store_def
        uppercased_def split: jsval.splits sum.splits option.splits)

lemma honours_changePositionMode_2:
  "honours changePositionMode_2 (Some 2)
     [(''dualSidePosition'', 0, False), (''timestamp'', 1, False)]"
  by (rule honoursI)
     (simp add: changePositionMode_2_def Let_def batch_loop_fold wp_simps heap_simps options_in_store_def
        uppercased_def split: jsval.splits sum.splits option.splits)

lemma honours_exchangeInfo:
  "honours exchangeInfo (Some 0)
     []"
  by (rule honoursI)
     (auto simp: exchangeInfo_def Let_def wp_simps heap_simps options_in_store_def
        split: jsval.splits sum.splits jsobj.splits)

lemma honours_depth:
  "honours depth (Some 1)
     [(''symbol'', 0, True)]"
  by (rule honoursI)
     (simp add: depth_def Let_def batch_loop_fold wp_simps heap_simps options_in_store_def
        uppercased_def split: jsval.splits sum.splits option.splits)

lemma honours_trades:
  "honours trades (Some 1)
     [(''symbol'', 0, True)]"
  by (rule honoursI)
     (simp add: trades_def Let_def batch_loop_fold wp_simps heap_simps options_in_store_def
        uppercased_def split: jsval.splits sum.splits option.splits)

lemma honours_historicalTrades:
  "honours historicalTrades (Some 1)
     [(''symbol'', 0, True)]"
  by (rule honoursI)
     (simp add: historicalTrades_def Let_def batch_loop_fold wp_simps heap_simps options_in_store_def
        uppercased_def split: jsval.splits sum.splits option.splits)

lemma honours_aggTrades:
  "honours aggTrades (Some 1)
     [(''symbol'', 0, True)]"
  by (rule honoursI)
     (simp add: aggTrades_def Let_def batch_loop_fold wp_simps heap_simps options_in_store_def
        uppercased_def split: jsval.splits sum.splits option.splits)

lemma honours_klines:
  "honours klines (Some 2)
     [(''symbol'', 0, True), (''interval'', 1, False)]"
  by (rule honoursI)
     (simp add: klines_def Let_def batch_loop_fold wp_simps heap_simps options_in_store_def
        uppercased_def split: jsval.splits sum.splits option.splits)

lemma honours_continousklines:
  "honours continousklines (Some 3)
     [(''pair'', 0, True), (''contractType'', 1, False), (''interval'', 2, False)]"
  by (rule honoursI)
     (simp add: continousklines_def Let_def batch_loop_fold wp_simps heap_simps options_in_store_def
        uppercased_def split: jsval.splits sum.splits option.splits)

lemma honours_indexklines:
  "honours indexklines (Some 2)
     [(''pair'', 0, True), (''interval'', 1, False)]"
  by (rule honoursI)
     (simp add: indexklines_def Let_def batch_loop_fold wp_simps heap_simps options_in_store_def
        uppercased_def split: jsval.splits sum.splits option.splits)

lemma honours_markklines:
  "honours markklines (Some 2)
     [(''symbol'', 0, True), (''interval'', 1, False)]"
  by (rule honoursI)
     (simp add: markklines_def Let_def batch_loop_fold wp_simps heap_simps options_in_store_def
        uppercased_def split: jsval.splits sum.splits option.splits)

lemma honours_markklines_dup:
  "honours markklines_dup (Some 2)
     [(''symbol'', 0, True), (''interval'', 1, False)]"
  by (rule honoursI)
     (simp add: markklines_dup_def Let_def batch_loop_fold wp_simps heap_simps options_in_store_def
        uppercased_def split: jsval.splits sum.splits option.splits)

lemma honours_premiumindexklines:
  "honours premiumindexklines (Some 2)
     [(''symbol'', 0, True), (''interval'', 1, False)]"
  by (rule honoursI)
     (simp add: premiumindexklines_def Let_def batch_loop_fold wp_simps heap_simps options_in_store_def
        uppercased_def split: jsval.splits sum.splits option.splits)

lemma honours_premiumindex:
  "honours premiumindex (None)
     [(''symbol'', 0, True)]"
  by (rule honoursI)
     (simp add: premiumindex_def Let_def batch_loop_fold wp_simps heap_simps options_in_store_def
        uppercased_def split: jsval.splits sum.splits option.splits)

lemma honours_fundingRateHistory:
  "honours fundingRateHistory (Some 1)
     [(''symbol'', 0, True)]"
  by (rule honoursI)
     (simp add: fundingRateHistory_def Let_def batch_loop_fold wp_simps heap_simps options_in_store_def
        uppercased_def split: jsval.splits sum.splits option.splits)

lemma honours_priceChange24H:
  "honours priceChange24H (None)
     [(''symbol'', 0, True)]"
  by (rule honoursI)
     (simp add: priceChange24H_def Let_def batch_loop_fold wp_simps heap_simps options_in_store_def
        uppercased_def split: jsval.splits sum.splits option.splits)

lemma honours_symbolPriceTicker:
  "honours symbolPriceTicker (None)
     [(''symbol'', 0, True)]"
  by (rule honoursI)
     (simp add: symbolPriceTicker_def Let_def batch_loop_fold wp_simps heap_simps options_in_store_def
        uppercased_def split: jsval.splits sum.splits option.splits)

lemma honours_symbolPriceTickerV2:
  "honours symbolPriceTickerV2 (None)
     [(''symbol'', 0, True)]"
  by (rule honoursI)
     (simp add: symbolPriceTickerV2_def Let_def batch_loop_fold wp_simps heap_simps options_in_store_def
        uppercased_def split: jsval.splits sum.splits option.splits)

lemma honours_bookTicker:
  "honours bookTicker (None)
     [(''symbol'', 0, True)]"
  by (rule honoursI)
     (simp add: bookTicker_def Let_def batch_loop_fold wp_simps heap_simps options_in_store_def
        uppercased_def split: jsval.splits sum.splits option.splits)

lemma honours_openInterest:
  "honours openInterest (None)
     [(''symbol'', 0, True)]"
  by (rule honoursI)
     (simp add: openInterest_def Let_def batch_loop_fold wp_simps heap_simps options_in_store_def
        uppercased_def split: jsval.splits sum.splits option.splits)

lemma honours_deliveryPrice:
  "honours deliveryPrice (None)
     [(''pair'', 0, True)]"
  by (rule honoursI)
     (simp add: deliveryPrice_def Let_def batch_loop_fold wp_simps heap_simps options_in_store_def
        uppercased_def split: jsval.splits sum.splits option.splits)

lemma honours_openInterestHist:
  "honours openInterestHist (Some 2)
     [(''symbol'', 0, True), (''period'', 1, False)]"
  by (rule honoursI)
     (simp add: openInterestHist_def Let_def batch_loop_fold wp_simps heap_simps options_in_store_def
        uppercased_def split: jsval.splits sum.splits option.splits)

lemma honours_topLongShortAccountRatio:
  "honours topLongShortAccountRatio (Some 2)
     [(''symbol'', 0, True), (''period'', 1, False)]"
  by (rule honoursI)
     (simp add: topLongShortAccountRatio_def Let_def batch_loop_fold wp_simps heap_simps options_in_store_def
        uppercased_def split: jsval.splits sum.splits option.splits)

lemma honours_topLongShortPositionRatio:
  "honours topLongShortPositionRatio (Some 2)
     [(''symbol'', 0, True), (''period'', 1, False)]"
  by (rule honoursI)
     (simp add: topLongShortPositionRatio_def Let_def batch_loop_fold wp_simps heap_simps options_in_store_def
        uppercased_def split: jsval.splits sum.splits option.splits)

lemma honours_globalLongShortAccountRatio:
  "honours globalLongShortAccountRatio (Some 2)
     [(''symbol'', 0, True), (''period'', 1, False)]"
  by (rule honoursI)
     (simp add: globalLongShortAccountRatio_def Let_def batch_loop_fold wp_simps heap_simps options_in_store_def
        uppercased_def split: jsval.splits sum.splits option.splits)

lemma honours_takerlongshortRatio:
  "honours takerlongshortRatio (Some 2)
     [(''symbol'', 0, True), (''period'', 1, False)]"
  by (rule honoursI)
     (simp add: takerlongshortRatio_def Let_def batch_loop_fold wp_simps heap_simps options_in_store_def
        uppercased_def split: jsval.splits sum.splits option.splits)

lemma honours_basis:
  "honours basis (Some 4)
     [(''pair'', 0, True), (''contractType'', 1, False), (''period'', 2, False), (''limit'', 3, False)]"
  by (rule honoursI)
     (simp add: basis_def Let_def batch_loop_fold wp_simps heap_simps options_in_store_def
        uppercased_def split: jsval.splits sum.splits option.splits)

lemma honours_lvtKlines:
  "honours lvtKlines (Some 2)
     [(''symbol'', 0, True), (''interval'', 1, False)]"
  by (rule honoursI)
     (simp add: lvtKlines_def Let_def batch_loop_fold wp_simps heap_simps options_in_store_def
        uppercased_def split: jsval.splits sum.splits option.splits)

lemma honours_indexInfo:
  "honours indexInfo (None)
     [(''symbol'', 0, True)]"
  by (rule honoursI)
     (simp add: indexInfo_def Let_def batch_loop_fold wp_simps heap_simps options_in_store_def
        uppercased_def split: jsval.splits sum.splits option.splits)

lemma honours_assetIndex:
  "honours assetIndex (None)
     [(''symbol'', 0, True)]"
  by (rule honoursI)
     (simp add: assetIndex_def Let_def batch_loop_fold wp_simps heap_simps options_in_store_def
        uppercased_def split: jsval.splits sum.splits option.splits)

lemma honours_constituents:
  "honours constituents (None)
     [(''symbol'', 0, True)]"
  by (rule honoursI)
     (simp add: constituents_def Let_def batch_loop_fold wp_simps heap_simps options_in_store_def
        uppercased_def split: jsval.splits sum.splits option.splits)

lemmas honours_all =
  honours_newOrder
  honours_placeMultipleOrder
  honours_modifyOrder
  honours_modifyMultipleOrder
  honours_orderModifyHistory
  honours_cancelOrder
  honours_cancelMultipleOrders
  honours_cancelAllOpenOrders
  honours_countDownCancelAll
  honours_queryOrder
  honours_queryAllOrders
  honours_queryCurrentAllOpenOrders
  honours_queryCurrentOpenOrder
  honours_forceOrders
  honours_queryUserTrades
  honours_changeMarginType
  honours_changePositionMode
  honours_changeLeverage
  honours_changeMultiAssetType
  honours_modifyIsolatedMargin
  honours_positionInformationV2
  honours_positionInformationV3
  honours_adlQuantile
  honours_positionMarginHistory
  honours_newOrder_dup
  honours_newOrder_2
  honours_placeMultipleOrder_2
  honours_modifyOrder_2
  honours_modifyMultipleOrder_2
  honours_orderModifyHistory_2
  honours_cancelOrder_2
  honours_cancelMultipleOrders_2
  honours_cancelAllOpenOrders_2
  honours_countDownCancelAll_2
  honours_queryOrder_2
  honours_queryAllOrders_2
  honours_queryCurrentAllOpenOrders_2
  honours_queryCurrentOpenOrder_2
  honours_forceOrders_2
  honours_queryUserTrades_2
  honours_changeMarginType_2
  honours_changePositionMode_2
  honours_exchangeInfo
  honours_depth
  honours_trades
  honours_historicalTrades
  honours_aggTrades
  honours_klines
  honours_continousklines
  honours_indexklines
  honours_markklines
  honours_markklines_dup
  honours_premiumindexklines
  honours_premiumindex
  honours_fundingRateHistory
  honours_priceChange24H
  honours_symbolPriceTicker
  honours_symbolPriceTickerV2
  honours_bookTicker
  honours_openInterest
  honours_deliveryPrice
  honours_openInterestHist
  honours_topLongShortAccountRatio
  honours_topLongShortPositionRatio
  honours_globalLongShortAccountRatio
  honours_takerlongshortRatio
  honours_basis
  honours_lvtKlines
  honours_indexInfo
  honours_assetIndex
  honours_constituents

lemma contracts_honoured: "list_all (\<lambda>(op, oi, req). honours op oi req) contracts"
  unfolding contracts_def by (simp only: list.pred_inject prod.case honours_all simp_thms)

section \<open>The frame of the operations\<close>

lemma frame_refl: "frame s s"
  by (simp add: frame_def)

lemma frame_trans: "frame s s' \<Longrightarrow> frame s' s'' \<Longrightarrow> frame s s''"
  by (auto simp: frame_def)

lemma frame_sent: "frame s (s\<lparr>sent := x\<rparr>)"
  by (simp add: frame_def)

lemma frame_alloc: "frame s (s\<lparr>heap := heap s @ [obj]\<rparr>)"
  by (simp add: frame_def heap_simps)

lemma lookup_assign_props_other:
  "k \<notin> set (map fst fs) \<Longrightarrow> lookup (assign_props ps fs) k = lookup ps k"
  by (induction fs arbitrary: ps) (auto simp: heap_simps)

lemma frame_write_props:
  assumes "set (map fst fs) \<inter> set config_keys = {}"
  shows "frame s (write_props a fs s)"
proof -
  have "lookup (assign_props (own_props (heap s ! a)) fs) k = property (heap s) (Ref a) k"
    if "k \<in> set config_keys" "a < length (heap s)" for k
  proof -
    have "k \<notin> set (map fst fs)" using assms that(1) by auto
    then show ?thesis
      using that(2) by (simp add: lookup_assign_props_other lookup_own_props)
  qed
  then show ?thesis
    by (simp add: frame_def property_write_props length_heap_write_props)
qed

named_theorems keeps_intros

lemma keeps_pure: "pure m \<Longrightarrow> keeps m"
  by (simp add: keeps_def pure_def frame_refl)

lemma keeps_ret [keeps_intros]: "keeps (ret x)"
  by (simp add: keeps_pure pure_ret)

lemma keeps_throw [keeps_intros]: "keeps (throw e)"
  by (simp add: keeps_pure pure_throw)

lemma keeps_bind [keeps_intros]: "keeps m \<Longrightarrow> (\<And>x. keeps (f x)) \<Longrightarrow> keeps (bind m f)"
  unfolding keeps_def bind_def
  by (auto split: prod.splits sum.splits) (metis frame_trans snd_conv)+

lemma keeps_seq [keeps_intros]: "keeps m \<Longrightarrow> keeps n \<Longrightarrow> keeps (seq m n)"
  by (simp add: seq_def keeps_bind)

lemma keeps_if_then [keeps_intros]: "keeps c \<Longrightarrow> keeps m \<Longrightarrow> keeps (if_then c m)"
  unfolding if_then_def by (rule keeps_bind) (simp_all add: keeps_ret)

lemma keeps_default_param [keeps_intros]: "keeps d \<Longrightarrow> keeps (default_param v d)"
  by (simp add: default_param_def keeps_ret)

lemma keeps_free_identifier [keeps_intros]: "keeps (free_identifier G x)"
  by (simp add: free_identifier_def keeps_ret keeps_throw split: option.splits)

lemma keeps_toUpperCase [keeps_intros]: "keeps e \<Longrightarrow> keeps (toUpperCase e)"
  unfolding toUpperCase_def
  by (rule keeps_bind) (auto simp: keeps_ret keeps_throw split: jsval.splits)

lemma keeps_object_literal [keeps_intros]:
  "list_all (\<lambda>f. keeps (snd f)) fs \<Longrightarrow> keeps (object_literal fs)"
  by (induction fs) (auto intro!: keeps_bind keeps_ret)

lemma keeps_alloc [keeps_intros]: "keeps (alloc obj)"
  by (simp add: keeps_def alloc_def frame_alloc)

lemma keeps_new_object [keeps_intros]: "keeps e \<Longrightarrow> keeps (new_object e)"
  unfolding new_object_def by (intro keeps_bind keeps_alloc)

lemma keeps_validateRequiredParameters [keeps_intros]:
  "keeps e \<Longrightarrow> keeps (validateRequiredParameters e)"
  unfolding validateRequiredParameters_def
  by (rule keeps_bind) (auto simp: keeps_ret keeps_throw split: list.splits)

lemma keeps_batch_loop [keeps_intros]: "keeps (batch_loop v ks)"
  by (rule keeps_pure) (rule pure_batch_loop)

lemma keeps_dispatcher [keeps_intros]: "keeps e \<Longrightarrow> keeps (dispatcher d m p e)"
  unfolding dispatcher_def
  by (rule keeps_bind) (simp_all add: keeps_def frame_sent)

lemma keeps_signRequest [keeps_intros]: "keeps e \<Longrightarrow> keeps (signRequest m p e)"
  by (simp add: signRequest_def keeps_dispatcher)

lemma keeps_publicRequest [keeps_intros]: "keeps e \<Longrightarrow> keeps (publicRequest m p e)"
  by (simp add: publicRequest_def keeps_dispatcher)

lemma object_literal_keys:
  "object_literal fs s = (Inr ps, s') \<Longrightarrow> map fst ps = map fst fs"
  by (induction fs arbitrary: s ps)
     (auto simp: ret_def bind_def split: prod.splits sum.splits)

lemma keeps_Object_assign [keeps_intros]:
  assumes "keeps t" and "list_all (\<lambda>f. keeps (snd f)) fs"
    and "set (map fst fs) \<inter> set config_keys = {}"
  shows "keeps (Object_assign t (object_literal fs))"
proof -
  have lit: "keeps (object_literal fs)"
    using assms(2) by (rule keeps_object_literal)
  have step: "frame s (snd ((case x of
         Undefined \<Rightarrow> (Inl TypeError, s)
       | Null \<Rightarrow> (Inl TypeError, s)
       | Ref a \<Rightarrow> (Inr (Ref a), write_props a ps s)
       | _ \<Rightarrow> alloc (Object (assign_props (enumerable_props (heap s) x) ps)) s)
        :: (error + jsval) \<times> state))"
    if "map fst ps = map fst fs" for x ps s
    using that assms(3)
    by (auto simp: frame_refl frame_alloc alloc_def frame_write_props split: jsval.splits)
  show ?thesis
    unfolding keeps_def Object_assign_def bind_def
  proof (intro allI)
    fix s
    obtain r1 s1 where t: "t s = (r1, s1)" by fastforce
    have f1: "frame s s1" using assms(1) t by (metis keeps_def snd_conv)
    show "frame s (snd (case t s of (Inl e, s') \<Rightarrow> (Inl e, s')
        | (Inr x, s') \<Rightarrow> (case object_literal fs s' of (Inl e, s'') \<Rightarrow> (Inl e, s'')
            | (Inr ps, s'') \<Rightarrow>
               (case x of
                  Undefined \<Rightarrow> (Inl TypeError, s'')
                | Null \<Rightarrow> (Inl TypeError, s'')
                | Ref a \<Rightarrow> (Inr (Ref a), write_props a ps s'')
                | _ \<Rightarrow> alloc (Object (assign_props (enumerable_props (heap s'') x) ps)) s''))))"
    proof (cases r1)
      case (Inl e)
      then show ?thesis using t f1 by simp
    next
      case (Inr x)
      obtain r2 s2 where l: "object_literal fs s1 = (r2, s2)" by fastforce
      have f2: "frame s1 s2" using lit l by (metis keeps_def snd_conv)
      show ?thesis
      proof (cases r2)
        case (Inl e)
        then show ?thesis using t Inr l f1 f2 by (simp add: frame_trans [OF f1 f2])
      next
        case ps: (Inr ps)
        have keys: "map fst ps = map fst fs"
          using l ps by (simp add: object_literal_keys)
        have "frame s2 (snd ((case x of
               Undefined \<Rightarrow> (Inl TypeError, s2)
             | Null \<Rightarrow> (Inl TypeError, s2)
             | Ref a \<Rightarrow> (Inr (Ref a), write_props a ps s2)
             | _ \<Rightarrow> alloc (Object (assign_props (enumerable_props (heap s2) x) ps)) s2)
              :: (error + jsval) \<times> state))"
          by (rule step [OF keys])
        then show ?thesis
          using t Inr l ps frame_trans [OF frame_trans [OF f1 f2]] by simp
      qed
    qed
  qed
qed

lemma keeps_set_property [keeps_intros]:
  "k \<notin> set config_keys \<Longrightarrow> keeps e \<Longrightarrow> keeps (set_property v k e)"
  unfolding set_property_def
  by (rule keeps_bind)
     (auto simp: keeps_def frame_refl frame_write_props split: jsval.splits)

lemma keeps_get_property [keeps_intros]: "keeps (get_property v k)"
  by (rule keeps_pure) (rule pure_get_property)

lemma keeps_hasOwnProperty [keeps_intros]: "keeps (hasOwnProperty v k)"
  by (rule keeps_pure) (simp add: pure_def hasOwnProperty_def split: jsval.splits)

lemma keeps_map_exec [keeps_intros]: "(\<And>x. keeps (f x)) \<Longrightarrow> keeps (map_exec f xs)"
  by (induction xs) (auto intro!: keeps_bind keeps_ret)

lemma keeps_array_map [keeps_intros]:
  assumes "keeps e" and "\<And>x. keeps (f x)"
  shows "keeps (array_map e f)"
  unfolding array_map_def
proof (rule keeps_bind [OF assms(1)])
  fix v
  have inner: "keeps (bind (map_exec f es) (\<lambda>ys. alloc (Array ys [])))" for es
    by (intro keeps_bind keeps_map_exec assms(2) keeps_alloc)
  show "keeps (\<lambda>s. case v of
           Ref a \<Rightarrow>
             (case obj_at (heap s) a of
                Array es ps \<Rightarrow> bind (map_exec f es) (\<lambda>ys. alloc (Array ys [])) s
              | Object ps \<Rightarrow> (Inl TypeError, s))
         | _ \<Rightarrow> (Inl TypeError, s))"
    unfolding keeps_def
    using inner [unfolded keeps_def]
    by (auto simp: frame_refl split: jsval.splits jsobj.splits)
qed

lemmas Account_defs = futuresAccountBalanceV3_def futuresAccountBalanceV2_def accountInformationV3_def accountInformationV2_def userComissionRate_def futuresAccountConfiguration_def futuresSymbolConfiguration_def queryOrderRateLimit_def leverageBracket_def multiAssetMargin_def currentPositionMode_def getIncomeHistory_def apiTradingStatus_def getDownloadIdTransactionHistory_def
lemmas Trade_defs = newOrder_def placeMultipleOrder_def modifyOrder_def modifyMultipleOrder_def orderModifyHistory_def cancelOrder_def cancelMultipleOrders_def cancelAllOpenOrders_def countDownCancelAll_def queryOrder_def queryAllOrders_def queryCurrentAllOpenOrders_def queryCurrentOpenOrder_def forceOrders_def queryUserTrades_def changeMarginType_def changePositionMode_def changeLeverage_def changeMultiAssetType_def modifyIsolatedMargin_def positionInformationV2_def positionInformationV3_def adlQuantile_def positionMarginHistory_def newOrder_dup_def
lemmas Trade_2_defs = newOrder_2_def placeMultipleOrder_2_def modifyOrder_2_def modifyMultipleOrder_2_def orderModifyHistory_2_def cancelOrder_2_def cancelMultipleOrders_2_def cancelAllOpenOrders_2_def countDownCancelAll_2_def queryOrder_2_def queryAllOrders_2_def queryCurrentAllOpenOrders_2_def queryCurrentOpenOrder_2_def forceOrders_2_def queryUserTrades_2_def changeMarginType_2_def changePositionMode_2_def
lemmas Market_defs = ping_def time_def exchangeInfo_def depth_def trades_def historicalTrades_def aggTrades_def klines_def continousklines_def indexklines_def markklines_def markklines_dup_def premiumindexklines_def premiumindex_def fundingRateHistory_def fundingInfo_def priceChange24H_def symbolPriceTicker_def symbolPriceTickerV2_def bookTicker_def openInterest_def deliveryPrice_def openInterestHist_def topLongShortAccountRatio_def topLongShortPositionRatio_def globalLongShortAccountRatio_def takerlongshortRatio_def basis_def lvtKlines_def indexInfo_def assetIndex_def constituents_def

lemma keeps_Account: "(name, op) \<in> set Account \<Longrightarrow> keeps (op G args)"
  apply (auto simp: Account_def)
  apply (unfold Account_defs Let_def batch_loop_fold)
  apply ((intro keeps_intros; simp add: keeps_intros config_keys_def)+)
  done

lemma keeps_Trade: "(name, op) \<in> set Trade \<Longrightarrow> keeps (op G args)"
  apply (auto simp: Trade_def)
  apply (unfold Trade_defs Let_def batch_loop_fold)
  apply ((intro keeps_intros; simp add: keeps_intros config_keys_def)+)
  done

lemma keeps_Trade_2: "(name, op) \<in> set Trade_2 \<Longrightarrow> keeps (op G args)"
  apply (auto simp: Trade_2_def)
  apply (unfold Trade_2_defs Let_def batch_loop_fold)
  apply ((intro keeps_intros; simp add: keeps_intros config_keys_def)+)
  done

lemma keeps_Market: "(name, op) \<in> set Market \<Longrightarrow> keeps (op G args)"
  apply (auto simp: Market_def)
  apply (unfold Market_defs Let_def batch_loop_fold)
  apply ((intro keeps_intros; simp add: keeps_intros config_keys_def)+)
  done

section \<open>Consequences of the contracts\<close>

lemma honoursD:
  assumes "(op, oi, req) \<in> set contracts" and "op G args s = (Inr r, s')"
    and "options_in_store oi args s"
  shows "(case oi of None \<Rightarrow> True
          | Some i \<Rightarrow> (case param args i of Ref a \<Rightarrow> params r = Ref a | _ \<Rightarrow> True)) \<and>
         list_all (\<lambda>(k, j, up).
           property (heap s') (params r) k =
             (if up then uppercased (param args j) else param args j)) req"
proof -
  have "honours op oi req"
    using contracts_honoured assms(1) by (auto simp: list_all_iff)
  then show ?thesis
    using assms(2,3) unfolding honours_def by blast
qed

lemma property_defined_own:
  "property h (Ref a) k \<noteq> Undefined \<Longrightarrow> k \<in> fst ` set (own_props (obj_at h a))"
  by (auto simp: property_def get_def lookup_def split: option.splits dest: map_of_SomeD
        intro: rev_image_eqI)

lemma exchangeInfo_symbol:
  assumes "param args 0 = Ref a" "a < length (heap s)"
    and "property (heap s) (Ref a) ''symbol'' = Str str"
    and "exchangeInfo G args s = (Inr r, s')"
  shows "property (heap s') (params r) ''symbol'' = Str (toUpperCase_string str)"
  apply (rule wp_success [where m = "exchangeInfo G args" and s = s and r = r and s' = s'
        and Q = "\<lambda>r s'. property (heap s') (params r) ''symbol'' = Str (toUpperCase_string str)"])
   prefer 2 apply (rule assms(4))
  using assms(1-3) property_defined_own [of "heap s" a "''symbol''"]
  apply (auto simp: exchangeInfo_def wp_simps heap_simps split: jsval.splits sum.splits jsobj.splits)
  done

lemma wp_returns: "wp m Q (\<lambda>_ _. False) s \<Longrightarrow> \<exists>r s'. m s = (Inr r, s') \<and> Q r s'"
  by (auto simp: wp_def split: prod.splits sum.splits)


lemma lookup_assign_props_distinct:
  "distinct (map fst fs) \<Longrightarrow>
     lookup (assign_props ps fs) k = (if k \<in> fst ` set fs then lookup fs k else lookup ps k)"
proof (induction fs arbitrary: ps)
  case Nil
  then show ?case by (simp add: heap_simps)
next
  case (Cons f fs)
  then show ?case
    by (cases f) (auto simp: heap_simps rev_image_eqI)
qed

lemma nth_heap_write_props:
  "c \<noteq> a \<Longrightarrow> heap (write_props a fs s) ! c = heap s ! c"
  by (simp add: heap_write_props)

lemma placeMultipleOrder_other_objects:
  assumes "placeMultipleOrder G args s = (Inr r, s')" "c < length (heap s)" "param args 2 \<noteq> Ref c"
  shows "heap s' ! c = heap s ! c"
  apply (rule wp_success [where m = "placeMultipleOrder G args" and s = s and r = r and s' = s'
        and Q = "\<lambda>r s'. heap s' ! c = heap s ! c"])
   prefer 2 apply (rule assms(1))
  using assms(2,3)
  apply (simp add: placeMultipleOrder_def Let_def batch_loop_fold wp_simps heap_simps
      nth_append split: jsval.splits sum.splits)
  apply (auto simp: nth_heap_write_props nth_append)
  done

section \<open>What the operations write\<close>

text \<open>
  The rules below follow a method body construct by construct; the only constructs that write
  to an object of the caller are \<open>Object.assign\<close> and the assignment to a property.
\<close>

lemma unchanged_refl: "unchanged_outside K s s"
  by (simp add: unchanged_outside_def)

lemma unchanged_trans:
  "unchanged_outside K s s' \<Longrightarrow> unchanged_outside K s' s'' \<Longrightarrow> unchanged_outside K s s''"
  by (auto simp: unchanged_outside_def)

lemma unchanged_sent: "unchanged_outside K s (s\<lparr>sent := x\<rparr>)"
  by (simp add: unchanged_outside_def)

lemma unchanged_alloc: "unchanged_outside K s (s\<lparr>heap := heap s @ [obj]\<rparr>)"
  by (simp add: unchanged_outside_def heap_simps)

lemma unchanged_write_props:
  assumes "set (map fst fs) \<subseteq> K"
  shows "unchanged_outside K s (write_props a fs s)"
proof -
  have "lookup (assign_props (own_props (heap s ! a)) fs) k = property (heap s) (Ref a) k"
    if "k \<notin> K" "a < length (heap s)" for k
  proof -
    have "k \<notin> set (map fst fs)" using assms that(1) by auto
    then show ?thesis
      using that(2) by (simp add: lookup_assign_props_other lookup_own_props)
  qed
  then show ?thesis
    by (simp add: unchanged_outside_def property_write_props length_heap_write_props)
qed

named_theorems writes_intros

lemma writes_pure: "pure m \<Longrightarrow> writes_only K m"
  by (simp add: writes_only_def pure_def unchanged_refl)

lemma writes_ret [writes_intros]: "writes_only K (ret x)"
  by (simp add: writes_pure pure_ret)

lemma writes_throw [writes_intros]: "writes_only K (throw e)"
  by (simp add: writes_pure pure_throw)

lemma writes_bind [writes_intros]:
  "writes_only K m \<Longrightarrow> (\<And>x. writes_only K (f x)) \<Longrightarrow> writes_only K (bind m f)"
  unfolding writes_only_def bind_def
  by (auto split: prod.splits sum.splits) (metis unchanged_trans snd_conv)+

lemma writes_seq [writes_intros]:
  "writes_only K m \<Longrightarrow> writes_only K n \<Longrightarrow> writes_only K (seq m n)"
  by (simp add: seq_def writes_bind)

lemma writes_if_then [writes_intros]:
  "writes_only K c \<Longrightarrow> writes_only K m \<Longrightarrow> writes_only K (if_then c m)"
  unfolding if_then_def by (rule writes_bind) (simp_all add: writes_ret)

lemma writes_default_param [writes_intros]:
  "writes_only K d \<Longrightarrow> writes_only K (default_param v d)"
  by (simp add: default_param_def writes_ret)

lemma writes_free_identifier [writes_intros]: "writes_only K (free_identifier G x)"
  by (simp add: free_identifier_def writes_ret writes_throw split: option.splits)

lemma writes_toUpperCase [writes_intros]:
  "writes_only K e \<Longrightarrow> writes_only K (toUpperCase e)"
  unfolding toUpperCase_def
  by (rule writes_bind) (auto simp: writes_ret writes_throw split: jsval.splits)

lemma writes_object_literal [writes_intros]:
  "list_all (\<lambda>f. writes_only K (snd f)) fs \<Longrightarrow> writes_only K (object_literal fs)"
  by (induction fs) (auto intro!: writes_bind writes_ret)

lemma writes_alloc [writes_intros]: "writes_only K (alloc obj)"
  by (simp add: writes_only_def alloc_def unchanged_alloc)

lemma writes_new_object [writes_intros]:
  "writes_only K e \<Longrightarrow> writes_only K (new_object e)"
  unfolding new_object_def by (intro writes_bind writes_alloc)

lemma writes_validateRequiredParameters [writes_intros]:
  "writes_only K e \<Longrightarrow> writes_only K (validateRequiredParameters e)"
  unfolding validateRequiredParameters_def
  by (rule writes_bind) (auto simp: writes_ret writes_throw split: list.splits)

lemma writes_batch_loop [writes_intros]: "writes_only K (batch_loop v ks)"
  by (rule writes_pure) (rule pure_batch_loop)

lemma writes_dispatcher [writes_intros]:
  "writes_only K e \<Longrightarrow> writes_only K (dispatcher d m p e)"
  unfolding dispatcher_def
  by (rule writes_bind) (simp_all add: writes_only_def unchanged_sent)

lemma writes_signRequest [writes_intros]:
  "writes_only K e \<Longrightarrow> writes_only K (signRequest m p e)"
  by (simp add: signRequest_def writes_dispatcher)

lemma writes_publicRequest [writes_intros]:
  "writes_only K e \<Longrightarrow> writes_only K (publicRequest m p e)"
  by (simp add: publicRequest_def writes_dispatcher)

lemma writes_assign_step:
  "set (map fst ps) \<subseteq> K \<Longrightarrow>
   writes_only K (\<lambda>s. case x of
         Undefined \<Rightarrow> (Inl TypeError, s)
       | Null \<Rightarrow> (Inl TypeError, s)
       | Ref a \<Rightarrow> (Inr (Ref a), write_props a ps s)
       | _ \<Rightarrow> alloc (Object (assign_props (enumerable_props (heap s) x) ps)) s)"
  by (auto simp: writes_only_def unchanged_refl unchanged_alloc alloc_def unchanged_write_props
        split: jsval.splits)

lemma writes_bind_result:
  assumes "writes_only K m" and "\<And>x s s'. m s = (Inr x, s') \<Longrightarrow> unchanged_outside K s' (snd (f x s'))"
  shows "writes_only K (bind m f)"
  unfolding writes_only_def bind_def
proof (intro allI)
  fix s
  obtain r1 s1 where m: "m s = (r1, s1)" by fastforce
  have f1: "unchanged_outside K s s1" using assms(1) m by (metis writes_only_def snd_conv)
  show "unchanged_outside K s (snd (case m s of (Inl e, s') \<Rightarrow> (Inl e, s') | (Inr x, s') \<Rightarrow> f x s'))"
  proof (cases r1)
    case (Inl e)
    then show ?thesis using m f1 by simp
  next
    case (Inr x)
    then show ?thesis using m f1 assms(2) [of s x s1] by (simp add: unchanged_trans)
  qed
qed

lemma writes_Object_assign [writes_intros]:
  assumes "writes_only K t" and "list_all (\<lambda>f. writes_only K (snd f)) fs"
    and "set (map fst fs) \<subseteq> K"
  shows "writes_only K (Object_assign t (object_literal fs))"
  unfolding Object_assign_def
proof (rule writes_bind [OF assms(1)])
  fix x
  show "writes_only K (bind (object_literal fs) (\<lambda>fs s. case x of
         Undefined \<Rightarrow> (Inl TypeError, s)
       | Null \<Rightarrow> (Inl TypeError, s)
       | Ref a \<Rightarrow> (Inr (Ref a), write_props a fs s)
       | _ \<Rightarrow> alloc (Object (assign_props (enumerable_props (heap s) x) fs)) s))"
  proof (rule writes_bind_result)
    show "writes_only K (object_literal fs)"
      using assms(2) by (rule writes_object_literal)
  next
    fix ps s s'
    assume "object_literal fs s = (Inr ps, s')"
    then have "map fst ps = map fst fs" by (rule object_literal_keys)
    then have "set (map fst ps) \<subseteq> K" using assms(3) by simp
    from writes_assign_step [OF this, of x]
    show "unchanged_outside K s' (snd (case x of
         Undefined \<Rightarrow> (Inl TypeError, s')
       | Null \<Rightarrow> (Inl TypeError, s')
       | Ref a \<Rightarrow> (Inr (Ref a), write_props a ps s')
       | _ \<Rightarrow> alloc (Object (assign_props (enumerable_props (heap s') x) ps)) s'))"
      by (simp add: writes_only_def)
  qed
qed

lemma writes_set_property [writes_intros]:
  "k \<in> K \<Longrightarrow> writes_only K e \<Longrightarrow> writes_only K (set_property v k e)"
  unfolding set_property_def
  by (rule writes_bind)
     (auto simp: writes_only_def unchanged_refl unchanged_write_props split: jsval.splits)

lemma writes_get_property [writes_intros]: "writes_only K (get_property v k)"
  by (rule writes_pure) (rule pure_get_property)

lemma writes_hasOwnProperty [writes_intros]: "writes_only K (hasOwnProperty v k)"
  by (rule writes_pure) (simp add: pure_def hasOwnProperty_def split: jsval.splits)

lemma writes_map_exec [writes_intros]:
  "(\<And>x. writes_only K (f x)) \<Longrightarrow> writes_only K (map_exec f xs)"
  by (induction xs) (auto intro!: writes_bind writes_ret)

lemma writes_array_map [writes_intros]:
  assumes "writes_only K e" and "\<And>x. writes_only K (f x)"
  shows "writes_only K (array_map e f)"
  unfolding array_map_def
proof (rule writes_bind [OF assms(1)])
  fix v
  have inner: "writes_only K (bind (map_exec f es) (\<lambda>ys. alloc (Array ys [])))" for es
    by (intro writes_bind writes_map_exec assms(2) writes_alloc)
  show "writes_only K (\<lambda>s. case v of
           Ref a \<Rightarrow>
             (case obj_at (heap s) a of
                Array es ps \<Rightarrow> bind (map_exec f es) (\<lambda>ys. alloc (Array ys [])) s
              | Object ps \<Rightarrow> (Inl TypeError, s))
         | _ \<Rightarrow> (Inl TypeError, s))"
    unfolding writes_only_def
    using inner [unfolded writes_only_def]
    by (auto simp: unchanged_refl split: jsval.splits jsobj.splits)
qed


lemma writes_or_else [writes_intros]:
  "writes_only K e \<Longrightarrow> writes_only K d \<Longrightarrow> writes_only K (or_else e d)"
  unfolding or_else_def by (rule writes_bind) (simp_all add: writes_ret)

lemma writes_spread_literal [writes_intros]:
  "list_all (\<lambda>f. writes_only K (snd f)) fs \<Longrightarrow> writes_only K (spread_literal fs v)"
  unfolding spread_literal_def
  apply (rule writes_bind)
   apply (erule writes_object_literal)
  apply (simp add: writes_only_def unchanged_refl)
  done

lemma writes_APIBase [writes_intros]: "writes_only K e \<Longrightarrow> writes_only K (APIBase e)"
  by (simp add: APIBase_def)

subsection \<open>The properties every operation assigns\<close>









lemma options_without_assignment:
  "(op, Some i, []) \<in> set contracts \<Longrightarrow> op = exchangeInfo \<and> i = 0"
  by (auto simp: contracts_def)


subsection \<open>The two assignments of \<open>exchangeInfo\<close>\<close>




















section \<open>The validation loop of the batch operations\<close>

lemma destructure_result:
  assumes "v \<noteq> Undefined" "v \<noteq> Null"
  shows "destructure v ks s = (Inr (map (\<lambda>k. (k, property (heap s) v k)) ks), s)"
proof -
  have one: "get_property v k s = (Inr (property (heap s) v k), s)" for k
    using assms by (cases v) (simp_all add: get_property_def property_def)
  have "map_exec (\<lambda>k. bind (get_property v k) (\<lambda>x. ret (k, x))) ks s =
          (Inr (map (\<lambda>k. (k, property (heap s) v k)) ks), s)"
    by (induction ks) (simp_all add: ret_def bind_def one)
  then show ?thesis
    by (simp add: destructure_def)
qed

lemma validate_element:
  assumes "v \<noteq> Undefined" "v \<noteq> Null"
  shows "bind (destructure v ks) (\<lambda>locals. validateRequiredParameters (ret locals)) s =
           (if lacking (heap s) ks v = [] then (Inr (), s)
            else (Inl (MissingParameterError (lacking (heap s) ks v)), s))"
proof -
  have "map fst (filter (\<lambda>p. isEmptyValue (snd p)) (map (\<lambda>k. (k, property (heap s) v k)) ks)) =
          lacking (heap s) ks v"
    by (induction ks) (simp_all add: lacking_def)
  then show ?thesis
    by (auto simp: bind_def destructure_result [OF assms] validateRequiredParameters_def
        ret_def throw_def split: list.splits)
qed

lemma for_each_fails:
  assumes "list_all (\<lambda>v. v \<noteq> Undefined \<and> v \<noteq> Null) es"
    and "e \<in> set es" and "lacking (heap s) ks e \<noteq> []"
  shows "\<exists>missing. for_each es (\<lambda>element.
             bind (destructure element ks) (\<lambda>locals. validateRequiredParameters (ret locals))) s =
           (Inl (MissingParameterError missing), s) \<and> missing \<noteq> [] \<and> set missing \<subseteq> set ks"
  using assms
proof (induction es)
  case Nil
  then show ?case by simp
next
  case (Cons x es)
  have x: "x \<noteq> Undefined" "x \<noteq> Null"
    using Cons.prems(1) by simp_all
  show ?case
  proof (cases "lacking (heap s) ks x = []")
    case True
    with Cons.prems have "e \<in> set es" by auto
    with Cons have "\<exists>missing. for_each es (\<lambda>element.
             bind (destructure element ks) (\<lambda>locals. validateRequiredParameters (ret locals))) s =
           (Inl (MissingParameterError missing), s) \<and> missing \<noteq> [] \<and> set missing \<subseteq> set ks"
      by simp
    then show ?thesis
      using True by (simp add: seq_def bind_def [of "bind (destructure x ks) _"] validate_element [OF x])
  next
    case False
    then show ?thesis
      by (auto simp: seq_def bind_def [of "bind (destructure x ks) _"] validate_element [OF x]
          lacking_def)
  qed
qed

lemma batch_loop_fails:
  assumes "obj_at (heap s) b = Array es ps"
    and "list_all (\<lambda>v. v \<noteq> Undefined \<and> v \<noteq> Null) es"
    and "e \<in> set es" and "k \<in> set ks" and "isEmptyValue (property (heap s) e k)"
  shows "\<exists>missing. batch_loop (Ref b) ks s = (Inl (MissingParameterError missing), s) \<and>
           missing \<noteq> [] \<and> set missing \<subseteq> set ks"
proof -
  have "lacking (heap s) ks e \<noteq> []"
    using assms(4,5) by (auto simp: lacking_def filter_empty_conv)
  from for_each_fails [OF assms(2,3) this] show ?thesis
    using assms(1) by (simp add: batch_loop_def bind_def elements_def)
qed

lemma property_alloc_empty: "property (h @ [Object []]) v k = property h v k"
  by (cases v) (auto simp: property_def obj_at_def nth_append get_def own_props_def lookup_def)

lemma obj_at_alloc_Array: "obj_at h b = Array es ps \<Longrightarrow> obj_at (h @ [obj]) b = Array es ps"
  by (auto simp: obj_at_def nth_append split: if_splits)

section \<open>Method resolution in a composed class\<close>

lemma Futures_class_chain: "Futures_class ms base = ms @ base"
  by (induction ms) (simp_all add: Futures_class_def flowRight_def mixin_def)

lemma own_method_None: "n \<notin> names m \<Longrightarrow> own_method m n = None"
  by (simp add: own_method_def names_def map_of_eq_None_iff)

lemma own_method_Some: "n \<in> names m \<Longrightarrow> \<exists>d. own_method m n = Some d"
  by (cases "own_method m n") (auto simp: own_method_def names_def map_of_eq_None_iff)

lemma resolve_in_defining_module:
  assumes "m \<in> set ms" and "n \<in> names m"
    and "\<And>m'. m' \<in> set ms \<Longrightarrow> m' = m \<or> n \<notin> names m'"
  shows "resolve (ms @ base) n = own_method m n"
  using assms
proof (induction ms)
  case Nil
  then show ?case by simp
next
  case (Cons x ms)
  show ?case
  proof (cases "x = m")
    case True
    then show ?thesis
      using own_method_Some [OF Cons.prems(2)] by auto
  next
    case False
    then have "n \<notin> names x" "m \<in> set ms"
      using Cons.prems by auto
    then show ?thesis
      using Cons by (simp add: own_method_None)
  qed
qed

lemma module_names_disjoint:
  "names Account \<inter> names Trade = {}" "names Account \<inter> names Market = {}"
  "names Trade \<inter> names Market = {}" "names Account \<inter> names Trade_2 = {}"
  "names Trade_2 \<inter> names Market = {}"
  by (simp_all add: names_def Account_def Trade_def Trade_2_def Market_def)

section \<open>The path every operation takes\<close>

named_theorems routes_intros

lemma routes_bind [routes_intros]: "(\<And>x. routes d (f x)) \<Longrightarrow> routes d (bind m f)"
  by (auto simp: routes_def bind_def split: prod.splits sum.splits)

lemma routes_seq [routes_intros]: "routes d n \<Longrightarrow> routes d (seq m n)"
  by (simp add: seq_def routes_bind)

lemma routes_dispatcher: "routes d (dispatcher d m p e)"
  by (auto simp: routes_def dispatcher_def bind_def split: prod.splits sum.splits)

lemma routes_signRequest [routes_intros]: "routes Signed (signRequest m p e)"
  by (simp add: signRequest_def routes_dispatcher)

lemma routes_publicRequest [routes_intros]: "routes Public (publicRequest m p e)"
  by (simp add: publicRequest_def routes_dispatcher)

text \<open>
  All of \<open>Market\<close> and all of \<open>Account\<close> call \<open>publicRequest\<close>; the second \<open>Trade\<close>
  file calls \<open>signRequest\<close> throughout; the first \<open>Trade\<close> file calls \<open>signRequest\<close>
  in its POST, PUT and DELETE operations and \<open>publicRequest\<close> in its GET operations.
\<close>

lemma Market_routes:
  "routes Public (ping G args)"
  "routes Public (time G args)"
  "routes Public (exchangeInfo G args)"
  "routes Public (depth G args)"
  "routes Public (trades G args)"
  "routes Public (historicalTrades G args)"
  "routes Public (aggTrades G args)"
  "routes Public (klines G args)"
  "routes Public (continousklines G args)"
  "routes Public (indexklines G args)"
  "routes Public (markklines G args)"
  "routes Public (markklines_dup G args)"
  "routes Public (premiumindexklines G args)"
  "routes Public (premiumindex G args)"
  "routes Public (fundingRateHistory G args)"
  "routes Public (fundingInfo G args)"
  "routes Public (priceChange24H G args)"
  "routes Public (symbolPriceTicker G args)"
  "routes Public (symbolPriceTickerV2 G args)"
  "routes Public (bookTicker G args)"
  "routes Public (openInterest G args)"
  "routes Public (deliveryPrice G args)"
  "routes Public (openInterestHist G args)"
  "routes Public (topLongShortAccountRatio G args)"
  "routes Public (topLongShortPositionRatio G args)"
  "routes Public (globalLongShortAccountRatio G args)"
  "routes Public (takerlongshortRatio G args)"
  "routes Public (basis G args)"
  "routes Public (lvtKlines G args)"
  "routes Public (indexInfo G args)"
  "routes Public (assetIndex G args)"
  "routes Public (constituents G args)"
  unfolding Market_defs Let_def by (intro routes_intros)+

lemma Account_routes:
  "routes Public (futuresAccountBalanceV3 G args)"
  "routes Public (futuresAccountBalanceV2 G args)"
  "routes Public (accountInformationV3 G args)"
  "routes Public (accountInformationV2 G args)"
  "routes Public (userComissionRate G args)"
  "routes Public (futuresAccountConfiguration G args)"
  "routes Public (futuresSymbolConfiguration G args)"
  "routes Public (queryOrderRateLimit G args)"
  "routes Public (leverageBracket G args)"
  "routes Public (multiAssetMargin G args)"
  "routes Public (currentPositionMode G args)"
  "routes Public (getIncomeHistory G args)"
  "routes Public (apiTradingStatus G args)"
  "routes Public (getDownloadIdTransactionHistory G args)"
  unfolding Account_defs Let_def by (intro routes_intros)+

lemma Trade_2_routes:
  "routes Signed (newOrder_2 G args)"
  "routes Signed (placeMultipleOrder_2 G args)"
  "routes Signed (modifyOrder_2 G args)"
  "routes Signed (modifyMultipleOrder_2 G args)"
  "routes Signed (orderModifyHistory_2 G args)"
  "routes Signed (cancelOrder_2 G args)"
  "routes Signed (cancelMultipleOrders_2 G args)"
  "routes Signed (cancelAllOpenOrders_2 G args)"
  "routes Signed (countDownCancelAll_2 G args)"
  "routes Signed (queryOrder_2 G args)"
  "routes Signed (queryAllOrders_2 G args)"
  "routes Signed (queryCurrentAllOpenOrders_2 G args)"
  "routes Signed (queryCurrentOpenOrder_2 G args)"
  "routes Signed (forceOrders_2 G args)"
  "routes Signed (queryUserTrades_2 G args)"
  "routes Signed (changeMarginType_2 G args)"
  "routes Signed (changePositionMode_2 G args)"
  unfolding Trade_2_defs Let_def by (intro routes_intros)+

lemma Trade_routes:
  "routes Signed (newOrder G args)"
  "routes Signed (placeMultipleOrder G args)"
  "routes Signed (modifyOrder G args)"
  "routes Signed (modifyMultipleOrder G args)"
  "routes Public (orderModifyHistory G args)"
  "routes Signed (cancelOrder G args)"
  "routes Signed (cancelMultipleOrders G args)"
  "routes Signed (cancelAllOpenOrders G args)"
  "routes Signed (countDownCancelAll G args)"
  "routes Public (queryOrder G args)"
  "routes Public (queryAllOrders G args)"
  "routes Public (queryCurrentAllOpenOrders G args)"
  "routes Public (queryCurrentOpenOrder G args)"
  "routes Public (forceOrders G args)"
  "routes Public (queryUserTrades G args)"
  "routes Signed (changeMarginType G args)"
  "routes Signed (changePositionMode G args)"
  "routes Signed (changeLeverage G args)"
  "routes Signed (changeMultiAssetType G args)"
  "routes Signed (modifyIsolatedMargin G args)"
  "routes Public (positionInformationV2 G args)"
  "routes Public (positionInformationV3 G args)"
  "routes Public (adlQuantile G args)"
  "routes Public (positionMarginHistory G args)"
  "routes Signed (newOrder_dup G args)"
  unfolding Trade_defs Let_def by (intro routes_intros)+

section \<open>The operations that have a contract\<close>

text \<open>
  Every definition of the two \<open>Trade\<close> files has a contract, and so has every definition
  of \<open>Market\<close> but \<open>ping\<close>, \<open>time\<close> and \<open>fundingInfo\<close>, which send no parameter.
\<close>

lemma Trade_has_contracts: "snd ` set Trade \<union> snd ` set Trade_2 \<subseteq> fst ` set contracts"
  by (simp add: Trade_def Trade_2_def contracts_def)

lemma Market_has_contracts:
  "snd ` set Market \<subseteq> fst ` set contracts \<union> {ping, time, fundingInfo}"
  by (simp add: Market_def contracts_def)

section \<open>The claims\<close>

lemmas exec_defs =
  ret_def throw_def bind_def seq_def if_then_def param_def default_param_def
  free_identifier_def no_globals_def toUpperCase_def new_object_def alloc_def
  validateRequiredParameters_def isEmptyValue_def Object_assign_def write_props_def
  dispatcher_def signRequest_def publicRequest_def obj_at_def own_props_def with_props_def
  assign_props_def toUpperCase_string_def toUpperCase_char_def Let_def

lemmas batch_defs =
  elements_def destructure_def get_property_def get_def lookup_def property_def

subsection \<open>Signed and unsigned dispatch\<close>

text \<open>
  Claim C1 says that every operation of the Trade and Account modules is dispatched via
  \<open>signRequest\<close> and every operation of the Market module via \<open>publicRequest\<close>.  The
  first \<open>Trade\<close> file sends its \<open>queryOrder\<close> (a USER_DATA endpoint that takes a
  timestamp) via \<open>publicRequest\<close>; on the same call the \<open>queryOrder\<close> of the second
  \<open>Trade\<close> file takes the signed path.  The path of every other operation is in the
  lemmas \<open>Market_routes\<close>, \<open>Account_routes\<close>, \<open>Trade_routes\<close> and \<open>Trade_2_routes\<close>
  above.
\<close>

theorem queryOrder_takes_the_unsigned_path:
  "queryOrder no_globals [Str ''BTCUSDT'', Num 1700000000000] \<lparr>heap = [], sent = []\<rparr> =
     (Inr \<lparr>via = Public, verb = ''GET'', path = ''/fapi/v1/order'', params = Ref 0\<rparr>,
      \<lparr>heap = [Object [(''symbol'', Str ''BTCUSDT''), (''timestamp'', Num 1700000000000)]],
       sent = [\<lparr>via = Public, verb = ''GET'', path = ''/fapi/v1/order'', params = Ref 0\<rparr>]\<rparr>) \<and>
   queryOrder_2 no_globals [Str ''BTCUSDT'', Num 1700000000000] \<lparr>heap = [], sent = []\<rparr> =
     (Inr \<lparr>via = Signed, verb = ''GET'', path = ''/fapi/v1/order'', params = Ref 0\<rparr>,
      \<lparr>heap = [Object [(''symbol'', Str ''BTCUSDT''), (''timestamp'', Num 1700000000000)]],
       sent = [\<lparr>via = Signed, verb = ''GET'', path = ''/fapi/v1/order'', params = Ref 0\<rparr>]\<rparr>)"
  by (simp add: queryOrder_def queryOrder_2_def exec_defs)

subsection \<open>Missing required parameters\<close>

text \<open>
  Claim C2 says that a call in which a required parameter is undefined, null or the empty
  string fails with \<open>MissingParameterError\<close> before any request is attempted.
  \<open>symbolPriceTicker\<close> documents \<open>symbol\<close> as required and never validates it: with the
  empty string it hands a request over to the dispatcher.  Its sibling \<open>openInterest\<close>
  validates and fails as the claim says, and the operations of \<open>Account\<close> fail with a
  \<open>ReferenceError\<close>, not a \<open>MissingParameterError\<close>.
\<close>

theorem symbolPriceTicker_sends_empty_symbol:
  "symbolPriceTicker no_globals [Str ''''] \<lparr>heap = [], sent = []\<rparr> =
     (Inr \<lparr>via = Public, verb = ''GET'', path = ''/fapi/v1/ticker/price'', params = Ref 0\<rparr>,
      \<lparr>heap = [Object [(''symbol'', Str '''')]],
       sent = [\<lparr>via = Public, verb = ''GET'', path = ''/fapi/v1/ticker/price'',
                params = Ref 0\<rparr>]\<rparr>) \<and>
   openInterest no_globals [Str ''''] \<lparr>heap = [], sent = []\<rparr> =
     (Inl (MissingParameterError [''symbol'']), \<lparr>heap = [], sent = []\<rparr>) \<and>
   futuresAccountBalanceV3 no_globals [] \<lparr>heap = [], sent = []\<rparr> =
     (Inl (ReferenceError ''timestamp''), \<lparr>heap = [], sent = []\<rparr>)"
  by (simp add: symbolPriceTicker_def openInterest_def futuresAccountBalanceV3_def exec_defs)

subsection \<open>Upper-case symbols\<close>

text \<open>
  Claim C3 says that the symbol parameter of the outgoing request is the upper-cased input
  for every operation of every module, including the symbols nested inside the elements of
  \<open>batchOrders\<close>.  \<open>placeMultipleOrder\<close> hands the array over as it is: the symbol of
  the element stays in lower case.
\<close>

theorem batch_symbols_are_not_uppercased:
  "placeMultipleOrder no_globals [Ref 0, Num 1700000000000]
     \<lparr>heap = [Array [Ref 1] [],
              Object [(''symbol'', Str ''btcusdt''), (''side'', Str ''BUY''),
                      (''type'', Str ''MARKET''), (''quantity'', Num 1)]],
      sent = []\<rparr> =
     (Inr \<lparr>via = Signed, verb = ''POST'', path = ''/fapi/v1/batchOrders'', params = Ref 2\<rparr>,
      \<lparr>heap = [Array [Ref 1] [],
               Object [(''symbol'', Str ''btcusdt''), (''side'', Str ''BUY''),
                       (''type'', Str ''MARKET''), (''quantity'', Num 1)],
               Object [(''batchOrders'', Ref 0), (''timestamp'', Num 1700000000000)]],
       sent = [\<lparr>via = Signed, verb = ''POST'', path = ''/fapi/v1/batchOrders'',
                params = Ref 2\<rparr>]\<rparr>) \<and>
   Str ''btcusdt'' \<noteq> Str (toUpperCase_string ''btcusdt'')"
  by (simp add: placeMultipleOrder_def exec_defs batch_defs)

text \<open>
  Claim C3 as amended.  For every operation that takes the symbol (or the pair) as a
  positional argument, which the contracts list with an upper-casing entry together with
  \<open>side\<close>, \<open>type\<close> and \<open>marginType\<close>, and for every string passed there: a call that
  reaches the dispatcher sends a request whose parameter of that name is the upper-cased
  string.  \<open>exchangeInfo\<close> upper-cases the \<open>symbol\<close> of its \<open>options\<close>.  The batch
  operation sends the caller's array under \<open>batchOrders\<close> and leaves every object but
  \<open>options\<close> as it was, the elements of the array among them.
\<close>

theorem positional_symbol_uppercased:
  "((op, oi, req) \<in> set contracts \<and> (key, j, True) \<in> set req \<and> param args j = Str str \<and>
    options_in_store oi args s \<and> op G args s = (Inr r, s')
      \<longrightarrow> property (heap s') (params r) key = Str (toUpperCase_string str)) \<and>
   (param args 0 = Ref a \<and> a < length (heap s) \<and>
    property (heap s) (Ref a) ''symbol'' = Str str \<and> exchangeInfo G args s = (Inr r, s')
      \<longrightarrow> property (heap s') (params r) ''symbol'' = Str (toUpperCase_string str)) \<and>
   (placeMultipleOrder G args s = (Inr r, s') \<and> options_in_store (Some 2) args s \<and>
    c < length (heap s) \<and> param args 2 \<noteq> Ref c
      \<longrightarrow> property (heap s') (params r) ''batchOrders'' = param args 0 \<and>
          heap s' ! c = heap s ! c)"
proof (intro conjI impI; elim conjE)
  assume c: "(op, oi, req) \<in> set contracts" and k: "(key, j, True) \<in> set req"
    and v: "param args j = Str str" and o: "options_in_store oi args s"
    and run: "op G args s = (Inr r, s')"
  from honoursD [OF c run o]
  have "list_all (\<lambda>(k, j, up).
           property (heap s') (params r) k =
             (if up then uppercased (param args j) else param args j)) req"
    by simp
  with k have "property (heap s') (params r) key = uppercased (param args j)"
    by (auto simp: list_all_iff)
  then show "property (heap s') (params r) key = Str (toUpperCase_string str)"
    using v by (simp add: uppercased_def)
next
  assume "param args 0 = Ref a" "a < length (heap s)"
    "property (heap s) (Ref a) ''symbol'' = Str str" "exchangeInfo G args s = (Inr r, s')"
  then show "property (heap s') (params r) ''symbol'' = Str (toUpperCase_string str)"
    by (rule exchangeInfo_symbol)
next
  assume run: "placeMultipleOrder G args s = (Inr r, s')"
    and o: "options_in_store (Some 2) args s"
  have "(placeMultipleOrder, Some 2, [(''batchOrders'', 0, False), (''timestamp'', 1, False)])
          \<in> set contracts"
    by (simp add: contracts_def)
  from honoursD [OF this run o]
  show "property (heap s') (params r) ''batchOrders'' = param args 0"
    by simp
next
  assume "placeMultipleOrder G args s = (Inr r, s')" "c < length (heap s)"
    "param args 2 \<noteq> Ref c"
  then show "heap s' ! c = heap s ! c"
    by (rule placeMultipleOrder_other_objects)
qed

theorem positional_symbol_uppercased_witness:
  "newOrder no_globals [Str ''btcusdt'', Str ''buy'', Str ''limit'', Num 1]
     \<lparr>heap = [], sent = []\<rparr> =
     (Inr \<lparr>via = Signed, verb = ''POST'', path = ''/fapi/v1/order'', params = Ref 0\<rparr>,
      \<lparr>heap = [Object [(''symbol'', Str ''BTCUSDT''), (''side'', Str ''BUY''),
                       (''type'', Str ''LIMIT''), (''timestamp'', Num 1)]],
       sent = [\<lparr>via = Signed, verb = ''POST'', path = ''/fapi/v1/order'', params = Ref 0\<rparr>]\<rparr>) \<and>
   property [Object [(''symbol'', Str ''BTCUSDT''), (''side'', Str ''BUY''),
                     (''type'', Str ''LIMIT''), (''timestamp'', Num 1)]] (Ref 0) ''symbol'' =
     Str (toUpperCase_string ''btcusdt'') \<and>
   exchangeInfo no_globals [Ref 0] \<lparr>heap = [Object [(''symbol'', Str ''btcusdt'')]], sent = []\<rparr> =
     (Inr \<lparr>via = Public, verb = ''GET'', path = ''/fapi/v1/exchangeInfo'', params = Ref 0\<rparr>,
      \<lparr>heap = [Object [(''symbol'', Str ''BTCUSDT'')]],
       sent = [\<lparr>via = Public, verb = ''GET'', path = ''/fapi/v1/exchangeInfo'',
                params = Ref 0\<rparr>]\<rparr>) \<and>
   property [Object [(''symbol'', Str ''BTCUSDT'')]] (Ref 0) ''symbol'' =
     Str (toUpperCase_string ''btcusdt'') \<and>
   placeMultipleOrder no_globals [Ref 0, Num 1700000000000]
     \<lparr>heap = [Array [Ref 1] [],
              Object [(''symbol'', Str ''btcusdt''), (''side'', Str ''BUY''),
                      (''type'', Str ''MARKET''), (''quantity'', Num 1)]],
      sent = []\<rparr> =
     (Inr \<lparr>via = Signed, verb = ''POST'', path = ''/fapi/v1/batchOrders'', params = Ref 2\<rparr>,
      \<lparr>heap = [Array [Ref 1] [],
               Object [(''symbol'', Str ''btcusdt''), (''side'', Str ''BUY''),
                       (''type'', Str ''MARKET''), (''quantity'', Num 1)],
               Object [(''batchOrders'', Ref 0), (''timestamp'', Num 1700000000000)]],
       sent = [\<lparr>via = Signed, verb = ''POST'', path = ''/fapi/v1/batchOrders'',
                params = Ref 2\<rparr>]\<rparr>)"
  using
    positional_symbol_uppercased [of newOrder "Some 4"
      "[(''symbol'', 0, True), (''side'', 1, True), (''type'', 2, True), (''timestamp'', 3, False)]"
      "''symbol''" 0 "[Str ''btcusdt'', Str ''buy'', Str ''limit'', Num 1]" "''btcusdt''"
      "\<lparr>heap = [], sent = []\<rparr>" no_globals
      "\<lparr>via = Signed, verb = ''POST'', path = ''/fapi/v1/order'', params = Ref 0\<rparr>"
      "\<lparr>heap = [Object [(''symbol'', Str ''BTCUSDT''), (''side'', Str ''BUY''),
                       (''type'', Str ''LIMIT''), (''timestamp'', Num 1)]],
       sent = [\<lparr>via = Signed, verb = ''POST'', path = ''/fapi/v1/order'', params = Ref 0\<rparr>]\<rparr>"]
    positional_symbol_uppercased [of exchangeInfo "Some 0" "[]" "''symbol''" 0 "[Ref 0]"
      "''btcusdt''" "\<lparr>heap = [Object [(''symbol'', Str ''btcusdt'')]], sent = []\<rparr>" no_globals
      "\<lparr>via = Public, verb = ''GET'', path = ''/fapi/v1/exchangeInfo'', params = Ref 0\<rparr>"
      "\<lparr>heap = [Object [(''symbol'', Str ''BTCUSDT'')]],
       sent = [\<lparr>via = Public, verb = ''GET'', path = ''/fapi/v1/exchangeInfo'',
                params = Ref 0\<rparr>]\<rparr>" 0]
    positional_symbol_uppercased [of placeMultipleOrder "Some 2" "[]" "''symbol''" 0
      "[Ref 0, Num 1700000000000]" "''btcusdt''"
      "\<lparr>heap = [Array [Ref 1] [],
              Object [(''symbol'', Str ''btcusdt''), (''side'', Str ''BUY''),
                      (''type'', Str ''MARKET''), (''quantity'', Num 1)]],
      sent = []\<rparr>" no_globals
      "\<lparr>via = Signed, verb = ''POST'', path = ''/fapi/v1/batchOrders'', params = Ref 2\<rparr>"
      "\<lparr>heap = [Array [Ref 1] [],
               Object [(''symbol'', Str ''btcusdt''), (''side'', Str ''BUY''),
                       (''type'', Str ''MARKET''), (''quantity'', Num 1)],
               Object [(''batchOrders'', Ref 0), (''timestamp'', Num 1700000000000)]],
       sent = [\<lparr>via = Signed, verb = ''POST'', path = ''/fapi/v1/batchOrders'',
                params = Ref 2\<rparr>]\<rparr>" 0 1]
  by (simp add: contracts_def newOrder_def exchangeInfo_def placeMultipleOrder_def exec_defs
        batch_defs options_in_store_def hasOwnProperty_def set_property_def)

subsection \<open>Composition of the modules\<close>

text \<open>
  Claim C4 says that the composition guarantees that no two endpoint modules define
  operations with the same name, so that every exposed name is bound to exactly one
  definition.  The composition is class extension and checks nothing: composed together, the
  two \<open>Trade\<close> modules both define \<open>queryOrder\<close> and the one composed outermost silently
  wins.  Within the first \<open>Trade\<close> module itself \<open>newOrder\<close> is defined twice, and the
  client's \<open>newOrder\<close> is the second definition, which posts to the test endpoint.
\<close>

theorem composition_accepts_conflicting_names:
  "''queryOrder'' \<in> names Trade \<inter> names Trade_2 \<and>
   resolve (Futures_class [Trade, Trade_2] []) ''queryOrder'' = Some queryOrder \<and>
   resolve (Futures_class [Trade_2, Trade] []) ''queryOrder'' = Some queryOrder_2 \<and>
   count_list (map fst Trade) ''newOrder'' = 2 \<and>
   resolve (Futures_class [Account, Trade, Market] []) ''newOrder'' = Some newOrder_dup \<and>
   fst (newOrder no_globals [Str ''BTCUSDT'', Str ''BUY'', Str ''MARKET'', Num 1]
          \<lparr>heap = [], sent = []\<rparr>) =
     Inr \<lparr>via = Signed, verb = ''POST'', path = ''/fapi/v1/order'', params = Ref 0\<rparr> \<and>
   fst (newOrder_dup no_globals [Str ''BTCUSDT'', Str ''BUY'', Str ''MARKET'', Num 1]
          \<lparr>heap = [], sent = []\<rparr>) =
     Inr \<lparr>via = Signed, verb = ''POST'', path = ''/fapi/v1/order/test'', params = Ref 0\<rparr>"
  by (simp add: names_def Futures_class_chain own_method_def Account_def Trade_def Trade_2_def
      Market_def newOrder_def newOrder_dup_def exec_defs)

text \<open>
  Claim C4 as amended.  The composition stacks the endpoint modules by class extension and
  makes no check; a name resolves to the most derived module that defines it.  No two
  different modules among \<open>Account\<close>, \<open>Trade\<close> (either file) and \<open>Market\<close> define the
  same operation name, so in every composition of them, in whatever order and over whatever
  base class, each name of a module resolves to that module's own definition.
\<close>

theorem names_resolve_in_one_module:
  assumes "set ms \<subseteq> {Account, Trade, Market} \<or> set ms \<subseteq> {Account, Trade_2, Market}"
    and "m \<in> set ms" and "n \<in> names m"
  shows "resolve (Futures_class ms base) n = own_method m n \<and> own_method m n \<noteq> None"
proof -
  have "m' = m \<or> n \<notin> names m'" if "m' \<in> set ms" for m'
  proof -
    have "m \<in> {Account, Trade, Market} \<and> m' \<in> {Account, Trade, Market} \<or>
          m \<in> {Account, Trade_2, Market} \<and> m' \<in> {Account, Trade_2, Market}"
      using assms(1,2) that by blast
    then show ?thesis
      using module_names_disjoint assms(3) by (auto simp: disjoint_iff)
  qed
  with assms(2,3) have "resolve (ms @ base) n = own_method m n"
    by (rule resolve_in_defining_module)
  then show ?thesis
    using own_method_Some [OF assms(3)] by (auto simp: Futures_class_chain)
qed

theorem names_resolve_in_one_module_witness:
  "''cancelOrder'' \<in> names Trade \<and>
   resolve (Futures_class [Account, Trade, Market] []) ''cancelOrder'' = Some cancelOrder \<and>
   resolve (Futures_class [Market, Trade_2, Account] []) ''cancelOrder'' = Some cancelOrder_2"
  using names_resolve_in_one_module [of "[Account, Trade, Market]" Trade "''cancelOrder''" "[]"]
    names_resolve_in_one_module [of "[Market, Trade_2, Account]" Trade_2 "''cancelOrder''" "[]"]
  by (simp add: names_def Trade_def Trade_2_def own_method_def)

subsection \<open>Identifiers that no signature declares\<close>

text \<open>
  Claim C5: some operations read identifiers that their signature does not declare, so a
  call evaluates a free identifier instead of a value of the caller.
  \<open>futuresAccountBalanceV3\<close> declares no parameter and reads \<open>timestamp\<close> and \<open>options\<close>:
  its outcome does not depend on the arguments at all, and with nothing bound globally it is
  a \<open>ReferenceError\<close> for \<open>timestamp\<close>.  \<open>forceOrders\<close> declares \<open>timestamp\<close> and
  \<open>options\<close> and reads \<open>symbol\<close>: whatever the arguments, it throws a \<open>ReferenceError\<close>
  for \<open>symbol\<close>.
\<close>

theorem undeclared_identifiers:
  "futuresAccountBalanceV3 G args s = futuresAccountBalanceV3 G [] s \<and>
   futuresAccountBalanceV3 no_globals args s = (Inl (ReferenceError ''timestamp''), s) \<and>
   fst (forceOrders no_globals args s) = Inl (ReferenceError ''symbol'')"
  by (simp add: futuresAccountBalanceV3_def forceOrders_def exec_defs)

subsection \<open>The configuration of the client\<close>

text \<open>
  Claim C6: after construction the base URL, the credentials and the timeout are immutable;
  no operation of any module modifies them.  Whatever object of the store holds the
  configuration, whatever the arguments and the global bindings (the arguments may even
  refer to that very object), and whether the operation returns or throws: the four
  configuration properties of the object are afterwards what they were before.
\<close>

theorem configuration_unchanged:
  assumes "(name, op) \<in> set (Account @ Trade @ Trade_2 @ Market)"
    and "c < length (heap s)" and "k \<in> set config_keys"
  shows "property (heap (snd (op G args s))) (Ref c) k = property (heap s) (Ref c) k"
proof -
  have "keeps (op G args)"
    using assms(1) by (auto intro: keeps_Account keeps_Trade keeps_Trade_2 keeps_Market)
  then have "frame s (snd (op G args s))"
    by (simp add: keeps_def)
  then show ?thesis
    using assms(2,3) by (simp add: frame_def)
qed

theorem configuration_unchanged_witness:
  "property (heap (snd (newOrder no_globals
       [Str ''btcusdt'', Str ''buy'', Str ''limit'', Num 1, Ref 0]
       \<lparr>heap = [Object [(''baseURL'', Str ''https://fapi.binance.com''), (''apiKey'', Str ''k'')]],
        sent = []\<rparr>))) (Ref 0) ''baseURL'' = Str ''https://fapi.binance.com''"
  using configuration_unchanged [of "''newOrder''" newOrder 0
      "\<lparr>heap = [Object [(''baseURL'', Str ''https://fapi.binance.com''), (''apiKey'', Str ''k'')]],
        sent = []\<rparr>" "''baseURL''" no_globals
      "[Str ''btcusdt'', Str ''buy'', Str ''limit'', Num 1, Ref 0]"]
  by (simp add: Trade_def config_keys_def property_def obj_at_def get_def own_props_def lookup_def)

subsection \<open>The default base URL\<close>

text \<open>
  Claim C8: when the options of the constructor have no \<open>baseURL\<close> or a falsy one, the
  base URL of the client is \<open>https://fapi.binance.com\<close>; a truthy \<open>baseURL\<close> is used
  unchanged.  The options are omitted or an object of the store (each of its keys listed
  once); then the construction returns, and the configuration handed to the base class has
  the base URL the claim names.
\<close>

theorem Futures_base_URL:
  assumes "param args 2 = Undefined \<or>
    (\<exists>a ps. param args 2 = Ref a \<and> a < length (heap s) \<and> heap s ! a = Object ps \<and>
       distinct (map fst ps))"
  shows "\<exists>client s'. Futures args s = (Inr client, s') \<and>
     property (heap s') client ''baseURL'' =
       (if truthy (property (heap s) (param args 2) ''baseURL'')
        then property (heap s) (param args 2) ''baseURL'' else Str ''https://fapi.binance.com'')"
proof (rule wp_returns)
  let ?Q = "\<lambda>client s'. property (heap s') client ''baseURL'' =
       (if truthy (property (heap s) (param args 2) ''baseURL'')
        then property (heap s) (param args 2) ''baseURL'' else Str ''https://fapi.binance.com'')"
  from assms show "wp (Futures args) ?Q (\<lambda>_ _. False) s"
  proof (elim disjE exE conjE)
    assume "param args 2 = Undefined"
    then show ?thesis
      by (simp add: Futures_def wp_simps heap_simps truthy_def enumerable_props_def obj_at_def
          write_props_def own_props_def with_props_def)
  next
    fix a ps
    assume o: "param args 2 = Ref a" and a: "a < length (heap s)"
      and obj: "heap s ! a = Object ps" and d: "distinct (map fst ps)"
    have d': "distinct (map fst (AList.update ''baseURL'' v ps))" for v
      using d by (rule distinct_update)
    have in_keys: "''baseURL'' \<in> fst ` set (AList.update ''baseURL'' v ps)" for v
      by (simp add: dom_update)
    show ?thesis
      using o a obj
      by (simp add: Futures_def wp_simps heap_simps truthy_def enumerable_props_def obj_at_def
          write_props_def own_props_def with_props_def lookup_assign_props_distinct [OF d'] in_keys
          property_def get_def)
  qed
qed

theorem Futures_base_URL_witness:
  "(\<exists>client s'. Futures [] \<lparr>heap = [], sent = []\<rparr> = (Inr client, s') \<and>
      property (heap s') client ''baseURL'' = Str ''https://fapi.binance.com'') \<and>
   (\<exists>client s'. Futures [Str ''key'', Str ''secret'', Ref 0]
        \<lparr>heap = [Object [(''baseURL'', Str ''https://testnet.binancefuture.com'')]],
         sent = []\<rparr> = (Inr client, s') \<and>
      property (heap s') client ''baseURL'' = Str ''https://testnet.binancefuture.com'')"
  using Futures_base_URL [of "[]" "\<lparr>heap = [], sent = []\<rparr>"]
    Futures_base_URL [of "[Str ''key'', Str ''secret'', Ref 0]"
        "\<lparr>heap = [Object [(''baseURL'', Str ''https://testnet.binancefuture.com'')]],
         sent = []\<rparr>"]
  by (simp add: param_def property_def truthy_def obj_at_def get_def own_props_def lookup_def)

subsection \<open>The caller's options object\<close>




subsection \<open>Validation of the elements of a batch\<close>

text \<open>
  Claim C10: \<open>placeMultipleOrder\<close> fails with \<open>MissingParameterError\<close> when an element
  of \<open>batchOrders\<close> lacks \<open>symbol\<close>, \<open>side\<close>, \<open>type\<close> or \<open>quantity\<close>, whatever the
  type of the order, and it does so before the timestamp is validated and before anything is
  dispatched.  The array holds elements that can be destructured (none is undefined or
  null); then the error names parameters of an element only, also when the timestamp is
  missing too, and no request has been handed to the dispatcher.
\<close>

theorem placeMultipleOrder_validates_every_element:
  assumes "param args 0 = Ref b" and "obj_at (heap s) b = Array es ps"
    and "list_all (\<lambda>v. v \<noteq> Undefined \<and> v \<noteq> Null) es"
    and "e \<in> set es" and "k \<in> set [''symbol'', ''side'', ''type'', ''quantity'']"
    and "isEmptyValue (property (heap s) e k)"
  shows "\<exists>missing. fst (placeMultipleOrder G args s) = Inl (MissingParameterError missing) \<and>
           missing \<noteq> [] \<and> set missing \<subseteq> set [''symbol'', ''side'', ''type'', ''quantity''] \<and>
           sent (snd (placeMultipleOrder G args s)) = sent s"
proof -
  let ?ks = "[''symbol'', ''side'', ''type'', ''quantity'']"
  have loop: "\<exists>missing. batch_loop (Ref b) ?ks s1 = (Inl (MissingParameterError missing), s1) \<and>
           missing \<noteq> [] \<and> set missing \<subseteq> set ?ks"
    if "s1 = s \<or> s1 = s\<lparr>heap := heap s @ [Object []]\<rparr>" for s1
    using that
  proof
    assume "s1 = s"
    then show ?thesis
      using batch_loop_fails [OF assms(2,3,4,5,6)] by simp
  next
    assume s1: "s1 = s\<lparr>heap := heap s @ [Object []]\<rparr>"
    have "obj_at (heap s1) b = Array es ps"
      using assms(2) s1 by (simp add: obj_at_alloc_Array)
    moreover have "isEmptyValue (property (heap s1) e k)"
      using assms(6) s1 by (simp add: property_alloc_empty)
    ultimately show ?thesis
      using batch_loop_fails [OF _ assms(3,4,5)] by blast
  qed
  show ?thesis
  proof (cases "param args 2 = Undefined")
    case True
    from loop [of "s\<lparr>heap := heap s @ [Object []]\<rparr>"] obtain missing where
      "batch_loop (Ref b) ?ks (s\<lparr>heap := heap s @ [Object []]\<rparr>) =
         (Inl (MissingParameterError missing), s\<lparr>heap := heap s @ [Object []]\<rparr>)"
      "missing \<noteq> []" "set missing \<subseteq> set ?ks"
      by auto
    then show ?thesis
      using True assms(1) unfolding placeMultipleOrder_def Let_def batch_loop_fold
      by (simp add: default_param_def new_object_def alloc_def ret_def bind_def seq_def)
  next
    case False
    from loop [of s] obtain missing where
      "batch_loop (Ref b) ?ks s = (Inl (MissingParameterError missing), s)"
      "missing \<noteq> []" "set missing \<subseteq> set ?ks"
      by auto
    then show ?thesis
      using False assms(1) unfolding placeMultipleOrder_def Let_def batch_loop_fold
      by (simp add: default_param_def ret_def bind_def seq_def)
  qed
qed

theorem placeMultipleOrder_validates_every_element_witness:
  "\<exists>missing.
     fst (placeMultipleOrder no_globals [Ref 0]
            \<lparr>heap = [Array [Ref 1, Ref 2] [],
                     Object [(''symbol'', Str ''BTCUSDT''), (''side'', Str ''BUY''),
                             (''type'', Str ''MARKET''), (''quantity'', Num 1)],
                     Object [(''symbol'', Str ''BTCUSDT''), (''side'', Str ''SELL''),
                             (''type'', Str ''STOP_MARKET''), (''stopPrice'', Num 9)]],
             sent = []\<rparr>) = Inl (MissingParameterError missing) \<and>
     missing \<noteq> [] \<and> set missing \<subseteq> set [''symbol'', ''side'', ''type'', ''quantity''] \<and>
     sent (snd (placeMultipleOrder no_globals [Ref 0]
            \<lparr>heap = [Array [Ref 1, Ref 2] [],
                     Object [(''symbol'', Str ''BTCUSDT''), (''side'', Str ''BUY''),
                             (''type'', Str ''MARKET''), (''quantity'', Num 1)],
                     Object [(''symbol'', Str ''BTCUSDT''), (''side'', Str ''SELL''),
                             (''type'', Str ''STOP_MARKET''), (''stopPrice'', Num 9)]],
             sent = []\<rparr>)) = []"
  using placeMultipleOrder_validates_every_element [of "[Ref 0]" 0
      "\<lparr>heap = [Array [Ref 1, Ref 2] [],
                     Object [(''symbol'', Str ''BTCUSDT''), (''side'', Str ''BUY''),
                             (''type'', Str ''MARKET''), (''quantity'', Num 1)],
                     Object [(''symbol'', Str ''BTCUSDT''), (''side'', Str ''SELL''),
                             (''type'', Str ''STOP_MARKET''), (''stopPrice'', Num 9)]],
             sent = []\<rparr>" "[Ref 1, Ref 2]" "[]" "Ref 2" "''quantity''" no_globals]
  by (simp add: param_def obj_at_def property_def get_def own_props_def lookup_def
      isEmptyValue_def)

end
